theory Spec2Isabelle
  imports Complex_Main
begin

text \<open>
  The route handlers of the SIAF backend (Express on SQLite) as functions. A handler takes
  what the request carries and the tables it touches, and returns the tables and the
  response. Conventions used throughout:
  \<^item> a table is the list of its rows, in the order the store visits them; \<open>db.get\<close>
    hands over the first row that satisfies the \<open>WHERE\<close> clause;
  \<^item> a nullable column is an \<open>option\<close>; amounts (\<open>cost\<close>, \<open>purchase_price\<close>) are whole
    numbers; dates and timestamps are the strings SQLite stores;
  \<^item> the route parameter \<open>:id\<close> is the integer it denotes, and \<open>CURRENT_TIMESTAMP\<close>,
    the clock and \<open>Math.random()\<close> are arguments of the handler;
  \<^item> a body field is absent (\<open>None\<close>) or has the type its validator asks for;
  \<^item> the checks declared with express-validator are part of a handler; the token check and
    the role check in front of it are not.
\<close>

section \<open>Values exchanged with the caller\<close>

text \<open>
  Response bodies are JSON documents. Numbers are restricted to integers: every number the
  handlers below put into a body is a row id, a count or a page number.
\<close>

datatype json =
    JNull
  | JBool bool
  | JNum int
  | JStr string
  | JArr "json list"
  | JObj "(string \<times> json) list"

text \<open>\<open>res.status(c).json(b)\<close>; \<open>res.json(b)\<close> is status 200.\<close>

datatype response = Response nat json

definition message :: "string \<Rightarrow> json" where
  "message m = JObj [(''message'', JStr m)]"

text \<open>
  A statement sent to the store either fails (the callback's \<open>err\<close> is set) or runs.
  The flag \<open>StoreError\<close> / \<open>StoreOk\<close> is the outcome the store reports for one statement;
  a failed statement leaves every table as it was.
\<close>

datatype outcome = StoreOk | StoreError

section \<open>Maintenances: start and complete\<close>

text \<open>One row of table \<open>maintenances\<close> (scripts/init-database.js).\<close>

record maintenance =
  m_id :: int
  m_maintenance_code :: string
  m_asset_id :: int
  m_type :: "string option"
  m_title :: string
  m_description :: "string option"
  m_scheduled_date :: "string option"
  m_completed_date :: "string option"
  m_status :: "string option"
  m_technician_id :: "int option"
  m_cost :: "int option"
  m_supplier :: "string option"
  m_notes :: "string option"
  m_created_at :: string
  m_updated_at :: string

text \<open>
  \<open>UPDATE t SET ... WHERE p\<close>: every row satisfying \<open>p\<close> is rewritten, the others are
  kept; \<open>this.changes\<close> is the number of rows that satisfied \<open>p\<close>.
\<close>

definition sql_update :: "('r \<Rightarrow> bool) \<Rightarrow> ('r \<Rightarrow> 'r) \<Rightarrow> 'r list \<Rightarrow> 'r list" where
  "sql_update p f rows = map (\<lambda>r. if p r then f r else r) rows"

definition sql_changes :: "('r \<Rightarrow> bool) \<Rightarrow> 'r list \<Rightarrow> nat" where
  "sql_changes p rows = length (filter p rows)"

text \<open>
  \<open>PUT /:id/start\<close>:
  \<^verbatim>\<open>UPDATE maintenances SET status = 'in_progress', updated_at = CURRENT_TIMESTAMP
     WHERE id = ? AND status = 'scheduled'\<close>
  \<open>now\<close> is the value of \<open>CURRENT_TIMESTAMP\<close>.
\<close>

definition start_where :: "int \<Rightarrow> maintenance \<Rightarrow> bool" where
  "start_where i r = (m_id r = i \<and> m_status r = Some ''scheduled'')"

definition start_set :: "string \<Rightarrow> maintenance \<Rightarrow> maintenance" where
  "start_set now r = r\<lparr>m_status := Some ''in_progress'', m_updated_at := now\<rparr>"

definition maintenance_start ::
  "outcome \<Rightarrow> string \<Rightarrow> int \<Rightarrow> maintenance list \<Rightarrow> maintenance list \<times> response" where
  "maintenance_start err now i rows =
     (case err of
        StoreError \<Rightarrow> (rows, Response 500 (message ''Error al iniciar mantenimiento''))
      | StoreOk \<Rightarrow>
          if sql_changes (start_where i) rows = 0
          then (sql_update (start_where i) (start_set now) rows,
                Response 404 (message ''Mantenimiento no encontrado o ya iniciado''))
          else (sql_update (start_where i) (start_set now) rows,
                Response 200 (message ''Mantenimiento iniciado exitosamente'')))"

text \<open>
  \<open>PUT /:id/complete\<close>. The body's \<open>notes\<close> and \<open>cost\<close> are optional; the handler tests
  them for truthiness, so an absent or empty \<open>notes\<close> and an absent or zero \<open>cost\<close> add no
  assignment. The handler declares a validator for \<open>notes\<close> but never reads its result.
  \<^verbatim>\<open>UPDATE maintenances SET status = 'completed', completed_date = CURRENT_TIMESTAMP,
     updated_at = CURRENT_TIMESTAMP [, notes = ?] [, cost = ?]
     WHERE id = ? AND status IN ('scheduled', 'in_progress')\<close>
\<close>

record complete_body =
  cb_notes :: "string option"
  cb_cost :: "int option"

definition truthy_str :: "string option \<Rightarrow> bool" where
  "truthy_str v = (case v of None \<Rightarrow> False | Some s \<Rightarrow> s \<noteq> [])"

definition truthy_num :: "int option \<Rightarrow> bool" where
  "truthy_num v = (case v of None \<Rightarrow> False | Some n \<Rightarrow> n \<noteq> 0)"

definition complete_where :: "int \<Rightarrow> maintenance \<Rightarrow> bool" where
  "complete_where i r =
     (m_id r = i \<and> (m_status r = Some ''scheduled'' \<or> m_status r = Some ''in_progress''))"

definition complete_set :: "string \<Rightarrow> complete_body \<Rightarrow> maintenance \<Rightarrow> maintenance" where
  "complete_set now b r =
     (let r1 = r\<lparr>m_status := Some ''completed'', m_completed_date := Some now,
                   m_updated_at := now\<rparr>;
          r2 = (if truthy_str (cb_notes b) then r1\<lparr>m_notes := cb_notes b\<rparr> else r1)
      in if truthy_num (cb_cost b) then r2\<lparr>m_cost := cb_cost b\<rparr> else r2)"

definition maintenance_complete ::
  "outcome \<Rightarrow> string \<Rightarrow> int \<Rightarrow> complete_body \<Rightarrow> maintenance list
     \<Rightarrow> maintenance list \<times> response" where
  "maintenance_complete err now i b rows =
     (case err of
        StoreError \<Rightarrow> (rows, Response 500 (message ''Error al completar mantenimiento''))
      | StoreOk \<Rightarrow>
          if sql_changes (complete_where i) rows = 0
          then (sql_update (complete_where i) (complete_set now b) rows,
                Response 404 (message ''Mantenimiento no encontrado o ya completado''))
          else (sql_update (complete_where i) (complete_set now b) rows,
                Response 200 (message ''Mantenimiento completado exitosamente'')))"

text \<open>A sample row, used to run the handlers on concrete tables.\<close>

definition m_row :: "int \<Rightarrow> string \<Rightarrow> maintenance" where
  "m_row i st = \<lparr>m_id = i, m_maintenance_code = ''MNT-261102-007'', m_asset_id = 4,
     m_type = Some ''preventive'', m_title = ''Filtro'', m_description = None,
     m_scheduled_date = Some ''2026-11-02'', m_completed_date = None,
     m_status = Some st, m_technician_id = None, m_cost = None, m_supplier = None,
     m_notes = None, m_created_at = ''2026-11-01 08:00:00'',
     m_updated_at = ''2026-11-01 08:00:00''\<rparr>"

section \<open>JavaScript numbers\<close>

text \<open>
  A JavaScript Number is an IEEE 754 double. A finite double is carried as the rational it
  denotes; the two zeros are not told apart. Every arithmetic operation computes the exact
  result and rounds it to the nearest double, ties to the even significand.

  \<open>round_half_even\<close> rounds to the nearest integer. \<open>round_up_scaled\<close> rounds a magnitude
  below \<open>2^53\<close>: it doubles the value until it lies in \<open>[2^52, 2^53)\<close>, where the doubles
  are the integers, at most 1074 times (the subnormal grid \<open>2^-1074\<close>).
  \<open>round_down_scaled\<close> rounds a magnitude of at least \<open>2^53\<close> by halving it into that
  range, at most 971 times; what rounds to \<open>2^1024\<close> or more is \<open>Infinity\<close> (\<open>None\<close>).
\<close>

datatype number = Finite rat | PosInf | NegInf | NaN

definition round_half_even :: "rat \<Rightarrow> int" where
  "round_half_even x =
     (let f = \<lfloor>x\<rfloor>; d = x - of_int f
      in if d < 1 / 2 then f else if 1 / 2 < d then f + 1 else if even f then f else f + 1)"

fun round_up_scaled :: "nat \<Rightarrow> rat \<Rightarrow> rat" where
  "round_up_scaled 0 x = of_int (round_half_even x)"
| "round_up_scaled (Suc d) x =
     (if 2 ^ 52 \<le> x then of_int (round_half_even x) else round_up_scaled d (2 * x) / 2)"

fun round_down_scaled :: "nat \<Rightarrow> rat \<Rightarrow> rat option" where
  "round_down_scaled 0 x =
     (if x < 2 ^ 53 \<and> round_half_even x < 2 ^ 53 then Some (of_int (round_half_even x))
      else None)"
| "round_down_scaled (Suc d) x =
     (if x < 2 ^ 53 then Some (of_int (round_half_even x))
      else map_option (\<lambda>r. 2 * r) (round_down_scaled d (x / 2)))"

definition round_magnitude :: "rat \<Rightarrow> rat option" where
  "round_magnitude x =
     (if x < 2 ^ 53 then Some (round_up_scaled 1074 x) else round_down_scaled 971 x)"

definition round_to_double :: "rat \<Rightarrow> number" where
  "round_to_double x =
     (if 0 \<le> x
      then (case round_magnitude x of Some r \<Rightarrow> Finite r | None \<Rightarrow> PosInf)
      else (case round_magnitude (- x) of Some r \<Rightarrow> Finite (- r) | None \<Rightarrow> NegInf))"

text \<open>The rationals that are doubles.\<close>

definition is_double :: "rat \<Rightarrow> bool" where
  "is_double x = (round_to_double x = Finite x)"

text \<open>The infinity with the sign of \<open>x\<close>; \<open>NaN\<close> for zero.\<close>

definition inf_of_sign :: "rat \<Rightarrow> number" where
  "inf_of_sign x = (if 0 < x then PosInf else if x < 0 then NegInf else NaN)"

text \<open>The operators \<open>-\<close>, \<open>*\<close> and \<open>/\<close> on Numbers, and \<open>Math.floor\<close>, \<open>Math.ceil\<close>.\<close>

definition num_sub :: "number \<Rightarrow> number \<Rightarrow> number" where
  "num_sub a b =
     (case (a, b) of
        (Finite x, Finite y) \<Rightarrow> round_to_double (x - y)
      | (NaN, _) \<Rightarrow> NaN
      | (_, NaN) \<Rightarrow> NaN
      | (PosInf, PosInf) \<Rightarrow> NaN
      | (NegInf, NegInf) \<Rightarrow> NaN
      | (PosInf, _) \<Rightarrow> PosInf
      | (NegInf, _) \<Rightarrow> NegInf
      | (_, PosInf) \<Rightarrow> NegInf
      | (_, NegInf) \<Rightarrow> PosInf)"

definition num_mul :: "number \<Rightarrow> number \<Rightarrow> number" where
  "num_mul a b =
     (case (a, b) of
        (Finite x, Finite y) \<Rightarrow> round_to_double (x * y)
      | (NaN, _) \<Rightarrow> NaN
      | (_, NaN) \<Rightarrow> NaN
      | (Finite x, PosInf) \<Rightarrow> inf_of_sign x
      | (Finite x, NegInf) \<Rightarrow> inf_of_sign (- x)
      | (PosInf, Finite y) \<Rightarrow> inf_of_sign y
      | (NegInf, Finite y) \<Rightarrow> inf_of_sign (- y)
      | (PosInf, PosInf) \<Rightarrow> PosInf
      | (NegInf, NegInf) \<Rightarrow> PosInf
      | (PosInf, NegInf) \<Rightarrow> NegInf
      | (NegInf, PosInf) \<Rightarrow> NegInf)"

definition num_div :: "number \<Rightarrow> number \<Rightarrow> number" where
  "num_div a b =
     (case (a, b) of
        (Finite x, Finite y) \<Rightarrow> if y = 0 then inf_of_sign x else round_to_double (x / y)
      | (NaN, _) \<Rightarrow> NaN
      | (_, NaN) \<Rightarrow> NaN
      | (Finite x, _) \<Rightarrow> Finite 0
      | (PosInf, Finite y) \<Rightarrow> if 0 \<le> y then PosInf else NegInf
      | (NegInf, Finite y) \<Rightarrow> if 0 \<le> y then NegInf else PosInf
      | (_, _) \<Rightarrow> NaN)"

definition num_floor :: "number \<Rightarrow> number" where
  "num_floor a = (case a of Finite x \<Rightarrow> Finite (of_int \<lfloor>x\<rfloor>) | _ \<Rightarrow> a)"

definition num_ceil :: "number \<Rightarrow> number" where
  "num_ceil a = (case a of Finite x \<Rightarrow> Finite (of_int \<lceil>x\<rceil>) | _ \<Rightarrow> a)"

text \<open>
  The Number a decimal integer literal denotes. \<open>ToNumber\<close> and \<open>parseInt\<close> both give it
  (the language asks for the nearest double up to 20 significant digits, and engines round
  correctly beyond).
\<close>

definition literal_number :: "int \<Rightarrow> number" where
  "literal_number n = round_to_double (of_int n)"

definition digit :: "nat \<Rightarrow> char" where
  "digit n = ''0123456789'' ! (n mod 10)"

text \<open>\<open>Number.prototype.toString\<close> on a non-negative integer.\<close>

fun to_string :: "nat \<Rightarrow> string" where
  "to_string n = (if n < 10 then [digit n] else to_string (n div 10) @ [digit (n mod 10)])"

declare to_string.simps [simp del]

text \<open>
  \<open>toString\<close> of an integral Number of magnitude below \<open>10^21\<close> (beyond, JavaScript
  switches to exponent notation), and of the three special values.
\<close>

definition number_to_string :: "number \<Rightarrow> string" where
  "number_to_string a =
     (case a of
        Finite x \<Rightarrow> if x < 0 then ''-'' @ to_string (nat \<lfloor>- x\<rfloor>) else to_string (nat \<lfloor>x\<rfloor>)
      | PosInf \<Rightarrow> ''Infinity''
      | NegInf \<Rightarrow> ''-Infinity''
      | NaN \<Rightarrow> ''NaN'')"

text \<open>
  A Number in a JSON body. The handlers serialise integral Numbers only (a rounded integer
  literal, a rounded count, a ceiling); \<open>Infinity\<close> and \<open>NaN\<close> are written as \<open>null\<close>.
\<close>

definition json_of_number :: "number \<Rightarrow> json" where
  "json_of_number a = (case a of Finite x \<Rightarrow> JNum \<lfloor>x\<rfloor> | _ \<Rightarrow> JNull)"

section \<open>Domain code generator\<close>

text \<open>
  The three generators read the local calendar date of \<open>new Date()\<close> and one draw of
  \<open>Math.random()\<close>. Both are inputs here: \<open>js_date\<close> holds what \<open>getFullYear\<close>,
  \<open>getMonth\<close> (0 for January) and \<open>getDate\<close> return, and \<open>rnd\<close> is the draw, a double in
  \<open>[0, 1)\<close>. \<open>Math.random() * 1000\<close> is the rounded product of two doubles.
\<close>

record js_date =
  getFullYear :: nat
  getMonth :: nat
  getDate :: nat

text \<open>\<open>s.substr(-k)\<close>: the last \<open>k\<close> characters, the whole string when it is shorter.\<close>

definition substr_from_end :: "nat \<Rightarrow> string \<Rightarrow> string" where
  "substr_from_end k s = drop (length s - k) s"

definition padStart :: "nat \<Rightarrow> char \<Rightarrow> string \<Rightarrow> string" where
  "padStart k c s = replicate (k - length s) c @ s"

definition generateFormCode :: "js_date \<Rightarrow> rat \<Rightarrow> string" where
  "generateFormCode now rnd =
     (let year = substr_from_end 2 (to_string (getFullYear now));
          month = padStart 2 CHR ''0'' (to_string (getMonth now + 1));
          day = padStart 2 CHR ''0'' (to_string (getDate now));
          random = padStart 3 CHR ''0''
                     (number_to_string (num_floor (num_mul (Finite rnd) (Finite 1000))))
      in ''FR-'' @ year @ month @ day @ ''-'' @ random)"

definition generateMaintenanceCode :: "js_date \<Rightarrow> rat \<Rightarrow> string" where
  "generateMaintenanceCode now rnd =
     (let year = substr_from_end 2 (to_string (getFullYear now));
          month = padStart 2 CHR ''0'' (to_string (getMonth now + 1));
          day = padStart 2 CHR ''0'' (to_string (getDate now));
          random = padStart 3 CHR ''0''
                     (number_to_string (num_floor (num_mul (Finite rnd) (Finite 1000))))
      in ''MNT-'' @ year @ month @ day @ ''-'' @ random)"

definition generateIncidentCode :: "js_date \<Rightarrow> rat \<Rightarrow> string" where
  "generateIncidentCode now rnd =
     (let year = substr_from_end 2 (to_string (getFullYear now));
          month = padStart 2 CHR ''0'' (to_string (getMonth now + 1));
          day = padStart 2 CHR ''0'' (to_string (getDate now));
          random = padStart 3 CHR ''0''
                     (number_to_string (num_floor (num_mul (Finite rnd) (Finite 1000))))
      in ''INC-'' @ year @ month @ day @ ''-'' @ random)"

text \<open>
  The shape the specification asks for, written independently of the generators:
  \<open>fixed_digits k n\<close> is the decimal numeral of \<open>n\<close> in exactly \<open>k\<close> digits, zero-padded
  on the left (the \<open>k\<close> least significant digits of \<open>n\<close>).
\<close>

definition fixed_digits :: "nat \<Rightarrow> nat \<Rightarrow> string" where
  "fixed_digits k n = map (\<lambda>i. digit (n div 10 ^ i)) (rev [0..<k])"

definition spec_code :: "string \<Rightarrow> js_date \<Rightarrow> nat \<Rightarrow> string" where
  "spec_code prefix now nnn =
     prefix @ ''-'' @ fixed_digits 2 (getFullYear now mod 100)
       @ fixed_digits 2 (getMonth now + 1) @ fixed_digits 2 (getDate now)
       @ ''-'' @ fixed_digits 3 nnn"

section \<open>Request validation\<close>

text \<open>
  The handlers declare their checks with express-validator and answer 400 with the list of
  failures. Of each failure only the message is kept here; the library adds the field's
  name, location and value.
\<close>

definition validation_failed :: "string list \<Rightarrow> response" where
  "validation_failed msgs =
     Response 400 (JObj [(''errors'', JArr (map (\<lambda>m. JObj [(''msg'', JStr m)]) msgs))])"

text \<open>\<open>notEmpty()\<close>: an absent field and the empty string fail.\<close>

definition notEmpty :: "string option \<Rightarrow> bool" where
  "notEmpty v = (case v of None \<Rightarrow> False | Some s \<Rightarrow> s \<noteq> [])"

text \<open>\<open>isInt()\<close> on a field carried as an integer: only an absent field fails.\<close>

definition isInt :: "int option \<Rightarrow> bool" where
  "isInt v = (case v of None \<Rightarrow> False | Some n \<Rightarrow> True)"

definition check :: "bool \<Rightarrow> string \<Rightarrow> string list" where
  "check ok msg = (if ok then [] else [msg])"

text \<open>The value bound for a text column that validation has shown to be present.\<close>

definition str_of :: "string option \<Rightarrow> string" where
  "str_of v = (case v of None \<Rightarrow> [] | Some s \<Rightarrow> s)"

section \<open>Incidents: update and resolve\<close>

text \<open>One row of table \<open>incidents\<close>.\<close>

record incident =
  i_id :: int
  i_incident_code :: string
  i_title :: string
  i_description :: string
  i_asset_id :: "int option"
  i_priority :: "string option"
  i_status :: "string option"
  i_reported_by :: "int option"
  i_assigned_to :: "int option"
  i_reported_date :: string
  i_resolved_date :: "string option"
  i_solution :: "string option"
  i_created_at :: string
  i_updated_at :: string

record incident_body =
  ib_title :: "string option"
  ib_description :: "string option"
  ib_priority :: "string option"
  ib_status :: "string option"
  ib_assigned_to :: "int option"
  ib_solution :: "string option"

text \<open>
  \<open>PUT /:id\<close>:
  \<^verbatim>\<open>UPDATE incidents SET title = ?, description = ?, priority = ?, status = ?,
       assigned_to = ?, solution = ?, updated_at = CURRENT_TIMESTAMP
       [, resolved_date = CURRENT_TIMESTAMP]      -- when status is 'resolved' or 'closed'
     WHERE id = ?\<close>
\<close>

definition incident_update_set :: "string \<Rightarrow> incident_body \<Rightarrow> incident \<Rightarrow> incident" where
  "incident_update_set now b r =
     (let r1 = r\<lparr>i_title := str_of (ib_title b), i_description := str_of (ib_description b),
                   i_priority := ib_priority b, i_status := ib_status b,
                   i_assigned_to := ib_assigned_to b, i_solution := ib_solution b,
                   i_updated_at := now\<rparr>
      in if ib_status b = Some ''resolved'' \<or> ib_status b = Some ''closed''
         then r1\<lparr>i_resolved_date := Some now\<rparr> else r1)"

definition incident_update ::
  "outcome \<Rightarrow> string \<Rightarrow> int \<Rightarrow> incident_body \<Rightarrow> incident list \<Rightarrow> incident list \<times> response"
  where
  "incident_update err now i b rows =
     (let errors = check (notEmpty (ib_title b)) (''T'' @ [CHR 0xED] @ ''tulo es requerido'')
                 @ check (notEmpty (ib_description b))
                     (''Descripci'' @ [CHR 0xF3] @ ''n es requerida'')
      in if errors \<noteq> [] then (rows, validation_failed errors)
         else case err of
           StoreError \<Rightarrow> (rows, Response 500 (message ''Error al actualizar incidencia''))
         | StoreOk \<Rightarrow>
             if sql_changes (\<lambda>r. i_id r = i) rows = 0
             then (sql_update (\<lambda>r. i_id r = i) (incident_update_set now b) rows,
                   Response 404 (message ''Incidencia no encontrada''))
             else (sql_update (\<lambda>r. i_id r = i) (incident_update_set now b) rows,
                   Response 200 (message ''Incidencia actualizada exitosamente'')))"

text \<open>
  \<open>PUT /:id/resolve\<close>:
  \<^verbatim>\<open>UPDATE incidents SET solution = ?, status = 'resolved',
       resolved_date = CURRENT_TIMESTAMP, updated_at = CURRENT_TIMESTAMP
     WHERE id = ?\<close>
\<close>

definition incident_resolve_set :: "string \<Rightarrow> string option \<Rightarrow> incident \<Rightarrow> incident" where
  "incident_resolve_set now solution r =
     r\<lparr>i_solution := solution, i_status := Some ''resolved'', i_resolved_date := Some now,
        i_updated_at := now\<rparr>"

definition incident_resolve ::
  "outcome \<Rightarrow> string \<Rightarrow> int \<Rightarrow> string option \<Rightarrow> incident list \<Rightarrow> incident list \<times> response"
  where
  "incident_resolve err now i solution rows =
     (let errors = check (notEmpty solution) (''Soluci'' @ [CHR 0xF3] @ ''n es requerida'')
      in if errors \<noteq> [] then (rows, validation_failed errors)
         else case err of
           StoreError \<Rightarrow> (rows, Response 500 (message ''Error al resolver incidencia''))
         | StoreOk \<Rightarrow>
             if sql_changes (\<lambda>r. i_id r = i) rows = 0
             then (sql_update (\<lambda>r. i_id r = i) (incident_resolve_set now solution) rows,
                   Response 404 (message ''Incidencia no encontrada''))
             else (sql_update (\<lambda>r. i_id r = i) (incident_resolve_set now solution) rows,
                   Response 200 (message ''Incidencia resuelta exitosamente'')))"

text \<open>A sample incident that was resolved on 1 October 2026.\<close>

definition i_row :: "int \<Rightarrow> incident" where
  "i_row i = \<lparr>i_id = i, i_incident_code = ''INC-260930-512'', i_title = ''Impresora'',
     i_description = ''No imprime'', i_asset_id = Some 4, i_priority = Some ''high'',
     i_status = Some ''resolved'', i_reported_by = Some 2, i_assigned_to = Some 5,
     i_reported_date = ''2026-09-30 08:00:00'',
     i_resolved_date = Some ''2026-10-01 10:00:00'', i_solution = Some ''Toner'',
     i_created_at = ''2026-09-30 08:00:00'', i_updated_at = ''2026-10-01 10:00:00''\<rparr>"

definition i_body :: "string \<Rightarrow> incident_body" where
  "i_body st = \<lparr>ib_title = Some ''Impresora'', ib_description = Some ''No imprime'',
     ib_priority = Some ''high'', ib_status = Some st, ib_assigned_to = Some 5,
     ib_solution = Some ''Toner''\<rparr>"

section \<open>Assets and responsive forms\<close>

text \<open>One row of table \<open>assets\<close> and one of \<open>responsive_forms\<close>.\<close>

record asset =
  a_id :: int
  a_asset_code :: string
  a_name :: string
  a_description :: "string option"
  a_category_id :: "int option"
  a_brand :: "string option"
  a_model :: "string option"
  a_serial_number :: "string option"
  a_purchase_date :: "string option"
  a_purchase_price :: "int option"
  a_supplier :: "string option"
  a_location :: "string option"
  a_status :: "string option"
  a_responsible_user_id :: "int option"
  a_warranty_expiry :: "string option"
  a_notes :: "string option"
  a_created_at :: string
  a_updated_at :: string

record responsive_form =
  rf_id :: int
  rf_form_code :: string
  rf_asset_id :: int
  rf_previous_responsible_id :: "int option"
  rf_new_responsible_id :: int
  rf_transfer_date :: string
  rf_reason :: "string option"
  rf_conditions :: "string option"
  rf_observations :: "string option"
  rf_approved_by :: "int option"
  rf_status :: "string option"
  rf_created_at :: string
  rf_updated_at :: string

record store =
  assets :: "asset list"
  forms :: "responsive_form list"

text \<open>
  \<open>INTEGER PRIMARY KEY AUTOINCREMENT\<close>: one more than the largest id in the table. No
  handler deletes a row, so the largest id ever used is the largest id present.
\<close>

definition next_id :: "int list \<Rightarrow> int" where
  "next_id ids = foldr max ids 0 + 1"

text \<open>The value bound for an integer column that validation has shown to be present.\<close>

definition num_of :: "int option \<Rightarrow> int" where
  "num_of v = (case v of None \<Rightarrow> 0 | Some n \<Rightarrow> n)"

subsection \<open>Asset endpoints\<close>

record asset_body =
  ab_name :: "string option"
  ab_description :: "string option"
  ab_category_id :: "int option"
  ab_brand :: "string option"
  ab_model :: "string option"
  ab_serial_number :: "string option"
  ab_purchase_date :: "string option"
  ab_purchase_price :: "int option"
  ab_supplier :: "string option"
  ab_location :: "string option"
  ab_status :: "string option"
  ab_responsible_user_id :: "int option"
  ab_warranty_expiry :: "string option"
  ab_notes :: "string option"

text \<open>
  \<open>PUT /:id\<close>:
  \<^verbatim>\<open>UPDATE assets SET name = ?, description = ?, category_id = ?, brand = ?, model = ?,
       serial_number = ?, purchase_date = ?, purchase_price = ?, supplier = ?,
       location = ?, status = ?, responsible_user_id = ?, warranty_expiry = ?,
       notes = ?, updated_at = CURRENT_TIMESTAMP
     WHERE id = ?\<close>
\<close>

definition asset_update_set :: "string \<Rightarrow> asset_body \<Rightarrow> asset \<Rightarrow> asset" where
  "asset_update_set now b a =
     a\<lparr>a_name := str_of (ab_name b), a_description := ab_description b,
       a_category_id := ab_category_id b, a_brand := ab_brand b, a_model := ab_model b,
       a_serial_number := ab_serial_number b, a_purchase_date := ab_purchase_date b,
       a_purchase_price := ab_purchase_price b, a_supplier := ab_supplier b,
       a_location := ab_location b, a_status := ab_status b,
       a_responsible_user_id := ab_responsible_user_id b,
       a_warranty_expiry := ab_warranty_expiry b, a_notes := ab_notes b,
       a_updated_at := now\<rparr>"

definition asset_update ::
  "outcome \<Rightarrow> string \<Rightarrow> int \<Rightarrow> asset_body \<Rightarrow> store \<Rightarrow> store \<times> response" where
  "asset_update err now i b st =
     (let errors = check (notEmpty (ab_name b)) ''Nombre del activo es requerido''
                 @ check (isInt (ab_category_id b))
                     (''Categor'' @ [CHR 0xED] @ ''a v'' @ [CHR 0xE1] @ ''lida es requerida'')
      in if errors \<noteq> [] then (st, validation_failed errors)
         else case err of
           StoreError \<Rightarrow> (st, Response 500 (message ''Error al actualizar activo''))
         | StoreOk \<Rightarrow>
             if sql_changes (\<lambda>a. a_id a = i) (assets st) = 0
             then (st\<lparr>assets := sql_update (\<lambda>a. a_id a = i) (asset_update_set now b)
                                  (assets st)\<rparr>,
                   Response 404 (message ''Activo no encontrado''))
             else (st\<lparr>assets := sql_update (\<lambda>a. a_id a = i) (asset_update_set now b)
                                  (assets st)\<rparr>,
                   Response 200 (message ''Activo actualizado exitosamente'')))"

text \<open>
  \<open>DELETE /:id\<close> (soft delete):
  \<^verbatim>\<open>UPDATE assets SET status = 'inactive', updated_at = CURRENT_TIMESTAMP WHERE id = ?\<close>
\<close>

definition asset_delete :: "outcome \<Rightarrow> string \<Rightarrow> int \<Rightarrow> store \<Rightarrow> store \<times> response" where
  "asset_delete err now i st =
     (case err of
        StoreError \<Rightarrow> (st, Response 500 (message ''Error al eliminar activo''))
      | StoreOk \<Rightarrow>
          if sql_changes (\<lambda>a. a_id a = i) (assets st) = 0
          then (st\<lparr>assets := sql_update (\<lambda>a. a_id a = i)
                    (\<lambda>a. a\<lparr>a_status := Some ''inactive'', a_updated_at := now\<rparr>) (assets st)\<rparr>,
                Response 404 (message ''Activo no encontrado''))
          else (st\<lparr>assets := sql_update (\<lambda>a. a_id a = i)
                    (\<lambda>a. a\<lparr>a_status := Some ''inactive'', a_updated_at := now\<rparr>) (assets st)\<rparr>,
                Response 200 (message ''Activo eliminado exitosamente'')))"

text \<open>
  \<open>POST /\<close>: look the code up, answer 400 when it is taken, insert otherwise. The body's
  \<open>status\<close> defaults to \<open>active\<close> when absent.
\<close>

record asset_create_body = asset_body +
  ab_asset_code :: "string option"

definition asset_create ::
  "outcome \<Rightarrow> outcome \<Rightarrow> string \<Rightarrow> asset_create_body \<Rightarrow> store \<Rightarrow> store \<times> response" where
  "asset_create err_select err_insert now b st =
     (let errors = check (notEmpty (ab_name b)) ''Nombre del activo es requerido''
                 @ check (notEmpty (ab_asset_code b))
                     (''C'' @ [CHR 0xF3] @ ''digo del activo es requerido'')
                 @ check (isInt (ab_category_id b))
                     (''Categor'' @ [CHR 0xED] @ ''a v'' @ [CHR 0xE1] @ ''lida es requerida'');
          asset_code = str_of (ab_asset_code b);
          name = str_of (ab_name b);
          status = (case ab_status b of None \<Rightarrow> ''active'' | Some s \<Rightarrow> s)
      in if errors \<noteq> [] then (st, validation_failed errors)
         else case err_select of
           StoreError \<Rightarrow> (st, Response 500 (message ''Error del servidor''))
         | StoreOk \<Rightarrow>
            (case find (\<lambda>a. a_asset_code a = asset_code) (assets st) of
               Some existing \<Rightarrow>
                 (st, Response 400 (message (''El c'' @ [CHR 0xF3] @ ''digo del activo ya existe'')))
             | None \<Rightarrow>
                (case err_insert of
                   StoreError \<Rightarrow> (st, Response 500 (message ''Error al crear activo''))
                 | StoreOk \<Rightarrow>
                    (let lastID = next_id (map a_id (assets st));
                         row = \<lparr>a_id = lastID, a_asset_code = asset_code, a_name = name,
                                a_description = ab_description b,
                                a_category_id = ab_category_id b, a_brand = ab_brand b,
                                a_model = ab_model b, a_serial_number = ab_serial_number b,
                                a_purchase_date = ab_purchase_date b,
                                a_purchase_price = ab_purchase_price b,
                                a_supplier = ab_supplier b, a_location = ab_location b,
                                a_status = Some status,
                                a_responsible_user_id = ab_responsible_user_id b,
                                a_warranty_expiry = ab_warranty_expiry b,
                                a_notes = ab_notes b, a_created_at = now, a_updated_at = now\<rparr>
                     in (st\<lparr>assets := assets st @ [row]\<rparr>,
                         Response 201
                           (JObj [(''message'', JStr ''Activo creado exitosamente''),
                                  (''asset'', JObj [(''id'', JNum lastID),
                                                    (''asset_code'', JStr asset_code),
                                                    (''name'', JStr name),
                                                    (''status'', JStr status)])]))))))"

subsection \<open>Responsive form endpoints\<close>

record form_body =
  fb_asset_id :: "int option"
  fb_new_responsible_id :: "int option"
  fb_transfer_date :: "string option"
  fb_reason :: "string option"
  fb_conditions :: "string option"
  fb_observations :: "string option"

text \<open>
  \<open>POST /\<close>: read the asset's current responsible, then insert the form as \<open>pending\<close>.
  \<open>isISO8601\<close> is express-validator's check of that name, a parameter here. The insert fails when the
  store reports an error, which it does in particular when the generated \<open>form_code\<close> is
  already in the table (the column is \<open>UNIQUE\<close>).
\<close>

definition form_create ::
  "(string \<Rightarrow> bool) \<Rightarrow> outcome \<Rightarrow> outcome \<Rightarrow> js_date \<Rightarrow> rat \<Rightarrow> string \<Rightarrow> form_body
     \<Rightarrow> store \<Rightarrow> store \<times> response" where
  "form_create isISO8601 err_select err_insert today rnd now b st =
     (let errors = check (isInt (fb_asset_id b)) (''Activo v'' @ [CHR 0xE1] @ ''lido es requerido'')
                 @ check (isInt (fb_new_responsible_id b))
                     (''Nuevo responsable v'' @ [CHR 0xE1] @ ''lido es requerido'')
                 @ check (case fb_transfer_date b of None \<Rightarrow> False | Some d \<Rightarrow> isISO8601 d)
                     (''Fecha de transferencia v'' @ [CHR 0xE1] @ ''lida es requerida'')
                 @ check (notEmpty (fb_reason b))
                     (''Raz'' @ [CHR 0xF3] @ ''n de la transferencia es requerida'');
          asset_id = num_of (fb_asset_id b);
          new_responsible_id = num_of (fb_new_responsible_id b);
          transfer_date = str_of (fb_transfer_date b);
          form_code = generateFormCode today rnd
      in if errors \<noteq> [] then (st, validation_failed errors)
         else case err_select of
           StoreError \<Rightarrow>
             (st, Response 500 (message (''Error al obtener informaci'' @ [CHR 0xF3]
                                           @ ''n del activo'')))
         | StoreOk \<Rightarrow>
            (case find (\<lambda>a. a_id a = asset_id) (assets st) of
               None \<Rightarrow> (st, Response 404 (message ''Activo no encontrado''))
             | Some asset \<Rightarrow>
                (if err_insert = StoreError
                      \<or> list_ex (\<lambda>f. rf_form_code f = form_code) (forms st)
                 then (st, Response 500 (message ''Error al crear formato responsivo''))
                 else
                   (let lastID = next_id (map rf_id (forms st));
                        row = \<lparr>rf_id = lastID, rf_form_code = form_code, rf_asset_id = asset_id,
                               rf_previous_responsible_id = a_responsible_user_id asset,
                               rf_new_responsible_id = new_responsible_id,
                               rf_transfer_date = transfer_date, rf_reason = fb_reason b,
                               rf_conditions = fb_conditions b,
                               rf_observations = fb_observations b, rf_approved_by = None,
                               rf_status = Some ''pending'', rf_created_at = now,
                               rf_updated_at = now\<rparr>
                    in (st\<lparr>forms := forms st @ [row]\<rparr>,
                        Response 201
                          (JObj [(''message'', JStr ''Formato responsivo creado exitosamente''),
                                 (''form'', JObj [(''id'', JNum lastID),
                                                  (''form_code'', JStr form_code),
                                                  (''asset_id'', JNum asset_id),
                                                  (''new_responsible_id'', JNum new_responsible_id),
                                                  (''transfer_date'', JStr transfer_date),
                                                  (''status'', JStr ''pending'')])]))))))"

text \<open>
  The body of \<open>PUT /:id/approve\<close>. \<open>approved\<close> is a JSON scalar (arrays and objects are
  left out); \<open>isBoolean()\<close> accepts the booleans, the numbers 0 and 1 and the strings
  \<open>true\<close>, \<open>false\<close>, \<open>1\<close>, \<open>0\<close>. The handler then tests the raw value for truthiness.
\<close>

datatype scalar = SBool bool | SNum int | SStr string

record approve_body =
  approved :: "scalar option"
  comments :: "string option"

definition isBoolean :: "scalar option \<Rightarrow> bool" where
  "isBoolean v =
     (case v of
        None \<Rightarrow> False
      | Some (SBool b) \<Rightarrow> True
      | Some (SNum n) \<Rightarrow> n = 0 \<or> n = 1
      | Some (SStr s) \<Rightarrow> s = ''true'' \<or> s = ''false'' \<or> s = ''1'' \<or> s = ''0'')"

definition truthy :: "scalar option \<Rightarrow> bool" where
  "truthy v =
     (case v of
        None \<Rightarrow> False
      | Some (SBool b) \<Rightarrow> b
      | Some (SNum n) \<Rightarrow> n \<noteq> 0
      | Some (SStr s) \<Rightarrow> s \<noteq> [])"

text \<open>
  \<open>PUT /:id/approve\<close>, three statements in sequence:
  \<^verbatim>\<open>UPDATE responsive_forms SET status = ?, approved_by = ?, observations = ?,
       updated_at = CURRENT_TIMESTAMP WHERE id = ? AND status = 'pending'\<close>
  and, only when \<open>approved\<close> is truthy,
  \<^verbatim>\<open>SELECT asset_id, new_responsible_id FROM responsive_forms WHERE id = ?
  UPDATE assets SET responsible_user_id = ?, updated_at = CURRENT_TIMESTAMP WHERE id = ?\<close>
  \<open>approved_by\<close> is the id of the authenticated user.
\<close>

definition form_decide_set ::
  "string \<Rightarrow> string \<Rightarrow> int \<Rightarrow> string option \<Rightarrow> responsive_form \<Rightarrow> responsive_form" where
  "form_decide_set now status approved_by cmts f =
     f\<lparr>rf_status := Some status, rf_approved_by := Some approved_by,
       rf_observations := cmts, rf_updated_at := now\<rparr>"

definition form_approve ::
  "outcome \<Rightarrow> outcome \<Rightarrow> outcome \<Rightarrow> string \<Rightarrow> int \<Rightarrow> int \<Rightarrow> approve_body
     \<Rightarrow> store \<Rightarrow> store \<times> response" where
  "form_approve err_form err_select err_asset now approved_by i b st =
     (let errors = check (isBoolean (approved b))
                     (''Estado de aprobaci'' @ [CHR 0xF3] @ ''n requerido'');
          status = (if truthy (approved b) then ''approved'' else ''rejected'');
          finished = Response 200 (message (''Formato responsivo ''
                   @ (if status = ''approved'' then ''aprobado'' else ''rechazado'')
                   @ '' exitosamente''))
      in if errors \<noteq> [] then (st, validation_failed errors)
         else case err_form of
           StoreError \<Rightarrow> (st, Response 500 (message ''Error al actualizar formato responsivo''))
         | StoreOk \<Rightarrow>
            (let st1 = st\<lparr>forms := sql_update
                          (\<lambda>f. rf_id f = i \<and> rf_status f = Some ''pending'')
                          (form_decide_set now status approved_by (comments b)) (forms st)\<rparr>
             in if sql_changes (\<lambda>f. rf_id f = i \<and> rf_status f = Some ''pending'') (forms st) = 0
                then (st1, Response 404 (message ''Formato no encontrado o ya procesado''))
                else if truthy (approved b)
                then (case err_select of
                        StoreError \<Rightarrow>
                          (st1, Response 500 (message ''Error al obtener datos del formato''))
                      | StoreOk \<Rightarrow>
                         (case find (\<lambda>f. rf_id f = i) (forms st1) of
                            None \<Rightarrow>
                              (st1, Response 500 (message ''Error al obtener datos del formato''))
                          | Some form \<Rightarrow>
                             (case err_asset of
                                StoreError \<Rightarrow>
                                  (st1, Response 500
                                     (message ''Error al actualizar responsable del activo''))
                              | StoreOk \<Rightarrow>
                                  (st1\<lparr>assets := sql_update (\<lambda>a. a_id a = rf_asset_id form)
                                       (\<lambda>a. a\<lparr>a_responsible_user_id
                                                 := Some (rf_new_responsible_id form),
                                               a_updated_at := now\<rparr>)
                                       (assets st1)\<rparr>,
                                   finished))))
                else (st1, finished)))"

subsection \<open>The operations that write to \<open>assets\<close> or \<open>responsive_forms\<close>\<close>

text \<open>
  The handlers above are all the handlers of the repository that issue a statement on
  table \<open>assets\<close>; the remaining ones (users, incidents, maintenances, categories, the
  reports) never name it in an \<open>INSERT\<close> or \<open>UPDATE\<close>.
\<close>

datatype operation =
    AssetCreate outcome outcome string asset_create_body
  | AssetUpdate outcome string int asset_body
  | AssetDelete outcome string int
  | FormCreate "string \<Rightarrow> bool" outcome outcome js_date rat string form_body
  | FormApprove outcome outcome outcome string int int approve_body

fun step :: "operation \<Rightarrow> store \<Rightarrow> store \<times> response" where
  "step (AssetCreate e1 e2 now b) st = asset_create e1 e2 now b st"
| "step (AssetUpdate e now i b) st = asset_update e now i b st"
| "step (AssetDelete e now i) st = asset_delete e now i st"
| "step (FormCreate v e1 e2 today rnd now b) st = form_create v e1 e2 today rnd now b st"
| "step (FormApprove e1 e2 e3 now uid i b) st = form_approve e1 e2 e3 now uid i b st"

text \<open>The operations that can rewrite \<open>responsible_user_id\<close> of an existing asset.\<close>

fun writes_responsible :: "operation \<Rightarrow> bool" where
  "writes_responsible (AssetUpdate e now i b) = True"
| "writes_responsible (FormApprove e1 e2 e3 now uid i b) = truthy (approved b)"
| "writes_responsible other = False"

text \<open>Sample rows: asset 3 is held by user 7; form 1 asks to hand it to user 9.\<close>

definition a_row :: asset where
  "a_row = \<lparr>a_id = 3, a_asset_code = ''PC-003'', a_name = ''Laptop'', a_description = None,
     a_category_id = Some 1, a_brand = Some ''Dell'', a_model = None, a_serial_number = None,
     a_purchase_date = None, a_purchase_price = None, a_supplier = None,
     a_location = Some ''Lobby'', a_status = Some ''active'', a_responsible_user_id = Some 7,
     a_warranty_expiry = None, a_notes = None, a_created_at = ''2026-01-10 08:00:00'',
     a_updated_at = ''2026-01-10 08:00:00''\<rparr>"

definition rf_row :: responsive_form where
  "rf_row = \<lparr>rf_id = 1, rf_form_code = ''FR-261101-042'', rf_asset_id = 3,
     rf_previous_responsible_id = Some 7, rf_new_responsible_id = 9,
     rf_transfer_date = ''2026-11-05'', rf_reason = Some ''Cambio de puesto'',
     rf_conditions = None, rf_observations = None, rf_approved_by = None,
     rf_status = Some ''pending'', rf_created_at = ''2026-11-01 08:00:00'',
     rf_updated_at = ''2026-11-01 08:00:00''\<rparr>"

definition st0 :: store where
  "st0 = \<lparr>assets = [a_row], forms = [rf_row]\<rparr>"

definition a_body :: asset_body where
  "a_body = \<lparr>ab_name = Some ''Laptop'', ab_description = None, ab_category_id = Some 1,
     ab_brand = Some ''Dell'', ab_model = None, ab_serial_number = None,
     ab_purchase_date = None, ab_purchase_price = None, ab_supplier = None,
     ab_location = Some ''Lobby'', ab_status = Some ''active'',
     ab_responsible_user_id = Some 9, ab_warranty_expiry = None, ab_notes = None\<rparr>"

section \<open>Filtered, paginated lists\<close>

text \<open>
  A list handler reads its filters from the query string. A filter value is a string or
  absent (repeated and nested parameters are left out). \<open>page\<close> and \<open>limit\<close> arrive as
  decimal integer literals, or are absent (\<open>None\<close>), which selects the Number defaults 1
  and 10 of the destructuring. The handler reads such a literal with \<open>page - 1\<close>,
  \<open>parseInt(page)\<close>, \<open>parseInt(limit)\<close>, \<open>\<dots> * limit\<close> and \<open>total / limit\<close>, each of which
  converts it to the nearest double first: \<open>number_or\<close>.

  The SQL text is the handler's, with every run of white space of a template literal
  written as one space.
\<close>

datatype param = PStr string | PNum number

text \<open>
  \<^verbatim>\<open>if (v) { query += sql; params.push(...binds(v)); }\<close>
  A string is truthy when it is not empty.
\<close>

definition add_filter ::
  "string option \<Rightarrow> string \<Rightarrow> (string \<Rightarrow> param list) \<Rightarrow> string \<times> param list
     \<Rightarrow> string \<times> param list" where
  "add_filter v sql binds qp =
     (case v of
        None \<Rightarrow> qp
      | Some s \<Rightarrow> if s \<noteq> [] then (fst qp @ sql, snd qp @ binds s) else qp)"

definition number_or :: "rat \<Rightarrow> int option \<Rightarrow> number" where
  "number_or d v = (case v of None \<Rightarrow> Finite d | Some n \<Rightarrow> literal_number n)"

text \<open>
  \<^verbatim>\<open>{ page: parseInt(page), limit: parseInt(limit), total: countResult.total,\<close>
  \<^verbatim>\<open>  totalPages: Math.ceil(countResult.total / limit) }\<close>
\<close>

definition pagination :: "number \<Rightarrow> number \<Rightarrow> number \<Rightarrow> json" where
  "pagination page limit tot =
     JObj [(''page'', json_of_number page), (''limit'', json_of_number limit),
           (''total'', json_of_number tot),
           (''totalPages'', json_of_number (num_ceil (num_div tot limit)))]"

subsection \<open>Responsive forms: \<open>GET /\<close>\<close>

record forms_query =
  fq_page :: "int option"
  fq_limit :: "int option"
  fq_status :: "string option"
  fq_asset_id :: "string option"
  fq_new_responsible_id :: "string option"

definition forms_select :: string where
  "forms_select =
     ''SELECT rf.*, a.name as asset_name, a.asset_code, ''
     @ ''prev.full_name as previous_responsible_name, ''
     @ ''new.full_name as new_responsible_name, approver.full_name as approved_by_name ''
     @ ''FROM responsive_forms rf LEFT JOIN assets a ON rf.asset_id = a.id ''
     @ ''LEFT JOIN users prev ON rf.previous_responsible_id = prev.id ''
     @ ''LEFT JOIN users new ON rf.new_responsible_id = new.id ''
     @ ''LEFT JOIN users approver ON rf.approved_by = approver.id WHERE 1=1''"

definition forms_page_query :: "forms_query \<Rightarrow> string \<times> param list" where
  "forms_page_query q =
     (let limit = number_or 10 (fq_limit q);
          offset = num_mul (num_sub (number_or 1 (fq_page q)) (Finite 1)) limit;
          s0 = (forms_select, []);
          s1 = add_filter (fq_status q) '' AND rf.status = ?'' (\<lambda>v. [PStr v]) s0;
          s2 = add_filter (fq_asset_id q) '' AND rf.asset_id = ?'' (\<lambda>v. [PStr v]) s1;
          s3 = add_filter (fq_new_responsible_id q) '' AND rf.new_responsible_id = ?''
                 (\<lambda>v. [PStr v]) s2
      in (fst s3 @ '' ORDER BY rf.created_at DESC LIMIT ? OFFSET ?'',
          snd s3 @ [PNum limit, PNum offset]))"

definition forms_count_select :: string where
  "forms_count_select = ''SELECT COUNT(*) as total FROM responsive_forms rf WHERE 1=1''"

definition forms_count_query :: "forms_query \<Rightarrow> string \<times> param list" where
  "forms_count_query q =
     (let c0 = (forms_count_select, []);
          c1 = add_filter (fq_status q) '' AND rf.status = ?'' (\<lambda>v. [PStr v]) c0;
          c2 = add_filter (fq_asset_id q) '' AND rf.asset_id = ?'' (\<lambda>v. [PStr v]) c1;
          c3 = add_filter (fq_new_responsible_id q) '' AND rf.new_responsible_id = ?''
                 (\<lambda>v. [PStr v]) c2
      in c3)"

text \<open>
  The handler. \<open>db_all\<close> and \<open>db_get\<close> are the store: given the statement text and its
  parameters they return the rows, respectively the \<open>total\<close> of the count row, or \<open>None\<close>
  when the callback's \<open>err\<close> is set.
\<close>

definition forms_list ::
  "(string \<Rightarrow> param list \<Rightarrow> json list option) \<Rightarrow> (string \<Rightarrow> param list \<Rightarrow> int option)
     \<Rightarrow> forms_query \<Rightarrow> response" where
  "forms_list db_all db_get q =
     (case db_all (fst (forms_page_query q)) (snd (forms_page_query q)) of
        None \<Rightarrow> Response 500 (message ''Error al obtener formatos responsivos'')
      | Some rows \<Rightarrow>
         (case db_get (fst (forms_count_query q)) (snd (forms_count_query q)) of
            None \<Rightarrow> Response 500 (message ''Error al contar formatos responsivos'')
          | Some tot \<Rightarrow>
              Response 200
                (JObj [(''forms'', JArr rows),
                       (''pagination'',
                        pagination (number_or 1 (fq_page q)) (number_or 10 (fq_limit q))
                          (literal_number tot))])))"

subsection \<open>Assets: \<open>GET /\<close>\<close>

record assets_query =
  aq_page :: "int option"
  aq_limit :: "int option"
  aq_category :: "string option"
  aq_status :: "string option"
  aq_search :: "string option"

definition assets_select :: string where
  "assets_select =
     ''SELECT a.*, c.name as category_name, u.full_name as responsible_name ''
     @ ''FROM assets a LEFT JOIN asset_categories c ON a.category_id = c.id ''
     @ ''LEFT JOIN users u ON a.responsible_user_id = u.id WHERE 1=1''"

definition search_sql :: string where
  "search_sql =
     '' AND (a.name LIKE ? OR a.asset_code LIKE ? OR a.brand LIKE ? OR a.model LIKE ?)''"

definition search_binds :: "string \<Rightarrow> param list" where
  "search_binds search =
     (let searchTerm = ''%'' @ search @ ''%''
      in [PStr searchTerm, PStr searchTerm, PStr searchTerm, PStr searchTerm])"

definition assets_page_query :: "assets_query \<Rightarrow> string \<times> param list" where
  "assets_page_query q =
     (let limit = number_or 10 (aq_limit q);
          offset = num_mul (num_sub (number_or 1 (aq_page q)) (Finite 1)) limit;
          s0 = (assets_select, []);
          s1 = add_filter (aq_category q) '' AND a.category_id = ?'' (\<lambda>v. [PStr v]) s0;
          s2 = add_filter (aq_status q) '' AND a.status = ?'' (\<lambda>v. [PStr v]) s1;
          s3 = add_filter (aq_search q) search_sql search_binds s2
      in (fst s3 @ '' ORDER BY a.created_at DESC LIMIT ? OFFSET ?'',
          snd s3 @ [PNum limit, PNum offset]))"

definition assets_count_select :: string where
  "assets_count_select = ''SELECT COUNT(*) as total FROM assets a WHERE 1=1''"

definition assets_count_query :: "assets_query \<Rightarrow> string \<times> param list" where
  "assets_count_query q =
     (let c0 = (assets_count_select, []);
          c1 = add_filter (aq_category q) '' AND a.category_id = ?'' (\<lambda>v. [PStr v]) c0;
          c2 = add_filter (aq_status q) '' AND a.status = ?'' (\<lambda>v. [PStr v]) c1;
          c3 = add_filter (aq_search q) search_sql search_binds c2
      in c3)"

definition assets_list ::
  "(string \<Rightarrow> param list \<Rightarrow> json list option) \<Rightarrow> (string \<Rightarrow> param list \<Rightarrow> int option)
     \<Rightarrow> assets_query \<Rightarrow> response" where
  "assets_list db_all db_get q =
     (case db_all (fst (assets_page_query q)) (snd (assets_page_query q)) of
        None \<Rightarrow> Response 500 (message ''Error al obtener activos'')
      | Some rows \<Rightarrow>
         (case db_get (fst (assets_count_query q)) (snd (assets_count_query q)) of
            None \<Rightarrow> Response 500 (message ''Error al contar activos'')
          | Some tot \<Rightarrow>
              Response 200
                (JObj [(''assets'', JArr rows),
                       (''pagination'',
                        pagination (number_or 1 (aq_page q)) (number_or 10 (aq_limit q))
                          (literal_number tot))])))"

subsection \<open>Incidents: \<open>GET /\<close>\<close>

record incidents_query =
  iq_page :: "int option"
  iq_limit :: "int option"
  iq_status :: "string option"
  iq_priority :: "string option"
  iq_asset_id :: "string option"
  iq_assigned_to :: "string option"

definition incidents_select :: string where
  "incidents_select =
     ''SELECT i.*, a.name as asset_name, a.asset_code, ''
     @ ''reporter.full_name as reported_by_name, assignee.full_name as assigned_to_name ''
     @ ''FROM incidents i LEFT JOIN assets a ON i.asset_id = a.id ''
     @ ''LEFT JOIN users reporter ON i.reported_by = reporter.id ''
     @ ''LEFT JOIN users assignee ON i.assigned_to = assignee.id WHERE 1=1''"

definition incidents_page_query :: "incidents_query \<Rightarrow> string \<times> param list" where
  "incidents_page_query q =
     (let limit = number_or 10 (iq_limit q);
          offset = num_mul (num_sub (number_or 1 (iq_page q)) (Finite 1)) limit;
          s0 = (incidents_select, []);
          s1 = add_filter (iq_status q) '' AND i.status = ?'' (\<lambda>v. [PStr v]) s0;
          s2 = add_filter (iq_priority q) '' AND i.priority = ?'' (\<lambda>v. [PStr v]) s1;
          s3 = add_filter (iq_asset_id q) '' AND i.asset_id = ?'' (\<lambda>v. [PStr v]) s2;
          s4 = add_filter (iq_assigned_to q) '' AND i.assigned_to = ?'' (\<lambda>v. [PStr v]) s3
      in (fst s4 @ '' ORDER BY i.created_at DESC LIMIT ? OFFSET ?'',
          snd s4 @ [PNum limit, PNum offset]))"

definition incidents_count_select :: string where
  "incidents_count_select = ''SELECT COUNT(*) as total FROM incidents i WHERE 1=1''"

definition incidents_count_query :: "incidents_query \<Rightarrow> string \<times> param list" where
  "incidents_count_query q =
     (let c0 = (incidents_count_select, []);
          c1 = add_filter (iq_status q) '' AND i.status = ?'' (\<lambda>v. [PStr v]) c0;
          c2 = add_filter (iq_priority q) '' AND i.priority = ?'' (\<lambda>v. [PStr v]) c1;
          c3 = add_filter (iq_asset_id q) '' AND i.asset_id = ?'' (\<lambda>v. [PStr v]) c2;
          c4 = add_filter (iq_assigned_to q) '' AND i.assigned_to = ?'' (\<lambda>v. [PStr v]) c3
      in c4)"

definition incidents_list ::
  "(string \<Rightarrow> param list \<Rightarrow> json list option) \<Rightarrow> (string \<Rightarrow> param list \<Rightarrow> int option)
     \<Rightarrow> incidents_query \<Rightarrow> response" where
  "incidents_list db_all db_get q =
     (case db_all (fst (incidents_page_query q)) (snd (incidents_page_query q)) of
        None \<Rightarrow> Response 500 (message ''Error al obtener incidencias'')
      | Some rows \<Rightarrow>
         (case db_get (fst (incidents_count_query q)) (snd (incidents_count_query q)) of
            None \<Rightarrow> Response 500 (message ''Error al contar incidencias'')
          | Some tot \<Rightarrow>
              Response 200
                (JObj [(''incidents'', JArr rows),
                       (''pagination'',
                        pagination (number_or 1 (iq_page q)) (number_or 10 (iq_limit q))
                          (literal_number tot))])))"

subsection \<open>Maintenances: \<open>GET /\<close>\<close>

record maintenances_query =
  mq_page :: "int option"
  mq_limit :: "int option"
  mq_status :: "string option"
  mq_type :: "string option"
  mq_asset_id :: "string option"
  mq_technician_id :: "string option"

definition maintenances_select :: string where
  "maintenances_select =
     ''SELECT m.*, a.name as asset_name, a.asset_code, t.full_name as technician_name ''
     @ ''FROM maintenances m LEFT JOIN assets a ON m.asset_id = a.id ''
     @ ''LEFT JOIN users t ON m.technician_id = t.id WHERE 1=1''"

definition maintenances_page_query :: "maintenances_query \<Rightarrow> string \<times> param list" where
  "maintenances_page_query q =
     (let limit = number_or 10 (mq_limit q);
          offset = num_mul (num_sub (number_or 1 (mq_page q)) (Finite 1)) limit;
          s0 = (maintenances_select, []);
          s1 = add_filter (mq_status q) '' AND m.status = ?'' (\<lambda>v. [PStr v]) s0;
          s2 = add_filter (mq_type q) '' AND m.type = ?'' (\<lambda>v. [PStr v]) s1;
          s3 = add_filter (mq_asset_id q) '' AND m.asset_id = ?'' (\<lambda>v. [PStr v]) s2;
          s4 = add_filter (mq_technician_id q) '' AND m.technician_id = ?'' (\<lambda>v. [PStr v]) s3
      in (fst s4 @ '' ORDER BY m.scheduled_date DESC, m.created_at DESC LIMIT ? OFFSET ?'',
          snd s4 @ [PNum limit, PNum offset]))"

definition maintenances_count_select :: string where
  "maintenances_count_select = ''SELECT COUNT(*) as total FROM maintenances m WHERE 1=1''"

definition maintenances_count_query :: "maintenances_query \<Rightarrow> string \<times> param list" where
  "maintenances_count_query q =
     (let c0 = (maintenances_count_select, []);
          c1 = add_filter (mq_status q) '' AND m.status = ?'' (\<lambda>v. [PStr v]) c0;
          c2 = add_filter (mq_type q) '' AND m.type = ?'' (\<lambda>v. [PStr v]) c1;
          c3 = add_filter (mq_asset_id q) '' AND m.asset_id = ?'' (\<lambda>v. [PStr v]) c2;
          c4 = add_filter (mq_technician_id q) '' AND m.technician_id = ?'' (\<lambda>v. [PStr v]) c3
      in c4)"

definition maintenances_list ::
  "(string \<Rightarrow> param list \<Rightarrow> json list option) \<Rightarrow> (string \<Rightarrow> param list \<Rightarrow> int option)
     \<Rightarrow> maintenances_query \<Rightarrow> response" where
  "maintenances_list db_all db_get q =
     (case db_all (fst (maintenances_page_query q)) (snd (maintenances_page_query q)) of
        None \<Rightarrow> Response 500 (message ''Error al obtener mantenimientos'')
      | Some rows \<Rightarrow>
         (case db_get (fst (maintenances_count_query q)) (snd (maintenances_count_query q)) of
            None \<Rightarrow> Response 500 (message ''Error al contar mantenimientos'')
          | Some tot \<Rightarrow>
              Response 200
                (JObj [(''maintenances'', JArr rows),
                       (''pagination'',
                        pagination (number_or 1 (mq_page q)) (number_or 10 (mq_limit q))
                          (literal_number tot))])))"

subsection \<open>Inventory report: \<open>GET /inventory\<close>\<close>

record inventory_query =
  vq_category :: "string option"
  vq_status :: "string option"
  vq_responsible :: "string option"
  vq_dateFrom :: "string option"
  vq_dateTo :: "string option"

definition inventory_select :: string where
  "inventory_select =
     ''SELECT a.*, c.name as category_name, u.full_name as responsible_name, ''
     @ ''u.department as responsible_department ''
     @ ''FROM assets a LEFT JOIN asset_categories c ON a.category_id = c.id ''
     @ ''LEFT JOIN users u ON a.responsible_user_id = u.id WHERE 1=1''"

definition inventory_query_of :: "inventory_query \<Rightarrow> string \<times> param list" where
  "inventory_query_of q =
     (let s0 = (inventory_select, []);
          s1 = add_filter (vq_category q) '' AND a.category_id = ?'' (\<lambda>v. [PStr v]) s0;
          s2 = add_filter (vq_status q) '' AND a.status = ?'' (\<lambda>v. [PStr v]) s1;
          s3 = add_filter (vq_responsible q) '' AND a.responsible_user_id = ?''
                 (\<lambda>v. [PStr v]) s2;
          s4 = add_filter (vq_dateFrom q) '' AND a.created_at >= ?'' (\<lambda>v. [PStr v]) s3;
          s5 = add_filter (vq_dateTo q) '' AND a.created_at <= ?''
                 (\<lambda>v. [PStr (v @ '' 23:59:59'')]) s4
      in (fst s5 @ '' ORDER BY a.created_at DESC'', snd s5))"

text \<open>
  Sample stores: one row for every page statement; 25, respectively \<open>2^60 + 1\<close>, for every
  count.
\<close>

definition sample_rows :: "string \<Rightarrow> param list \<Rightarrow> json list option" where
  "sample_rows sql ps = Some [JObj [(''id'', JNum 21)]]"

definition sample_count :: "string \<Rightarrow> param list \<Rightarrow> int option" where
  "sample_count sql ps = Some 25"

definition sample_count_large :: "string \<Rightarrow> param list \<Rightarrow> int option" where
  "sample_count_large sql ps = Some 1152921504606846977"

subsection \<open>The builder the specification describes\<close>

text \<open>
  The specification's filtered query builder: an ordered list of declared filters, each a
  request value, the predicate it adds and the parameters it binds. A filter is applied
  when its value is present and not empty; the \<open>WHERE\<close> text and the parameter list are
  the applied filters' predicates and parameters, in declaration order.
\<close>

type_synonym filter_decl = "string option \<times> string \<times> (string \<Rightarrow> param list)"

definition present :: "string option \<Rightarrow> bool" where
  "present v = (v \<noteq> None \<and> v \<noteq> Some [])"

definition applied :: "filter_decl list \<Rightarrow> (string \<times> param list) list" where
  "applied decls =
     concat (map (\<lambda>(v, sql, binds). if present v then [(sql, binds (str_of v))] else [])
               decls)"

definition where_text :: "filter_decl list \<Rightarrow> string" where
  "where_text decls = concat (map fst (applied decls))"

definition where_params :: "filter_decl list \<Rightarrow> param list" where
  "where_params decls = concat (map snd (applied decls))"

definition placeholders :: "string \<Rightarrow> nat" where
  "placeholders s = length (filter (\<lambda>c. c = CHR ''?'') s)"

definition forms_filters :: "forms_query \<Rightarrow> filter_decl list" where
  "forms_filters q =
     [(fq_status q, '' AND rf.status = ?'', \<lambda>v. [PStr v]),
      (fq_asset_id q, '' AND rf.asset_id = ?'', \<lambda>v. [PStr v]),
      (fq_new_responsible_id q, '' AND rf.new_responsible_id = ?'', \<lambda>v. [PStr v])]"

definition assets_filters :: "assets_query \<Rightarrow> filter_decl list" where
  "assets_filters q =
     [(aq_category q, '' AND a.category_id = ?'', \<lambda>v. [PStr v]),
      (aq_status q, '' AND a.status = ?'', \<lambda>v. [PStr v]),
      (aq_search q, search_sql, search_binds)]"

definition incidents_filters :: "incidents_query \<Rightarrow> filter_decl list" where
  "incidents_filters q =
     [(iq_status q, '' AND i.status = ?'', \<lambda>v. [PStr v]),
      (iq_priority q, '' AND i.priority = ?'', \<lambda>v. [PStr v]),
      (iq_asset_id q, '' AND i.asset_id = ?'', \<lambda>v. [PStr v]),
      (iq_assigned_to q, '' AND i.assigned_to = ?'', \<lambda>v. [PStr v])]"

definition maintenances_filters :: "maintenances_query \<Rightarrow> filter_decl list" where
  "maintenances_filters q =
     [(mq_status q, '' AND m.status = ?'', \<lambda>v. [PStr v]),
      (mq_type q, '' AND m.type = ?'', \<lambda>v. [PStr v]),
      (mq_asset_id q, '' AND m.asset_id = ?'', \<lambda>v. [PStr v]),
      (mq_technician_id q, '' AND m.technician_id = ?'', \<lambda>v. [PStr v])]"

definition inventory_filters :: "inventory_query \<Rightarrow> filter_decl list" where
  "inventory_filters q =
     [(vq_category q, '' AND a.category_id = ?'', \<lambda>v. [PStr v]),
      (vq_status q, '' AND a.status = ?'', \<lambda>v. [PStr v]),
      (vq_responsible q, '' AND a.responsible_user_id = ?'', \<lambda>v. [PStr v]),
      (vq_dateFrom q, '' AND a.created_at >= ?'', \<lambda>v. [PStr v]),
      (vq_dateTo q, '' AND a.created_at <= ?'', \<lambda>v. [PStr (v @ '' 23:59:59'')])]"

section \<open>Aggregate batches\<close>

text \<open>
  The dashboard and every \<open>stats/overview\<close> endpoint run one pattern over a table of
  named statements:
  \<^verbatim>\<open>Object.keys(queries).forEach(key => promises.push(new Promise((resolve, reject) =>
      db.all(queries[key], (err, result) => {
        if (err) reject(err); else { stats[key] = result; resolve(); } }))));
  Promise.all(promises).then(() => res.json({ stats }))
                       .catch(err => res.status(500).json({ message }));\<close>
  The statements are issued together and their callbacks run in an order the store
  chooses: \<open>completed\<close> lists the named statements in the order their callbacks run, a
  rearrangement of the handler's table. \<open>db\<close> is the store: the rows of a statement, or
  \<open>None\<close> when the callback's \<open>err\<close> is set. The state threaded through the callbacks
  is the \<open>stats\<close> object and whether some promise has been rejected. The keys of a table
  are distinct, so \<open>stats[key] = result\<close> always adds a field.
\<close>

fun run_batch ::
  "(string \<Rightarrow> json list option) \<Rightarrow> (string \<times> string) list \<Rightarrow> (string \<times> json) list \<times> bool
     \<Rightarrow> (string \<times> json) list \<times> bool" where
  "run_batch db [] acc = acc"
| "run_batch db ((key, sql) # rest) (stats, rejected) =
     (case db sql of
        None \<Rightarrow> run_batch db rest (stats, True)
      | Some result \<Rightarrow> run_batch db rest (stats @ [(key, JArr result)], rejected))"

definition aggregate ::
  "string \<Rightarrow> string \<Rightarrow> (string \<Rightarrow> json list option) \<Rightarrow> (string \<times> string) list \<Rightarrow> response"
  where
  "aggregate field msg db completed =
     (case run_batch db completed ([], False) of
        (stats, rejected) \<Rightarrow>
          if rejected then Response 500 (message msg)
          else Response 200 (JObj [(field, JObj stats)]))"

text \<open>\<open>GET /dashboard\<close>\<close>

definition dashboard_queries :: "(string \<times> string) list" where
  "dashboard_queries =
     [(''totalAssets'',
       ''SELECT COUNT(*) as count FROM assets WHERE status != 'inactive'' @ [CHR 0x27]),
      (''assetsByCategory'',
       ''SELECT c.name, COUNT(a.id) as count FROM asset_categories c ''
       @ ''LEFT JOIN assets a ON c.id = a.category_id AND a.status != 'inactive' ''
       @ ''GROUP BY c.id, c.name''),
      (''assetsWithoutResponsible'',
       ''SELECT COUNT(*) as count FROM assets ''
       @ ''WHERE responsible_user_id IS NULL AND status = 'active'' @ [CHR 0x27]),
      (''expiredWarranties'',
       ''SELECT COUNT(*) as count FROM assets ''
       @ ''WHERE warranty_expiry < DATE('now') AND status = 'active'' @ [CHR 0x27]),
      (''totalIncidents'', ''SELECT COUNT(*) as count FROM incidents''),
      (''openIncidents'',
       ''SELECT COUNT(*) as count FROM incidents ''
       @ ''WHERE status IN ('open', 'assigned', 'in_progress')''),
      (''incidentsByPriority'',
       ''SELECT priority, COUNT(*) as count FROM incidents GROUP BY priority''),
      (''totalMaintenances'', ''SELECT COUNT(*) as count FROM maintenances''),
      (''upcomingMaintenances'',
       ''SELECT COUNT(*) as count FROM maintenances ''
       @ ''WHERE scheduled_date BETWEEN DATE('now') AND DATE('now', '+30 days') ''
       @ ''AND status = 'scheduled'' @ [CHR 0x27]),
      (''overdueMaintenances'',
       ''SELECT COUNT(*) as count FROM maintenances ''
       @ ''WHERE scheduled_date < DATE('now') AND status = 'scheduled'' @ [CHR 0x27]),
      (''pendingForms'',
       ''SELECT COUNT(*) as count FROM responsive_forms WHERE status = 'pending''
       @ [CHR 0x27]),
      (''pendingRequisitions'',
       ''SELECT COUNT(*) as count FROM requisitions WHERE status = 'pending'' @ [CHR 0x27]),
      (''approvedRequisitionsValue'',
       ''SELECT SUM(estimated_cost) as total FROM requisitions ''
       @ ''WHERE status = 'approved' AND created_at >= DATE('now', '-30 days')'')]"

definition dashboard :: "(string \<Rightarrow> json list option) \<Rightarrow> (string \<times> string) list \<Rightarrow> response"
  where
  "dashboard db completed =
     aggregate ''dashboard'' (''Error al obtener estad'' @ [CHR 0xED] @ ''sticas del dashboard'')
       db completed"

text \<open>\<open>GET /stats/overview\<close> of the responsive forms\<close>

definition forms_stats_queries :: "(string \<times> string) list" where
  "forms_stats_queries =
     [(''total'', ''SELECT COUNT(*) as count FROM responsive_forms''),
      (''byStatus'',
       ''SELECT status, COUNT(*) as count FROM responsive_forms GROUP BY status''),
      (''pending'',
       ''SELECT COUNT(*) as count FROM responsive_forms WHERE status = 'pending''
       @ [CHR 0x27]),
      (''approved'',
       ''SELECT COUNT(*) as count FROM responsive_forms WHERE status = 'approved''
       @ [CHR 0x27]),
      (''rejected'',
       ''SELECT COUNT(*) as count FROM responsive_forms WHERE status = 'rejected''
       @ [CHR 0x27]),
      (''thisMonth'',
       ''SELECT COUNT(*) as count FROM responsive_forms ''
       @ ''WHERE strftime('%Y-%m', created_at) = strftime('%Y-%m', 'now')'')]"

definition forms_stats ::
  "(string \<Rightarrow> json list option) \<Rightarrow> (string \<times> string) list \<Rightarrow> response" where
  "forms_stats db completed =
     aggregate ''stats'' (''Error al obtener estad'' @ [CHR 0xED] @ ''sticas'') db completed"

text \<open>What a batch has stored once every callback has run.\<close>

definition stored :: "(string \<Rightarrow> json list option) \<Rightarrow> (string \<times> string) list \<Rightarrow> (string \<times> json) list"
  where
  "stored db completed =
     concat (map (\<lambda>(key, sql). case db sql of None \<Rightarrow> [] | Some result \<Rightarrow> [(key, JArr result)])
               completed)"

text \<open>Two stores for running the forms batch: one answers every statement, one fails on
  the statement named \<open>pending\<close>.\<close>

definition db_ok :: "string \<Rightarrow> json list option" where
  "db_ok sql = Some [JObj [(''count'', JNum (int (length sql)))]]"

definition db_one_fails :: "string \<Rightarrow> json list option" where
  "db_one_fails sql =
     (if sql = ''SELECT COUNT(*) as count FROM responsive_forms WHERE status = 'pending''
                @ [CHR 0x27]
      then None else db_ok sql)"

section \<open>Authentication\<close>

text \<open>One row of table \<open>users\<close>; \<open>u_password\<close> is the stored bcrypt hash.\<close>

record user =
  u_id :: int
  u_username :: string
  u_email :: string
  u_password :: string
  u_full_name :: string
  u_role :: "string option"
  u_department :: "string option"
  u_created_at :: string
  u_updated_at :: string
  u_active :: "int option"

record login_body =
  lb_username :: "string option"
  lb_password :: "string option"

definition json_opt :: "string option \<Rightarrow> json" where
  "json_opt v = (case v of None \<Rightarrow> JNull | Some s \<Rightarrow> JStr s)"

definition invalid_credentials :: response where
  "invalid_credentials =
     Response 401 (message (''Credenciales inv'' @ [CHR 0xE1] @ ''lidas''))"

text \<open>
  \<open>POST /login\<close>.
  \<^verbatim>\<open>SELECT * FROM users WHERE (username = ? OR email = ?) AND active = 1\<close>
  with the supplied identifier bound twice; \<open>db.get\<close> hands over the first such row.
  \<open>compare\<close> is \<open>bcrypt.compare\<close> (\<open>None\<close> when it reports an error) and
  \<open>generateToken\<close> is the token issuer of the authentication middleware; both live
  outside the handler and are parameters. The final
  \<^verbatim>\<open>UPDATE users SET updated_at = CURRENT_TIMESTAMP WHERE id = ?\<close>
  is sent without a callback, so its outcome does not reach the response.
\<close>

definition login_where :: "string \<Rightarrow> user \<Rightarrow> bool" where
  "login_where ident u = ((u_username u = ident \<or> u_email u = ident) \<and> u_active u = Some 1)"

definition login ::
  "(string \<Rightarrow> string \<Rightarrow> bool option) \<Rightarrow> (user \<Rightarrow> string) \<Rightarrow> outcome \<Rightarrow> outcome \<Rightarrow> string
     \<Rightarrow> login_body \<Rightarrow> user list \<Rightarrow> user list \<times> response" where
  "login compare generateToken err_select err_update now b users =
     (let errors = check (notEmpty (lb_username b)) ''Usuario es requerido''
                 @ check (notEmpty (lb_password b))
                     (''Contrase'' @ [CHR 0xF1] @ ''a es requerida'');
          username = str_of (lb_username b);
          password = str_of (lb_password b)
      in if errors \<noteq> [] then (users, validation_failed errors)
         else case err_select of
           StoreError \<Rightarrow> (users, Response 500 (message ''Error del servidor''))
         | StoreOk \<Rightarrow>
            (case find (login_where username) users of
               None \<Rightarrow> (users, invalid_credentials)
             | Some u \<Rightarrow>
                (if compare password (u_password u) = Some True
                 then ((case err_update of
                          StoreError \<Rightarrow> users
                        | StoreOk \<Rightarrow> sql_update (\<lambda>r. u_id r = u_id u)
                                       (\<lambda>r. r\<lparr>u_updated_at := now\<rparr>) users),
                       Response 200
                         (JObj [(''message'', JStr ''Login exitoso''),
                                (''token'', JStr (generateToken u)),
                                (''user'',
                                 JObj [(''id'', JNum (u_id u)),
                                       (''username'', JStr (u_username u)),
                                       (''email'', JStr (u_email u)),
                                       (''full_name'', JStr (u_full_name u)),
                                       (''role'', json_opt (u_role u)),
                                       (''department'', json_opt (u_department u))])]))
                 else (users, invalid_credentials))))"

text \<open>
  \<open>GET /profile\<close>; \<open>uid\<close> is \<open>req.user.id\<close>, the identity the middleware read from the
  token.
  \<^verbatim>\<open>SELECT id, username, email, full_name, role, department, created_at
     FROM users WHERE id = ?\<close>
\<close>

definition profile :: "outcome \<Rightarrow> int \<Rightarrow> user list \<Rightarrow> response" where
  "profile err uid users =
     (case err of
        StoreError \<Rightarrow> Response 500 (message ''Error del servidor'')
      | StoreOk \<Rightarrow>
         (case find (\<lambda>u. u_id u = uid) users of
            None \<Rightarrow> Response 404 (message ''Usuario no encontrado'')
          | Some u \<Rightarrow>
              Response 200
                (JObj [(''user'',
                        JObj [(''id'', JNum (u_id u)),
                              (''username'', JStr (u_username u)),
                              (''email'', JStr (u_email u)),
                              (''full_name'', JStr (u_full_name u)),
                              (''role'', json_opt (u_role u)),
                              (''department'', json_opt (u_department u)),
                              (''created_at'', JStr (u_created_at u))])])))"

text \<open>
  Modelled from the spec: \<open>generateToken\<close> of the authentication middleware
  (\<open>middleware/auth\<close>), which the login handler calls with the stored row and which is
  not among the sources. The specification describes the token as a signed identity token
  carrying user id and role: the issuer reads these two columns of the row and signs them.
  \<open>sign\<close> is the signing primitive with its secret.
\<close>

definition spec_generateToken :: "(int \<Rightarrow> string option \<Rightarrow> string) \<Rightarrow> user \<Rightarrow> string" where
  "spec_generateToken sign u = sign (u_id u) (u_role u)"

fun status_code :: "response \<Rightarrow> nat" where
  "status_code (Response c b) = c"

text \<open>The same table with other hashes: \<open>h\<close> gives each row its new hash.\<close>

definition rehash :: "(user \<Rightarrow> string) \<Rightarrow> user list \<Rightarrow> user list" where
  "rehash h users = map (\<lambda>u. u\<lparr>u_password := h u\<rparr>) users"

text \<open>Sample data: an active administrator and a disabled account; a comparison that
  accepts the password \<open>admin123\<close> against either of two hashes.\<close>

definition u_admin :: user where
  "u_admin = \<lparr>u_id = 1, u_username = ''admin'', u_email = ''admin@beachscape.com'',
     u_password = ''$2a$10$hashA'', u_full_name = ''Administrador del Sistema'',
     u_role = Some ''admin'', u_department = Some ''Sistemas'',
     u_created_at = ''2026-01-01 00:00:00'', u_updated_at = ''2026-01-01 00:00:00'',
     u_active = Some 1\<rparr>"

definition u_disabled :: user where
  "u_disabled = \<lparr>u_id = 2, u_username = ''maria'', u_email = ''maria@beachscape.com'',
     u_password = ''$2a$10$hashA'', u_full_name = ''Maria'', u_role = Some ''user'',
     u_department = None, u_created_at = ''2026-02-01 00:00:00'',
     u_updated_at = ''2026-02-01 00:00:00'', u_active = Some 0\<rparr>"

definition sample_compare :: "string \<Rightarrow> string \<Rightarrow> bool option" where
  "sample_compare pw hash =
     Some (pw = ''admin123'' \<and> (hash = ''$2a$10$hashA'' \<or> hash = ''$2a$10$hashB''))"

definition sample_token :: "user \<Rightarrow> string" where
  "sample_token u = ''token-'' @ to_string (nat (u_id u))"

definition sample_sign :: "int \<Rightarrow> string option \<Rightarrow> string" where
  "sample_sign uid role = ''token-'' @ to_string (nat uid) @ ''-'' @ str_of role"

definition admin_login :: login_body where
  "admin_login = \<lparr>lb_username = Some ''admin'', lb_password = Some ''admin123''\<rparr>"

section \<open>Properties\<close>

subsection \<open>Rounding to doubles\<close>

lemma round_half_even_of_int: "round_half_even (of_int n) = n"
  by (simp add: round_half_even_def)

lemma round_half_even_bounds:
  "of_int (round_half_even x) - 1 / 2 \<le> x" "x \<le> of_int (round_half_even x) + 1 / 2"
proof -
  have f: "of_int \<lfloor>x\<rfloor> \<le> x" "x < of_int \<lfloor>x\<rfloor> + 1" by linarith+
  consider (lo) "x - of_int \<lfloor>x\<rfloor> < 1 / 2" | (hi) "1 / 2 < x - of_int \<lfloor>x\<rfloor>"
    | (tie) "x - of_int \<lfloor>x\<rfloor> = 1 / 2" by linarith
  then have "of_int (round_half_even x) - 1 / 2 \<le> x \<and> x \<le> of_int (round_half_even x) + 1 / 2"
  proof cases
    case lo
    then have "round_half_even x = \<lfloor>x\<rfloor>" by (simp add: round_half_even_def Let_def)
    then have "(of_int (round_half_even x) :: rat) = of_int \<lfloor>x\<rfloor>" by simp
    then show ?thesis using f lo by linarith
  next
    case hi
    then have "round_half_even x = \<lfloor>x\<rfloor> + 1" by (simp add: round_half_even_def Let_def)
    then have "(of_int (round_half_even x) :: rat) = of_int \<lfloor>x\<rfloor> + 1" by simp
    then show ?thesis using f hi by linarith
  next
    case tie
    then have "round_half_even x = \<lfloor>x\<rfloor> \<or> round_half_even x = \<lfloor>x\<rfloor> + 1"
      by (simp add: round_half_even_def Let_def)
    then have "(of_int (round_half_even x) :: rat) = of_int \<lfloor>x\<rfloor>
             \<or> (of_int (round_half_even x) :: rat) = of_int \<lfloor>x\<rfloor> + 1" by auto
    then show ?thesis using tie by (elim disjE) linarith+
  qed
  then show "of_int (round_half_even x) - 1 / 2 \<le> x" "x \<le> of_int (round_half_even x) + 1 / 2"
    by simp_all
qed

lemma round_half_even_error: "\<bar>of_int (round_half_even x) - x\<bar> \<le> 1 / 2"
  using round_half_even_bounds [of x] by linarith

lemma round_half_even_le_int: "x \<le> of_int k \<Longrightarrow> round_half_even x \<le> k"
proof -
  assume a: "x \<le> of_int k"
  show ?thesis
  proof (cases "x = of_int k")
    case True then show ?thesis by (simp add: round_half_even_of_int)
  next
    case False
    then have "x < of_int k" using a by simp
    then have "\<lfloor>x\<rfloor> < k" by (simp add: floor_less_iff)
    then have "\<lfloor>x\<rfloor> + 1 \<le> k" by simp
    moreover have "round_half_even x \<le> \<lfloor>x\<rfloor> + 1"
      by (simp add: round_half_even_def Let_def)
    ultimately show ?thesis by linarith
  qed
qed

lemma round_half_even_ge_int: "of_int k \<le> x \<Longrightarrow> k \<le> round_half_even x"
proof -
  assume "of_int k \<le> x"
  then have "k \<le> \<lfloor>x\<rfloor>" by (simp add: le_floor_iff)
  moreover have "\<lfloor>x\<rfloor> \<le> round_half_even x"
    by (simp add: round_half_even_def Let_def)
  ultimately show ?thesis by linarith
qed

lemma round_up_scaled_int: "round_up_scaled d (of_int n) = of_int n"
proof (induction d arbitrary: n)
  case 0 show ?case by (simp add: round_half_even_of_int)
next
  case (Suc d)
  have "round_up_scaled d (2 * of_int n) = of_int (2 * n)"
    using Suc [of "2 * n"] by simp
  then show ?case by (simp add: round_half_even_of_int)
qed

lemma round_up_scaled_le_int: "x \<le> of_int k \<Longrightarrow> round_up_scaled d x \<le> of_int k"
proof (induction d arbitrary: x k)
  case 0 then show ?case by (simp add: round_half_even_le_int)
next
  case (Suc d)
  have "round_up_scaled d (2 * x) \<le> of_int (2 * k)"
    using Suc.prems by (intro Suc.IH) simp
  then show ?case using Suc.prems by (simp add: round_half_even_le_int)
qed

lemma round_up_scaled_ge_int: "of_int k \<le> x \<Longrightarrow> of_int k \<le> round_up_scaled d x"
proof (induction d arbitrary: x k)
  case 0 then show ?case by (simp add: round_half_even_ge_int)
next
  case (Suc d)
  have "of_int (2 * k) \<le> round_up_scaled d (2 * x)"
    using Suc.prems by (intro Suc.IH) simp
  then show ?case using Suc.prems by (simp add: round_half_even_ge_int)
qed

lemma round_up_scaled_error:
  "0 \<le> x \<Longrightarrow> x < 2 ^ 53 * lam \<Longrightarrow> 1 / 2 < 2 ^ d * lam \<Longrightarrow>
     \<bar>round_up_scaled d x - x\<bar> < lam"
proof (induction d arbitrary: x lam)
  case 0
  then show ?case using round_half_even_error [of x] by simp
next
  case (Suc d)
  show ?case
  proof (cases "2 ^ 52 \<le> x")
    case True
    then have "2 ^ 52 < (2 ^ 53 :: rat) * lam" using Suc.prems(2) by simp
    then have "1 / 2 < lam" by simp
    then show ?thesis using True round_half_even_error [of x] by simp
  next
    case False
    have "\<bar>round_up_scaled d (2 * x) - 2 * x\<bar> < 2 * lam"
      using Suc.prems by (intro Suc.IH) simp_all
    then show ?thesis using False by simp
  qed
qed

lemma round_up_scaled_abs_error:
  "m \<le> d \<Longrightarrow> 0 \<le> x \<Longrightarrow> 2 ^ m * x < 2 ^ 53 \<Longrightarrow>
     \<bar>round_up_scaled d x - x\<bar> \<le> 1 / 2 ^ (m + 1)"
proof (induction m arbitrary: d x)
  case 0
  show ?case
  proof (induction d arbitrary: x)
    case 0 show ?case using round_half_even_error [of x] by simp
  next
    case (Suc d)
    have "\<bar>round_up_scaled d (2 * x) - 2 * x\<bar> \<le> 1 / 2" using Suc [of "2 * x"] by simp
    then have "\<bar>round_up_scaled d (2 * x) / 2 - x\<bar> \<le> 1 / 2" by linarith
    then show ?case using round_half_even_error [of x] by (cases "2 ^ 52 \<le> x") simp_all
  qed
next
  case (Suc m)
  then obtain d' where d: "d = Suc d'" and md: "m \<le> d'" by (cases d) simp_all
  have lt: "x < 2 ^ 52"
  proof -
    have "1 * x \<le> 2 ^ m * x" using Suc.prems(2) by (intro mult_right_mono) simp_all
    moreover have "2 * (2 ^ m * x) < 2 * 2 ^ 52" using Suc.prems(3) by (simp add: mult.assoc)
    ultimately show ?thesis by linarith
  qed
  have "\<bar>round_up_scaled d' (2 * x) - 2 * x\<bar> \<le> 1 / 2 ^ (m + 1)"
    using md Suc.prems by (intro Suc.IH) (simp_all add: mult.assoc)
  then show ?case using lt by (simp add: d field_simps)
qed

lemma round_up_scaled_unroll:
  "k \<le> d \<Longrightarrow> 2 ^ k * x < 2 ^ 53 \<Longrightarrow> 2 ^ 52 \<le> 2 ^ k * x \<Longrightarrow>
     round_up_scaled d x = of_int (round_half_even (2 ^ k * x)) / 2 ^ k"
proof (induction k arbitrary: d x)
  case 0
  then show ?case by (cases d) simp_all
next
  case (Suc k)
  then obtain d' where d: "d = Suc d'" and kd: "k \<le> d'" by (cases d) simp_all
  have "2 * x < 2 ^ 53 / 2 ^ k" using Suc.prems(2) by (simp add: field_simps)
  also have "\<dots> \<le> 2 ^ 53" by (simp add: field_simps)
  finally have lt: "x < 2 ^ 52" by simp
  have "round_up_scaled d' (2 * x) = of_int (round_half_even (2 ^ k * (2 * x))) / 2 ^ k"
    using kd Suc.prems by (intro Suc.IH) (simp_all add: mult.assoc)
  then show ?case using lt by (simp add: d mult.assoc mult.left_commute)
qed


lemma round_to_double_small:
  "0 \<le> x \<Longrightarrow> x < 2 ^ 53 \<Longrightarrow> round_to_double x = Finite (round_up_scaled 1074 x)"
  by (simp add: round_to_double_def round_magnitude_def)

lemma literal_number_exact: "\<bar>n\<bar> < 2 ^ 53 \<Longrightarrow> literal_number n = Finite (of_int n)"
proof (cases "0 \<le> n")
  case True
  assume "\<bar>n\<bar> < 2 ^ 53"
  then have "(of_int n :: rat) < 2 ^ 53" using True by simp
  then show ?thesis
    using True by (simp add: literal_number_def round_to_double_small round_up_scaled_int)
next
  case False
  assume "\<bar>n\<bar> < 2 ^ 53"
  then have "- n < 2 ^ 53" using False by simp
  then have "(of_int (- n) :: rat) < 2 ^ 53" by (simp only: of_int_less_numeral_power_cancel_iff)
  then have "round_magnitude (of_int (- n)) = Some (of_int (- n))"
    by (simp only: round_magnitude_def round_up_scaled_int if_True)
  then show ?thesis
    using False by (simp add: literal_number_def round_to_double_def)
qed

lemma round_to_double_eval:
  assumes "k \<le> 1074" "2 ^ k * x < 2 ^ 53" "2 ^ 52 \<le> 2 ^ k * x"
  shows "round_to_double x = Finite (of_int (round_half_even (2 ^ k * x)) / 2 ^ k)"
proof -
  have p: "(0 :: rat) < 2 ^ k" by simp
  have "0 < 2 ^ k * x" using assms(3) by (rule less_le_trans [rotated]) simp
  then have x: "0 < x" using p by (simp add: zero_less_mult_iff)
  have "1 * x \<le> 2 ^ k * x" using x by (intro mult_right_mono) simp_all
  then have "x < 2 ^ 53" using assms(2) by simp
  then show ?thesis
    using x round_up_scaled_unroll [OF assms] by (simp add: round_to_double_small)
qed

lemma round_down_scaled_step:
  "0 < d \<Longrightarrow> round_down_scaled d x =
     (if x < 2 ^ 53 then Some (of_int (round_half_even x))
      else map_option (\<lambda>r. 2 * r) (round_down_scaled (d - 1) (x / 2)))"
  by (cases d) simp_all

lemma ceil_quotient:
  assumes "0 \<le> t" "t < 2 ^ 53" "1 \<le> l" "l < 2 ^ 53"
  shows "num_ceil (num_div (Finite (of_int t)) (Finite (of_int l)))
           = Finite (of_int \<lceil>(of_int t :: rat) / of_int l\<rceil>)"
proof -
  let ?q = "(of_int t :: rat) / of_int l"
  let ?k = "\<lceil>?q\<rceil>"
  let ?r = "round_up_scaled 1074 ?q"
  have l: "(0 :: rat) < of_int l" "(1 :: rat) \<le> of_int l" using assms(3) by simp_all
  have t: "(0 :: rat) \<le> of_int t" "(of_int t :: rat) < 2 ^ 53" using assms(1,2) by simp_all
  have q0: "0 \<le> ?q" using l t by simp
  have "1 * (of_int t :: rat) \<le> of_int l * of_int t" using l t by (intro mult_right_mono) simp_all
  then have "?q \<le> of_int t" using l by (simp add: field_simps)
  then have q53: "?q < 2 ^ 53" using t by linarith
  have up: "?r \<le> of_int ?k" by (rule round_up_scaled_le_int) (rule le_of_int_ceiling)
  have lam: "?q < 2 ^ 53 * (1 / of_int l)" using l t by (simp add: field_simps)
  have "(of_int l :: rat) < 2 ^ 53" using assms(4) by simp
  also have "(2 ^ 53 :: rat) < 2 * 2 ^ 1074" by simp
  finally have "(1 :: rat) / 2 < 2 ^ 1074 * (1 / of_int l)" using l by (simp add: field_simps)
  from round_up_scaled_error [OF q0 lam this]
  have err: "?q - 1 / of_int l < ?r" by linarith
  have "of_int ?k - 1 < ?q" by linarith
  then have "(of_int ?k - 1) * of_int l < (of_int t :: rat)" using l by (simp add: field_simps)
  then have "(?k - 1) * l < t" by (simp only: of_int_less_iff [where ?'a = rat, symmetric] of_int_mult of_int_diff of_int_1)
  then have "(?k - 1) * l \<le> t - 1" by simp
  then have "(of_int ((?k - 1) * l) :: rat) \<le> of_int (t - 1)" by (simp only: of_int_le_iff)
  then have "(of_int ?k - 1) * of_int l \<le> (of_int t :: rat) - 1" by simp
  then have "of_int ?k - 1 \<le> ?q - 1 / of_int l" using l by (simp add: field_simps)
  then have lo: "of_int ?k - 1 < ?r" using err by linarith
  have "\<lceil>?r\<rceil> = ?k" using lo up by (intro ceiling_unique) simp_all
  moreover have "of_int l \<noteq> (0 :: rat)" using l by simp
  ultimately show ?thesis
    using q0 q53 by (simp add: num_ceil_def num_div_def round_to_double_small)
qed

lemma double_below_one:
  assumes "is_double x" "0 \<le> x" "x < 1"
  shows "x \<le> 1 - 1 / 2 ^ 53"
proof (cases "x < 1 / 2")
  case True
  then show ?thesis by simp
next
  case False
  have a: "(53 :: nat) \<le> 1074" by simp
  have b: "2 ^ 53 * x < 2 ^ 53" using assms(3) by simp
  have c: "2 ^ 52 \<le> 2 ^ 53 * x" using False by simp
  let ?r = "round_half_even (2 ^ 53 * x)"
  have "Finite x = Finite (of_int ?r / 2 ^ 53)"
    using assms(1) round_to_double_eval [OF a b c] by (simp add: is_double_def)
  then have x: "x = of_int ?r / 2 ^ 53" by simp
  then have "(of_int ?r :: rat) < 2 ^ 53" using assms(3) by (simp add: field_simps)
  then have "?r < 2 ^ 53" by (simp only: of_int_less_numeral_power_cancel_iff)
  then have "?r \<le> 2 ^ 53 - 1" by simp
  then have "(of_int ?r :: rat) \<le> of_int (2 ^ 53 - 1)" by (simp only: of_int_le_iff)
  then have "(of_int ?r :: rat) \<le> 2 ^ 53 - 1" by simp
  then have "of_int ?r / 2 ^ 53 \<le> ((2 ^ 53 - 1) / 2 ^ 53 :: rat)" by (simp add: divide_right_mono)
  then show ?thesis using x by (simp add: field_simps)
qed

lemma draw_times_1000:
  assumes "is_double x" "0 \<le> x" "x < 1"
  obtains r where "num_mul (Finite x) (Finite 1000) = Finite r"
    and "of_int \<lfloor>x * 1000\<rfloor> \<le> r" and "r < 1000" and "\<bar>r - x * 1000\<bar> \<le> 1 / 2 ^ 44"
proof -
  let ?y = "x * 1000"
  let ?r = "round_up_scaled 1074 ?y"
  have x1: "x \<le> 1 - 1 / 2 ^ 53" by (rule double_below_one [OF assms])
  have y0: "0 \<le> ?y" using assms(2) by simp
  have y1: "?y \<le> 1000 - 1000 / 2 ^ 53" using x1 by simp
  then have y2: "?y < 1024" by simp
  then have y53: "?y < 2 ^ 53" by simp
  have "2 ^ 43 * ?y < 2 ^ 43 * 1024" using y2 by (simp only: mult_less_cancel_left_pos zero_less_power zero_less_numeral)
  then have "2 ^ 43 * ?y < 2 ^ 53" by simp
  from round_up_scaled_abs_error [of 43 1074 ?y, OF _ y0 this]
  have err: "\<bar>?r - ?y\<bar> \<le> 1 / 2 ^ 44" by simp
  have lo: "of_int \<lfloor>?y\<rfloor> \<le> ?r" by (rule round_up_scaled_ge_int) simp
  have "?r \<le> ?y + 1 / 2 ^ 44" using err by linarith
  also have "\<dots> \<le> 1000 - 1000 / 2 ^ 53 + 1 / 2 ^ 44" using y1 by simp
  also have "\<dots> < 1000" by simp
  finally have hi: "?r < 1000" .
  have "num_mul (Finite x) (Finite 1000) = Finite ?r"
    using y0 y53 by (simp add: num_mul_def round_to_double_small)
  then show ?thesis using lo hi err that by blast
qed


lemma round_half_even_divide:
  assumes "0 < b"
  shows "round_half_even (of_int a / of_int b)
           = (if 2 * (a mod b) < b then a div b
              else if b < 2 * (a mod b) then a div b + 1
              else if even (a div b) then a div b else a div b + 1)"
proof -
  have b: "(0 :: rat) < of_int b" using assms by simp
  have f: "\<lfloor>(of_int a :: rat) / of_int b\<rfloor> = a div b" by (rule floor_divide_of_int_eq)
  have "(of_int a :: rat) = of_int (b * (a div b) + a mod b)" by simp
  also have "\<dots> = of_int b * of_int (a div b) + of_int (a mod b)" by (simp only: of_int_add of_int_mult)
  finally have "(of_int a :: rat) / of_int b = of_int (a div b) + of_int (a mod b) / of_int b"
    using b by (simp add: field_simps)
  then have d: "(of_int a :: rat) / of_int b - of_int (a div b) = of_int (a mod b) / of_int b"
    by simp
  have lt: "((of_int (a mod b) :: rat) / of_int b < 1 / 2) = (2 * (a mod b) < b)"
  proof -
    have "((of_int (a mod b) :: rat) / of_int b < 1 / 2) = ((of_int (2 * (a mod b)) :: rat) < of_int b)"
      using b by (simp add: field_simps)
    also have "\<dots> = (2 * (a mod b) < b)" by (simp only: of_int_less_iff)
    finally show ?thesis .
  qed
  have gt: "(1 / 2 < (of_int (a mod b) :: rat) / of_int b) = (b < 2 * (a mod b))"
  proof -
    have "(1 / 2 < (of_int (a mod b) :: rat) / of_int b) = ((of_int b :: rat) < of_int (2 * (a mod b)))"
      using b by (simp add: field_simps)
    also have "\<dots> = (b < 2 * (a mod b))" by (simp only: of_int_less_iff)
    finally show ?thesis .
  qed
  show ?thesis
    unfolding round_half_even_def Let_def f d lt gt by (rule refl)
qed

lemma round_half_even_numeral:
  "round_half_even (numeral a / numeral b)
     = (if 2 * (numeral a mod numeral b) < (numeral b :: int) then numeral a div numeral b
        else if numeral b < 2 * (numeral a mod numeral b :: int) then numeral a div numeral b + 1
        else if even (numeral a div numeral b :: int) then numeral a div numeral b
        else numeral a div numeral b + 1)"
  "round_half_even (numeral a) = numeral a"
  using round_half_even_divide [of "numeral b" "numeral a"] round_half_even_of_int [of "numeral a"]
  by simp_all

lemma round_to_double_of_int:
  "\<bar>n\<bar> < 2 ^ 53 \<Longrightarrow> round_to_double (of_int n) = Finite (of_int n)"
  using literal_number_exact [of n] by (simp add: literal_number_def)

lemma round_to_double_numeral:
  "(numeral k :: int) < 2 ^ 53 \<Longrightarrow> round_to_double (numeral k) = Finite (numeral k)"
  "round_to_double 0 = Finite 0"
  "round_to_double 1 = Finite 1"
  using round_to_double_of_int [of "numeral k"] round_to_double_of_int [of 0]
    round_to_double_of_int [of 1]
  by simp_all

subsection \<open>Facts about \<open>UPDATE\<close>\<close>

lemma sql_changes_zero_iff: "sql_changes p rows = 0 \<longleftrightarrow> \<not> list_ex p rows"
  by (simp add: sql_changes_def list_ex_iff filter_empty_conv)

lemma sql_update_no_match: "\<not> list_ex p rows \<Longrightarrow> sql_update p f rows = rows"
  by (simp add: sql_update_def list_ex_iff map_idI)

lemma sql_update_length: "length (sql_update p f rows) = length rows"
  by (simp add: sql_update_def)

lemma sql_update_nth:
  "k < length rows \<Longrightarrow>
     sql_update p f rows ! k = (if p (rows ! k) then f (rows ! k) else rows ! k)"
  by (simp add: sql_update_def)

subsection \<open>Maintenance transitions\<close>


lemma status_neq: "m_status r' \<noteq> m_status r \<Longrightarrow> r' \<noteq> r"
  by auto

lemma start_set_neq: "m_status r = Some ''scheduled'' \<Longrightarrow> start_set now r \<noteq> r"
  by (rule status_neq) (simp add: start_set_def)

lemma complete_set_status: "m_status (complete_set now b r) = Some ''completed''"
  by (simp add: complete_set_def Let_def)

lemma complete_set_date: "m_completed_date (complete_set now b r) = Some now"
  by (simp add: complete_set_def Let_def)

lemma complete_set_neq:
  "m_status r = Some ''scheduled'' \<or> m_status r = Some ''in_progress''
     \<Longrightarrow> complete_set now b r \<noteq> r"
  by (rule status_neq) (auto simp add: complete_set_status)

lemma start_rows:
  "fst (maintenance_start StoreOk now i rows) = sql_update (start_where i) (start_set now) rows"
  by (simp add: maintenance_start_def)

lemma complete_rows:
  "fst (maintenance_complete StoreOk now i b rows)
     = sql_update (complete_where i) (complete_set now b) rows"
  by (simp add: maintenance_complete_def)

lemma start_row_changed:
  "k < length rows \<Longrightarrow>
     (fst (maintenance_start StoreOk now i rows) ! k \<noteq> rows ! k) = start_where i (rows ! k)"
  using start_set_neq[of "rows ! k" now]
  by (auto simp add: start_rows sql_update_nth start_where_def)

lemma complete_row_changed:
  "k < length rows \<Longrightarrow>
     (fst (maintenance_complete StoreOk now i b rows) ! k \<noteq> rows ! k)
       = complete_where i (rows ! k)"
  using complete_set_neq[of "rows ! k" now b]
  by (auto simp add: complete_rows sql_update_nth complete_where_def)

lemma start_not_found:
  "\<not> list_ex (start_where i) rows \<Longrightarrow>
     maintenance_start StoreOk now i rows
       = (rows, Response 404 (message ''Mantenimiento no encontrado o ya iniciado''))"
  by (simp add: maintenance_start_def sql_changes_zero_iff sql_update_no_match)

lemma complete_not_found:
  "\<not> list_ex (complete_where i) rows \<Longrightarrow>
     maintenance_complete StoreOk now i b rows
       = (rows, Response 404 (message ''Mantenimiento no encontrado o ya completado''))"
  by (simp add: maintenance_complete_def sql_changes_zero_iff sql_update_no_match)

lemma start_found:
  "list_ex (start_where i) rows \<Longrightarrow>
     snd (maintenance_start StoreOk now i rows)
       = Response 200 (message ''Mantenimiento iniciado exitosamente'')"
  by (simp add: maintenance_start_def sql_changes_zero_iff)

lemma complete_found:
  "list_ex (complete_where i) rows \<Longrightarrow>
     snd (maintenance_complete StoreOk now i b rows)
       = Response 200 (message ''Mantenimiento completado exitosamente'')"
  by (simp add: maintenance_complete_def sql_changes_zero_iff)

text \<open>
  Claim C3. With the store answering, \<open>start\<close> rewrites a row exactly when the row has the
  requested id and status \<open>scheduled\<close>, and the rewritten row is \<open>in_progress\<close>;
  \<open>complete\<close> rewrites a row exactly when the row has the requested id and status
  \<open>scheduled\<close> or \<open>in_progress\<close>, and the rewritten row is \<open>completed\<close> with
  \<open>completed_date\<close> stamped. When no row qualifies (an already completed maintenance
  included) the table is returned as it was and the answer is 404.
\<close>

theorem maintenance_transitions_guarded:
  "(\<forall>k < length rows.
      (fst (maintenance_start StoreOk now i rows) ! k \<noteq> rows ! k
         \<longleftrightarrow> m_id (rows ! k) = i \<and> m_status (rows ! k) = Some ''scheduled'')
    \<and> (m_id (rows ! k) = i \<and> m_status (rows ! k) = Some ''scheduled''
         \<longrightarrow> fst (maintenance_start StoreOk now i rows) ! k
               = (rows ! k)\<lparr>m_status := Some ''in_progress'', m_updated_at := now\<rparr>)
    \<and> (fst (maintenance_complete StoreOk now i b rows) ! k \<noteq> rows ! k
         \<longleftrightarrow> m_id (rows ! k) = i
             \<and> (m_status (rows ! k) = Some ''scheduled''
                \<or> m_status (rows ! k) = Some ''in_progress''))
    \<and> (m_id (rows ! k) = i
         \<and> (m_status (rows ! k) = Some ''scheduled''
            \<or> m_status (rows ! k) = Some ''in_progress'')
         \<longrightarrow> m_status (fst (maintenance_complete StoreOk now i b rows) ! k) = Some ''completed''
           \<and> m_completed_date (fst (maintenance_complete StoreOk now i b rows) ! k) = Some now))
   \<and> length (fst (maintenance_start StoreOk now i rows)) = length rows
   \<and> length (fst (maintenance_complete StoreOk now i b rows)) = length rows
   \<and> (if list_ex (\<lambda>r. m_id r = i \<and> m_status r = Some ''scheduled'') rows
       then snd (maintenance_start StoreOk now i rows)
              = Response 200 (message ''Mantenimiento iniciado exitosamente'')
       else maintenance_start StoreOk now i rows
              = (rows, Response 404 (message ''Mantenimiento no encontrado o ya iniciado'')))
   \<and> (if list_ex (\<lambda>r. m_id r = i
                       \<and> (m_status r = Some ''scheduled'' \<or> m_status r = Some ''in_progress''))
             rows
       then snd (maintenance_complete StoreOk now i b rows)
              = Response 200 (message ''Mantenimiento completado exitosamente'')
       else maintenance_complete StoreOk now i b rows
              = (rows, Response 404 (message ''Mantenimiento no encontrado o ya completado'')))"
proof -
  have sw: "start_where i = (\<lambda>r. m_id r = i \<and> m_status r = Some ''scheduled'')"
    by (rule ext) (simp add: start_where_def)
  have cw: "complete_where i = (\<lambda>r. m_id r = i
               \<and> (m_status r = Some ''scheduled'' \<or> m_status r = Some ''in_progress''))"
    by (rule ext) (simp add: complete_where_def)
  have rows_level: "\<forall>k < length rows.
      (fst (maintenance_start StoreOk now i rows) ! k \<noteq> rows ! k
         \<longleftrightarrow> m_id (rows ! k) = i \<and> m_status (rows ! k) = Some ''scheduled'')
    \<and> (m_id (rows ! k) = i \<and> m_status (rows ! k) = Some ''scheduled''
         \<longrightarrow> fst (maintenance_start StoreOk now i rows) ! k
               = (rows ! k)\<lparr>m_status := Some ''in_progress'', m_updated_at := now\<rparr>)
    \<and> (fst (maintenance_complete StoreOk now i b rows) ! k \<noteq> rows ! k
         \<longleftrightarrow> m_id (rows ! k) = i
             \<and> (m_status (rows ! k) = Some ''scheduled''
                \<or> m_status (rows ! k) = Some ''in_progress''))
    \<and> (m_id (rows ! k) = i
         \<and> (m_status (rows ! k) = Some ''scheduled''
            \<or> m_status (rows ! k) = Some ''in_progress'')
         \<longrightarrow> m_status (fst (maintenance_complete StoreOk now i b rows) ! k) = Some ''completed''
           \<and> m_completed_date (fst (maintenance_complete StoreOk now i b rows) ! k) = Some now)"
  proof (intro allI impI conjI)
    fix k assume k: "k < length rows"
    show "(fst (maintenance_start StoreOk now i rows) ! k \<noteq> rows ! k)
            = (m_id (rows ! k) = i \<and> m_status (rows ! k) = Some ''scheduled'')"
      using start_row_changed[OF k] by (simp add: start_where_def)
    show "(fst (maintenance_complete StoreOk now i b rows) ! k \<noteq> rows ! k)
            = (m_id (rows ! k) = i
               \<and> (m_status (rows ! k) = Some ''scheduled''
                  \<or> m_status (rows ! k) = Some ''in_progress''))"
      using complete_row_changed[OF k] by (simp add: complete_where_def)
  next
    fix k assume k: "k < length rows"
      and m: "m_id (rows ! k) = i \<and> m_status (rows ! k) = Some ''scheduled''"
    then show "fst (maintenance_start StoreOk now i rows) ! k
               = (rows ! k)\<lparr>m_status := Some ''in_progress'', m_updated_at := now\<rparr>"
      by (simp add: start_rows sql_update_nth start_where_def start_set_def)
  next
    fix k assume k: "k < length rows"
      and m: "m_id (rows ! k) = i
         \<and> (m_status (rows ! k) = Some ''scheduled''
            \<or> m_status (rows ! k) = Some ''in_progress'')"
    then have w: "complete_where i (rows ! k)" by (simp add: complete_where_def)
    show "m_status (fst (maintenance_complete StoreOk now i b rows) ! k) = Some ''completed''"
      using k w by (simp add: complete_rows sql_update_nth complete_set_status)
    show "m_completed_date (fst (maintenance_complete StoreOk now i b rows) ! k) = Some now"
      using k w by (simp add: complete_rows sql_update_nth complete_set_date)
  qed
  have len: "length (fst (maintenance_start StoreOk now i rows)) = length rows"
       "length (fst (maintenance_complete StoreOk now i b rows)) = length rows"
    by (simp_all add: start_rows complete_rows sql_update_length)
  have resp_start: "(if list_ex (\<lambda>r. m_id r = i \<and> m_status r = Some ''scheduled'') rows
       then snd (maintenance_start StoreOk now i rows)
              = Response 200 (message ''Mantenimiento iniciado exitosamente'')
       else maintenance_start StoreOk now i rows
              = (rows, Response 404 (message ''Mantenimiento no encontrado o ya iniciado'')))"
    using start_found[of i rows now] start_not_found[of i rows now] by (simp add: sw)
  have resp_complete: "(if list_ex (\<lambda>r. m_id r = i
                       \<and> (m_status r = Some ''scheduled'' \<or> m_status r = Some ''in_progress''))
             rows
       then snd (maintenance_complete StoreOk now i b rows)
              = Response 200 (message ''Mantenimiento completado exitosamente'')
       else maintenance_complete StoreOk now i b rows
              = (rows, Response 404 (message ''Mantenimiento no encontrado o ya completado'')))"
    using complete_found[of i rows now b] complete_not_found[of i rows now b] by (simp add: cw)
  from rows_level len resp_start resp_complete show ?thesis by blast
qed

theorem maintenance_transitions_guarded_witness:
  "maintenance_start StoreOk ''2026-11-02 09:00:00'' 1
        [m_row 1 ''scheduled'', m_row 2 ''in_progress'', m_row 3 ''completed'']
     = ([(m_row 1 ''scheduled'')\<lparr>m_status := Some ''in_progress'',
                                  m_updated_at := ''2026-11-02 09:00:00''\<rparr>,
         m_row 2 ''in_progress'', m_row 3 ''completed''],
        Response 200 (message ''Mantenimiento iniciado exitosamente''))
   \<and> maintenance_start StoreOk ''2026-11-02 09:00:00'' 2
        [m_row 1 ''scheduled'', m_row 2 ''in_progress'', m_row 3 ''completed'']
     = ([m_row 1 ''scheduled'', m_row 2 ''in_progress'', m_row 3 ''completed''],
        Response 404 (message ''Mantenimiento no encontrado o ya iniciado''))
   \<and> m_status (fst (maintenance_complete StoreOk ''2026-11-02 09:00:00'' 2
          \<lparr>cb_notes = None, cb_cost = None\<rparr>
          [m_row 1 ''scheduled'', m_row 2 ''in_progress'', m_row 3 ''completed'']) ! 1)
     = Some ''completed''
   \<and> maintenance_complete StoreOk ''2026-11-02 09:00:00'' 3
        \<lparr>cb_notes = None, cb_cost = None\<rparr>
        [m_row 1 ''scheduled'', m_row 2 ''in_progress'', m_row 3 ''completed'']
     = ([m_row 1 ''scheduled'', m_row 2 ''in_progress'', m_row 3 ''completed''],
        Response 404 (message ''Mantenimiento no encontrado o ya completado''))"
  using maintenance_transitions_guarded
          [of "[m_row 1 ''scheduled'', m_row 2 ''in_progress'', m_row 3 ''completed'']"
              "''2026-11-02 09:00:00''" 1 "\<lparr>cb_notes = None, cb_cost = None\<rparr>"]
        maintenance_transitions_guarded
          [of "[m_row 1 ''scheduled'', m_row 2 ''in_progress'', m_row 3 ''completed'']"
              "''2026-11-02 09:00:00''" 2 "\<lparr>cb_notes = None, cb_cost = None\<rparr>"]
        maintenance_transitions_guarded
          [of "[m_row 1 ''scheduled'', m_row 2 ''in_progress'', m_row 3 ''completed'']"
              "''2026-11-02 09:00:00''" 3 "\<lparr>cb_notes = None, cb_cost = None\<rparr>"]
  by (simp add: m_row_def maintenance_start_def maintenance_complete_def sql_update_def
        sql_changes_def start_where_def start_set_def complete_where_def complete_set_def
        truthy_str_def truthy_num_def Let_def)

subsection \<open>Generated codes\<close>

lemma digit_0: "digit 0 = CHR ''0''"
  by (simp add: digit_def)

lemma digit_mod: "digit (n mod 10) = digit n"
  by (simp add: digit_def)

lemma to_string_lt10: "n < 10 \<Longrightarrow> to_string n = [digit n]"
  by (simp add: to_string.simps)

lemma to_string_lt100: "10 \<le> n \<Longrightarrow> n < 100 \<Longrightarrow> to_string n = [digit (n div 10), digit n]"
  by (subst to_string.simps) (simp add: to_string_lt10 digit_mod)

lemma to_string_lt1000:
  assumes "100 \<le> n" "n < 1000"
  shows "to_string n = [digit (n div 100), digit (n div 10), digit n]"
proof -
  have h: "n div 10 div 10 = n div 100"
    by (simp add: div_mult2_eq[symmetric])
  have "to_string n = to_string (n div 10) @ [digit (n mod 10)]"
    using assms by (subst to_string.simps) simp
  also have "to_string (n div 10) = [digit (n div 10 div 10), digit (n div 10)]"
    using assms by (intro to_string_lt100) simp_all
  finally show ?thesis by (simp add: h digit_mod)
qed

lemma fixed_digits_2: "fixed_digits 2 n = [digit (n div 10), digit n]"
  by (simp add: fixed_digits_def numeral_2_eq_2)

lemma fixed_digits_3: "fixed_digits 3 n = [digit (n div 100), digit (n div 10), digit n]"
  by (simp add: fixed_digits_def numeral_3_eq_3)

lemma padStart_2: "n < 100 \<Longrightarrow> padStart 2 CHR ''0'' (to_string n) = fixed_digits 2 n"
  by (cases "n < 10")
     (simp_all add: padStart_def to_string_lt10 to_string_lt100 fixed_digits_2 digit_0)

lemma padStart_3:
  assumes "n < 1000"
  shows "padStart 3 CHR ''0'' (to_string n) = fixed_digits 3 n"
proof -
  consider "n < 10" | "10 \<le> n" "n < 100" | "100 \<le> n" by linarith
  then show ?thesis
  proof cases
    case 1 then show ?thesis
      by (simp add: padStart_def to_string_lt10 fixed_digits_3 digit_0 numeral_2_eq_2)
  next
    case 2 then show ?thesis
      by (simp add: padStart_def to_string_lt100 fixed_digits_3 digit_0)
  next
    case 3 then show ?thesis using assms
      by (simp add: padStart_def to_string_lt1000 fixed_digits_3)
  qed
qed

lemma mod100_div10: "(n::nat) mod 100 div 10 = n div 10 mod 10"
proof -
  have "n mod (10 * 10) = 10 * (n div 10 mod 10) + n mod 10"
    by (rule mod_mult2_eq)
  then show ?thesis by simp
qed

lemma year_last_two:
  assumes n: "10 \<le> n"
  shows "substr_from_end 2 (to_string n) = fixed_digits 2 (n mod 100)"
proof -
  have d1: "digit (n mod 100 div 10) = digit (n div 10)"
    by (simp add: mod100_div10 digit_mod)
  have d0: "digit (n mod 100) = digit n"
    by (simp add: digit_def mod_mod_cancel)
  have "\<exists>pre. to_string n = pre @ [digit (n div 10), digit n]"
  proof (cases "n div 10 < 10")
    case True
    then have "to_string n = [] @ [digit (n div 10), digit n]"
      using n by (subst to_string.simps) (simp add: to_string_lt10 digit_mod)
    then show ?thesis by blast
  next
    case False
    then have "to_string n = to_string (n div 10 div 10) @ [digit (n div 10), digit n]"
      using n by (subst to_string.simps, subst to_string.simps) (simp add: digit_mod)
    then show ?thesis by blast
  qed
  then obtain pre where "to_string n = pre @ [digit (n div 10), digit n]" by blast
  then show ?thesis
    by (simp add: substr_from_end_def fixed_digits_2 d0 d1)
qed


lemma generators_spec:
  assumes "10 \<le> getFullYear now" "getMonth now < 12" "getDate now \<le> 31"
    and "num_floor (num_mul (Finite rnd) (Finite 1000)) = Finite (of_nat n)" "n \<le> 999"
  shows "generateFormCode now rnd = spec_code ''FR'' now n"
    and "generateIncidentCode now rnd = spec_code ''INC'' now n"
    and "generateMaintenanceCode now rnd = spec_code ''MNT'' now n"
proof -
  have "number_to_string (Finite (of_nat n)) = to_string n"
    by (simp add: number_to_string_def)
  moreover have "n < 1000" using assms(5) by simp
  ultimately have "padStart 3 CHR ''0''
      (number_to_string (num_floor (num_mul (Finite rnd) (Finite 1000)))) = fixed_digits 3 n"
    using assms(4) by (simp add: padStart_3)
  then show "generateFormCode now rnd = spec_code ''FR'' now n"
    and "generateIncidentCode now rnd = spec_code ''INC'' now n"
    and "generateMaintenanceCode now rnd = spec_code ''MNT'' now n"
    using assms(1-3)
    by (simp_all add: generateFormCode_def generateIncidentCode_def
          generateMaintenanceCode_def spec_code_def year_last_two padStart_2)
qed

lemma draw_bucket:
  assumes "is_double rnd" "0 \<le> rnd" "rnd < 1"
  obtains n where "n \<le> 999"
    and "num_floor (num_mul (Finite rnd) (Finite 1000)) = Finite (of_nat n)"
    and "of_nat n - 1 / 2 ^ 44 \<le> rnd * 1000" and "rnd * 1000 < of_nat n + 1"
    and "\<And>m. of_nat m \<le> rnd * 1000 \<Longrightarrow> rnd * 1000 < of_nat m + 1 - 1 / 2 ^ 44 \<Longrightarrow> n = m"
proof -
  from draw_times_1000 [OF assms] obtain r
    where p: "num_mul (Finite rnd) (Finite 1000) = Finite r"
      and lo: "of_int \<lfloor>rnd * 1000\<rfloor> \<le> r" and hi: "r < 1000"
      and err: "\<bar>r - rnd * 1000\<bar> \<le> 1 / 2 ^ 44"
    by blast
  let ?y = "rnd * 1000"
  have y0: "0 \<le> \<lfloor>?y\<rfloor>" using assms(2) by simp
  have fy: "\<lfloor>?y\<rfloor> \<le> \<lfloor>r\<rfloor>" using lo by (simp add: le_floor_iff)
  then have r0: "0 \<le> \<lfloor>r\<rfloor>" using y0 by linarith
  have "r < of_int 1000" using hi by simp
  then have "\<lfloor>r\<rfloor> < 1000" by (simp only: floor_less_iff)
  then have n: "nat \<lfloor>r\<rfloor> \<le> 999" by linarith
  have cast: "(of_nat (nat \<lfloor>r\<rfloor>) :: rat) = of_int \<lfloor>r\<rfloor>" using r0 by simp
  have fl: "num_floor (num_mul (Finite rnd) (Finite 1000)) = Finite (of_nat (nat \<lfloor>r\<rfloor>))"
    by (simp only: p cast) (simp add: num_floor_def)
  have fr: "of_int \<lfloor>r\<rfloor> \<le> r" by (rule of_int_floor_le)
  have a: "of_nat (nat \<lfloor>r\<rfloor>) - 1 / 2 ^ 44 \<le> ?y"
    unfolding cast using err fr by linarith
  have "?y < of_int \<lfloor>?y\<rfloor> + 1" by linarith
  moreover have "(of_int \<lfloor>?y\<rfloor> :: rat) \<le> of_int \<lfloor>r\<rfloor>" using fy by (simp only: of_int_le_iff)
  ultimately have b: "?y < of_nat (nat \<lfloor>r\<rfloor>) + 1" unfolding cast by linarith
  have c: "nat \<lfloor>r\<rfloor> = m"
    if m1: "of_nat m \<le> ?y" and m2: "?y < of_nat m + 1 - 1 / 2 ^ 44" for m
  proof -
    have "(of_int (int m) :: rat) \<le> ?y" using m1 by simp
    then have "int m \<le> \<lfloor>?y\<rfloor>" by (simp only: le_floor_iff)
    then have l: "int m \<le> \<lfloor>r\<rfloor>" using fy by linarith
    have "r < of_nat m + 1" using err m2 by linarith
    then have "r < of_int (int m + 1)" by simp
    then have "\<lfloor>r\<rfloor> < int m + 1" by (simp only: floor_less_iff)
    then show ?thesis using l by linarith
  qed
  show ?thesis by (rule that [OF n fl a b c])
qed

text \<open>
  Claim C8. On a calendar date (year of at least two digits, month 0..11 as \<open>getMonth\<close>
  counts, day at most 31) and a draw of \<open>Math.random()\<close>, a double \<open>0 \<le> rnd < 1\<close>, each
  generator returns its prefix (FR, INC, MNT), a hyphen, the last two digits of the year,
  the month and the day in two digits each, a hyphen, and \<open>NNN\<close> in three digits, where
  \<open>NNN\<close> is \<open>Math.floor\<close> of the rounded product \<open>rnd * 1000\<close> and lies in 0..999.
  \<open>NNN\<close> is \<open>n\<close> for every draw with \<open>n \<le> 1000 * rnd < n + 1 - 2^-44\<close> and for no draw
  outside \<open>n - 2^-44 \<le> 1000 * rnd < n + 1\<close>: the thousand values are met on intervals of
  draws of the same length up to the rounding of the product, so a uniform draw gives a
  uniform \<open>NNN\<close> up to that rounding. Two draws of the same day with the same \<open>NNN\<close>
  give the same code, so codes are not unique.
\<close>

theorem generated_code_shape:
  assumes "10 \<le> getFullYear now" and "getMonth now < 12" and "getDate now \<le> 31"
    and "is_double rnd" and "0 \<le> rnd" and "rnd < 1"
  shows "\<exists>n\<le>999.
           generateFormCode now rnd = spec_code ''FR'' now n
         \<and> generateIncidentCode now rnd = spec_code ''INC'' now n
         \<and> generateMaintenanceCode now rnd = spec_code ''MNT'' now n
         \<and> num_floor (num_mul (Finite rnd) (Finite 1000)) = Finite (of_nat n)
         \<and> of_nat n - 1 / 2 ^ 44 \<le> rnd * 1000 \<and> rnd * 1000 < of_nat n + 1
         \<and> (\<forall>m. of_nat m \<le> rnd * 1000 \<and> rnd * 1000 < of_nat m + 1 - 1 / 2 ^ 44 \<longrightarrow> n = m)
         \<and> (\<forall>rnd'. num_floor (num_mul (Finite rnd') (Finite 1000)) = Finite (of_nat n)
                \<longrightarrow> generateFormCode now rnd' = generateFormCode now rnd
                  \<and> generateIncidentCode now rnd' = generateIncidentCode now rnd
                  \<and> generateMaintenanceCode now rnd' = generateMaintenanceCode now rnd)"
proof -
  from draw_bucket [OF assms(4-6)] obtain n where n: "n \<le> 999"
    and fl: "num_floor (num_mul (Finite rnd) (Finite 1000)) = Finite (of_nat n)"
    and a: "of_nat n - 1 / 2 ^ 44 \<le> rnd * 1000" and b: "rnd * 1000 < of_nat n + 1"
    and c: "\<And>m. of_nat m \<le> rnd * 1000 \<Longrightarrow> rnd * 1000 < of_nat m + 1 - 1 / 2 ^ 44 \<Longrightarrow> n = m"
    by blast
  note g = generators_spec [OF assms(1-3) fl n]
  have "generateFormCode now rnd' = generateFormCode now rnd
      \<and> generateIncidentCode now rnd' = generateIncidentCode now rnd
      \<and> generateMaintenanceCode now rnd' = generateMaintenanceCode now rnd"
    if "num_floor (num_mul (Finite rnd') (Finite 1000)) = Finite (of_nat n)" for rnd'
    using generators_spec [OF assms(1-3) that n] g by simp
  then show ?thesis using n fl a b c g by blast
qed

lemma floor_product_119:
  "num_floor (num_mul (Finite (535928355657089 / 2 ^ 52)) (Finite 1000)) = Finite (of_nat 119)"
  "num_floor (num_mul (Finite (61 / 512)) (Finite 1000)) = Finite (of_nat 119)"
proof -
  have "round_to_double (535928355657089 / 2 ^ 52 * 1000) = Finite 119"
    using round_to_double_eval [of 46 "535928355657089 / 2 ^ 52 * 1000"]
    by (simp add: round_half_even_numeral)
  then show "num_floor (num_mul (Finite (535928355657089 / 2 ^ 52)) (Finite 1000))
               = Finite (of_nat 119)"
    by (simp add: num_mul_def num_floor_def)
  have "round_to_double (61 / 512 * 1000) = Finite (7625 / 64)"
    using round_to_double_eval [of 46 "61 / 512 * 1000"]
    by (simp add: round_half_even_numeral)
  moreover have "\<lfloor>(7625 / 64 :: rat)\<rfloor> = 119"
    by (simp add: floor_eq_iff)
  ultimately show "num_floor (num_mul (Finite (61 / 512)) (Finite 1000)) = Finite (of_nat 119)"
    by (simp add: num_mul_def num_floor_def)
qed

theorem generated_code_shape_witness:
  "is_double (535928355657089 / 2 ^ 52)
   \<and> (0 :: rat) \<le> 535928355657089 / 2 ^ 52 \<and> (535928355657089 / 2 ^ 52 :: rat) < 1
   \<and> (535928355657089 / 2 ^ 52 * 1000 :: rat) < 119
   \<and> generateFormCode \<lparr>getFullYear = 2026, getMonth = 10, getDate = 2\<rparr>
        (535928355657089 / 2 ^ 52) = ''FR-261102-119''
   \<and> generateIncidentCode \<lparr>getFullYear = 2026, getMonth = 10, getDate = 2\<rparr>
        (535928355657089 / 2 ^ 52) = ''INC-261102-119''
   \<and> generateMaintenanceCode \<lparr>getFullYear = 2026, getMonth = 10, getDate = 2\<rparr>
        (535928355657089 / 2 ^ 52) = ''MNT-261102-119''
   \<and> generateFormCode \<lparr>getFullYear = 2026, getMonth = 10, getDate = 2\<rparr> (61 / 512)
     = generateFormCode \<lparr>getFullYear = 2026, getMonth = 10, getDate = 2\<rparr>
         (535928355657089 / 2 ^ 52)"
proof -
  let ?now = "\<lparr>getFullYear = 2026, getMonth = 10, getDate = 2\<rparr>"
  let ?rnd = "535928355657089 / 2 ^ 52 :: rat"
  have d: "is_double ?rnd"
    using round_to_double_eval [of 56 ?rnd]
    by (simp add: is_double_def round_half_even_numeral)
  have r: "0 \<le> ?rnd" "?rnd < 1" "?rnd * 1000 < 119" by simp_all
  have n: "10 \<le> getFullYear ?now" "getMonth ?now < 12" "getDate ?now \<le> 31" by simp_all
  from generated_code_shape [OF n d r(1,2)] obtain k
    where k: "generateFormCode ?now ?rnd = spec_code ''FR'' ?now k"
        "generateIncidentCode ?now ?rnd = spec_code ''INC'' ?now k"
        "generateMaintenanceCode ?now ?rnd = spec_code ''MNT'' ?now k"
      and f: "num_floor (num_mul (Finite ?rnd) (Finite 1000)) = Finite (of_nat k)"
      and c: "\<forall>rnd'. num_floor (num_mul (Finite rnd') (Finite 1000)) = Finite (of_nat k)
                \<longrightarrow> generateFormCode ?now rnd' = generateFormCode ?now ?rnd
                  \<and> generateIncidentCode ?now rnd' = generateIncidentCode ?now ?rnd
                  \<and> generateMaintenanceCode ?now rnd' = generateMaintenanceCode ?now ?rnd"
    by blast
  have "(of_nat k :: rat) = of_nat 119" using f floor_product_119(1) by simp
  then have k119: "k = 119" by (simp only: of_nat_eq_iff)
  have codes: "generateFormCode ?now ?rnd = ''FR-261102-119''"
    "generateIncidentCode ?now ?rnd = ''INC-261102-119''"
    "generateMaintenanceCode ?now ?rnd = ''MNT-261102-119''"
    unfolding k k119 by (simp_all add: spec_code_def fixed_digits_2 fixed_digits_3 digit_def)
  have "generateFormCode ?now (61 / 512) = generateFormCode ?now ?rnd"
    using c floor_product_119(2) unfolding k119 by blast
  then show ?thesis using d r codes by simp
qed

subsection \<open>Resolution time of incidents\<close>

lemma incident_resolve_rows:
  "notEmpty solution \<Longrightarrow>
     fst (incident_resolve StoreOk now i solution rows)
       = sql_update (\<lambda>r. i_id r = i) (incident_resolve_set now solution) rows"
  by (simp add: incident_resolve_def check_def)

lemma incident_update_rows:
  "notEmpty (ib_title b) \<Longrightarrow> notEmpty (ib_description b) \<Longrightarrow>
     fst (incident_update StoreOk now i b rows)
       = sql_update (\<lambda>r. i_id r = i) (incident_update_set now b) rows"
  by (simp add: incident_update_def check_def)

lemma incident_update_set_resolved_date:
  "i_resolved_date (incident_update_set now b r)
     = (if ib_status b = Some ''resolved'' \<or> ib_status b = Some ''closed''
        then Some now else i_resolved_date r)"
  by (simp add: incident_update_set_def Let_def)

text \<open>
  Claim C4 as the code has it. For a row with the requested id, \<open>resolve\<close> sets
  \<open>resolved_date\<close> to the current timestamp whatever the column held before, and so does
  an update whose status is \<open>resolved\<close> or \<open>closed\<close>; an update with any other status
  leaves \<open>resolved_date\<close> as it was.
\<close>

theorem resolved_date_stamped_on_every_call:
  assumes "k < length rows" and "i_id (rows ! k) = i"
  shows "(notEmpty solution \<longrightarrow>
            i_resolved_date (fst (incident_resolve StoreOk now i solution rows) ! k) = Some now)
       \<and> (notEmpty (ib_title b) \<and> notEmpty (ib_description b) \<longrightarrow>
            i_resolved_date (fst (incident_update StoreOk now i b rows) ! k)
              = (if ib_status b = Some ''resolved'' \<or> ib_status b = Some ''closed''
                 then Some now else i_resolved_date (rows ! k)))"
  using assms
  by (simp add: incident_resolve_rows incident_update_rows sql_update_nth
        incident_update_set_resolved_date incident_resolve_set_def)

theorem resolved_date_stamped_on_every_call_witness:
  "(0::nat) < length [i_row 1] \<and> i_id ([i_row 1] ! 0) = 1
   \<and> notEmpty (Some ''Toner'')
   \<and> notEmpty (ib_title (i_body ''in_progress''))
   \<and> notEmpty (ib_description (i_body ''in_progress''))
   \<and> i_resolved_date
        (fst (incident_resolve StoreOk ''2026-11-02 09:00:00'' 1 (Some ''Toner'') [i_row 1]) ! 0)
       = Some ''2026-11-02 09:00:00''
   \<and> i_resolved_date
        (fst (incident_update StoreOk ''2026-11-02 09:00:00'' 1 (i_body ''in_progress'')
                [i_row 1]) ! 0)
       = Some ''2026-10-01 10:00:00''"
  using resolved_date_stamped_on_every_call
          [of 0 "[i_row 1]" 1 "Some ''Toner''" "''2026-11-02 09:00:00''" "i_body ''in_progress''"]
  by (simp add: i_row_def i_body_def notEmpty_def)

text \<open>
  The claim as written fails: the incident below was resolved on 1 October; resolving it
  again on 2 November, or updating it to \<open>closed\<close>, replaces the stored resolution time.
\<close>

theorem resolved_date_reset_counterexample:
  "i_resolved_date ([i_row 1] ! 0) = Some ''2026-10-01 10:00:00''
   \<and> i_resolved_date
        (fst (incident_resolve StoreOk ''2026-11-02 09:00:00'' 1 (Some ''Toner'') [i_row 1]) ! 0)
       = Some ''2026-11-02 09:00:00''
   \<and> i_resolved_date
        (fst (incident_update StoreOk ''2026-11-02 09:00:00'' 1 (i_body ''closed'') [i_row 1]) ! 0)
       = Some ''2026-11-02 09:00:00''
   \<and> i_resolved_date
        (fst (incident_resolve StoreOk ''2026-11-02 09:00:00'' 1 (Some ''Toner'') [i_row 1]) ! 0)
       \<noteq> i_resolved_date ([i_row 1] ! 0)
   \<and> i_resolved_date
        (fst (incident_update StoreOk ''2026-11-02 09:00:00'' 1 (i_body ''closed'') [i_row 1]) ! 0)
       \<noteq> i_resolved_date ([i_row 1] ! 0)
   \<and> snd (incident_resolve StoreOk ''2026-11-02 09:00:00'' 1 (Some ''Toner'') [i_row 1])
       = Response 200 (message ''Incidencia resuelta exitosamente'')"
  by (simp add: incident_resolve_def incident_update_def check_def notEmpty_def i_row_def
        i_body_def sql_update_def sql_changes_def incident_resolve_set_def
        incident_update_set_def Let_def)

subsection \<open>Who writes an asset's responsible user\<close>

lemma find_sql_update:
  assumes "\<And>x. P (g x) = P x"
  shows "find P (sql_update q g xs) = map_option (\<lambda>x. if q x then g x else x) (find P xs)"
  using assms by (induction xs) (simp_all add: sql_update_def)

lemma form_approve_falsy_assets:
  "\<not> truthy (approved b) \<Longrightarrow> assets (fst (form_approve e1 e2 e3 now uid i b st)) = assets st"
  by (simp add: form_approve_def Let_def split: outcome.splits)

lemma form_approve_forms:
  "isBoolean (approved b) \<Longrightarrow>
     forms (fst (form_approve StoreOk e2 e3 now uid i b st))
       = sql_update (\<lambda>f. rf_id f = i \<and> rf_status f = Some ''pending'')
           (form_decide_set now (if truthy (approved b) then ''approved'' else ''rejected'')
              uid (comments b))
           (forms st)"
  by (simp add: form_approve_def Let_def check_def split: outcome.splits option.splits)

lemma asset_update_assets:
  "notEmpty (ab_name b) \<Longrightarrow> isInt (ab_category_id b) \<Longrightarrow>
     assets (fst (asset_update StoreOk now i b st))
       = sql_update (\<lambda>a. a_id a = i) (asset_update_set now b) (assets st)"
  by (simp add: asset_update_def check_def)

lemma asset_create_responsible:
  "k < length (assets st) \<Longrightarrow>
     a_responsible_user_id (assets (fst (asset_create e1 e2 now b st)) ! k)
       = a_responsible_user_id (assets st ! k)"
  by (simp add: asset_create_def Let_def nth_append split: outcome.splits option.splits)

lemma asset_delete_responsible:
  "k < length (assets st) \<Longrightarrow>
     a_responsible_user_id (assets (fst (asset_delete e now i st)) ! k)
       = a_responsible_user_id (assets st ! k)"
  by (simp add: asset_delete_def sql_update_nth split: outcome.splits)

lemma form_create_assets:
  "assets (fst (form_create v e1 e2 today rnd now b st)) = assets st"
  by (simp add: form_create_def Let_def split: outcome.splits option.splits)

lemma other_operations_keep_responsible:
  assumes "k < length (assets st)" and "\<not> writes_responsible op"
  shows "a_responsible_user_id (assets (fst (step op st)) ! k)
           = a_responsible_user_id (assets st ! k)"
  using assms
  by (cases op)
     (simp_all add: asset_create_responsible asset_delete_responsible form_create_assets
        form_approve_falsy_assets)

lemma form_approve_truthy_assets:
  assumes "isBoolean (approved b)" and "truthy (approved b)"
    and "find (\<lambda>f. rf_id f = i) (forms st) = Some f" and "rf_status f = Some ''pending''"
  shows "assets (fst (form_approve StoreOk StoreOk StoreOk now uid i b st))
           = sql_update (\<lambda>a. a_id a = rf_asset_id f)
               (\<lambda>a. a\<lparr>a_responsible_user_id := Some (rf_new_responsible_id f),
                       a_updated_at := now\<rparr>)
               (assets st)"
proof -
  let ?p = "\<lambda>f. rf_id f = i \<and> rf_status f = Some ''pending''"
  let ?g = "form_decide_set now ''approved'' uid (comments b)"
  from assms(3) have fi: "rf_id f = i" and fin: "f \<in> set (forms st)"
    by (auto simp: find_Some_iff)
  have ex: "sql_changes ?p (forms st) \<noteq> 0"
    using fi fin assms(4) by (auto simp add: sql_changes_zero_iff list_ex_iff)
  have "find (\<lambda>f. rf_id f = i) (sql_update ?p ?g (forms st))
          = map_option (\<lambda>x. if ?p x then ?g x else x) (find (\<lambda>f. rf_id f = i) (forms st))"
    by (rule find_sql_update) (simp add: form_decide_set_def)
  then have found: "find (\<lambda>f. rf_id f = i) (sql_update ?p ?g (forms st)) = Some (?g f)"
    using assms(3,4) fi by simp
  show ?thesis
    using assms(1,2) ex found
    by (simp add: form_approve_def Let_def check_def form_decide_set_def)
qed


text \<open>
  Claim C2 as the code has it. Rejecting a form (a falsy \<open>approved\<close>) leaves table
  \<open>assets\<close> as it was, whatever the store answers, and turns every pending row with the
  requested id into \<open>rejected\<close> (for \<open>false\<close> and for every other accepted falsy value).
  Approving a pending form writes the form's new
  responsible to its asset. Among the operations that write to \<open>assets\<close> or
  \<open>responsive_forms\<close>, every one other than an approval and the asset update leaves
  \<open>responsible_user_id\<close> of every existing asset as it was; the asset update overwrites
  it with the value of the request.
\<close>

theorem responsible_written_by_approval_and_asset_update:
  "(\<not> truthy (approved b)
      \<longrightarrow> assets (fst (form_approve e1 e2 e3 now uid i b st)) = assets st)
   \<and> (\<forall>k < length (forms st).
         isBoolean (approved b) \<and> \<not> truthy (approved b)
         \<and> rf_id (forms st ! k) = i \<and> rf_status (forms st ! k) = Some ''pending''
         \<longrightarrow> rf_status (forms (fst (form_approve StoreOk e2 e3 now uid i b st)) ! k)
               = Some ''rejected'')
   \<and> (isBoolean (approved b) \<and> truthy (approved b)
        \<and> find (\<lambda>f. rf_id f = i) (forms st) = Some f \<and> rf_status f = Some ''pending''
      \<longrightarrow> assets (fst (form_approve StoreOk StoreOk StoreOk now uid i b st))
            = sql_update (\<lambda>a. a_id a = rf_asset_id f)
                (\<lambda>a. a\<lparr>a_responsible_user_id := Some (rf_new_responsible_id f),
                        a_updated_at := now\<rparr>)
                (assets st))
   \<and> (\<forall>k < length (assets st).
         \<not> writes_responsible op
         \<longrightarrow> a_responsible_user_id (assets (fst (step op st)) ! k)
               = a_responsible_user_id (assets st ! k))
   \<and> (\<forall>k < length (assets st).
         notEmpty (ab_name ab) \<and> isInt (ab_category_id ab) \<and> a_id (assets st ! k) = j
         \<longrightarrow> a_responsible_user_id (assets (fst (asset_update StoreOk now j ab st)) ! k)
               = ab_responsible_user_id ab)"
proof (intro conjI allI impI)
  assume "\<not> truthy (approved b)"
  then show "assets (fst (form_approve e1 e2 e3 now uid i b st)) = assets st"
    by (rule form_approve_falsy_assets)
next
  fix k
  assume k: "k < length (forms st)"
    and h: "isBoolean (approved b) \<and> \<not> truthy (approved b)
            \<and> rf_id (forms st ! k) = i \<and> rf_status (forms st ! k) = Some ''pending''"
  then show "rf_status (forms (fst (form_approve StoreOk e2 e3 now uid i b st)) ! k)
               = Some ''rejected''"
    by (simp add: form_approve_forms sql_update_nth form_decide_set_def)
next
  assume "isBoolean (approved b) \<and> truthy (approved b)
        \<and> find (\<lambda>f. rf_id f = i) (forms st) = Some f \<and> rf_status f = Some ''pending''"
  then show "assets (fst (form_approve StoreOk StoreOk StoreOk now uid i b st))
            = sql_update (\<lambda>a. a_id a = rf_asset_id f)
                (\<lambda>a. a\<lparr>a_responsible_user_id := Some (rf_new_responsible_id f),
                        a_updated_at := now\<rparr>)
                (assets st)"
    using form_approve_truthy_assets by blast
next
  fix k
  assume "k < length (assets st)" and "\<not> writes_responsible op"
  then show "a_responsible_user_id (assets (fst (step op st)) ! k)
               = a_responsible_user_id (assets st ! k)"
    by (rule other_operations_keep_responsible)
next
  fix k
  assume k: "k < length (assets st)"
    and h: "notEmpty (ab_name ab) \<and> isInt (ab_category_id ab) \<and> a_id (assets st ! k) = j"
  then show "a_responsible_user_id (assets (fst (asset_update StoreOk now j ab st)) ! k)
               = ab_responsible_user_id ab"
    by (simp add: asset_update_assets sql_update_nth asset_update_set_def)
qed

theorem responsible_written_by_approval_and_asset_update_witness:
  "(0::nat) < length (forms st0) \<and> (0::nat) < length (assets st0)
   \<and> isBoolean (Some (SBool False)) \<and> \<not> truthy (Some (SBool False))
   \<and> rf_id (forms st0 ! 0) = 1 \<and> rf_status (forms st0 ! 0) = Some ''pending''
   \<and> assets (fst (form_approve StoreOk StoreOk StoreOk ''2026-11-02 09:00:00'' 2 1
                      \<lparr>approved = Some (SBool False), comments = None\<rparr> st0)) = assets st0
   \<and> rf_status (forms (fst (form_approve StoreOk StoreOk StoreOk ''2026-11-02 09:00:00'' 2 1
                      \<lparr>approved = Some (SBool False), comments = None\<rparr> st0)) ! 0)
       = Some ''rejected''
   \<and> isBoolean (Some (SBool True)) \<and> truthy (Some (SBool True))
   \<and> find (\<lambda>f. rf_id f = 1) (forms st0) = Some rf_row
   \<and> a_responsible_user_id
        (assets (fst (form_approve StoreOk StoreOk StoreOk ''2026-11-02 09:00:00'' 2 1
                      \<lparr>approved = Some (SBool True), comments = None\<rparr> st0)) ! 0) = Some 9
   \<and> a_responsible_user_id
        (assets (fst (step (AssetDelete StoreOk ''2026-11-02 09:00:00'' 3) st0)) ! 0) = Some 7
   \<and> a_responsible_user_id
        (assets (fst (asset_update StoreOk ''2026-11-02 09:00:00'' 3 a_body st0)) ! 0) = Some 9"
  using responsible_written_by_approval_and_asset_update
          [of "\<lparr>approved = Some (SBool False), comments = None\<rparr>" StoreOk StoreOk StoreOk
              "''2026-11-02 09:00:00''" 2 1 st0 rf_row
              "AssetDelete StoreOk ''2026-11-02 09:00:00'' 3" a_body 3]
        responsible_written_by_approval_and_asset_update
          [of "\<lparr>approved = Some (SBool True), comments = None\<rparr>" StoreOk StoreOk StoreOk
              "''2026-11-02 09:00:00''" 2 1 st0 rf_row
              "AssetDelete StoreOk ''2026-11-02 09:00:00'' 3" a_body 3]
  by (simp add: st0_def a_row_def rf_row_def a_body_def truthy_def isBoolean_def notEmpty_def
        isInt_def sql_update_def)

text \<open>
  The claim as written fails in its second half: the asset update endpoint hands asset 3
  from user 7 to user 9 while the only form stays pending.
\<close>

theorem asset_update_rewrites_responsible_counterexample:
  "a_responsible_user_id (assets st0 ! 0) = Some 7
   \<and> a_responsible_user_id
        (assets (fst (asset_update StoreOk ''2026-11-02 09:00:00'' 3 a_body st0)) ! 0) = Some 9
   \<and> forms (fst (asset_update StoreOk ''2026-11-02 09:00:00'' 3 a_body st0)) = forms st0
   \<and> rf_status (forms st0 ! 0) = Some ''pending''
   \<and> snd (asset_update StoreOk ''2026-11-02 09:00:00'' 3 a_body st0)
       = Response 200 (message ''Activo actualizado exitosamente'')"
  by (simp add: asset_update_def check_def notEmpty_def isInt_def st0_def a_row_def rf_row_def
        a_body_def sql_update_def sql_changes_def asset_update_set_def)

subsection \<open>The handlers' filter chains and the specified builder\<close>

lemma add_filter_spec:
  "add_filter v sql binds qp
     = (fst qp @ where_text [(v, sql, binds)], snd qp @ where_params [(v, sql, binds)])"
  by (cases v)
     (simp_all add: add_filter_def where_text_def where_params_def applied_def present_def
        str_of_def)

lemma where_text_Cons: "where_text (d # ds) = where_text [d] @ where_text ds"
  by (simp add: where_text_def applied_def)

lemma where_params_Cons: "where_params (d # ds) = where_params [d] @ where_params ds"
  by (simp add: where_params_def applied_def)

lemmas where_unfold =
  where_text_Cons [of _ "_ # _"] where_params_Cons [of _ "_ # _"]

lemma forms_page_query_spec:
  "forms_page_query q
     = (forms_select @ where_text (forms_filters q)
          @ '' ORDER BY rf.created_at DESC LIMIT ? OFFSET ?'',
        where_params (forms_filters q)
          @ [PNum (number_or 10 (fq_limit q)),
             PNum (num_mul (num_sub (number_or 1 (fq_page q)) (Finite 1))
                     (number_or 10 (fq_limit q)))])"
  by (simp add: forms_page_query_def forms_filters_def Let_def add_filter_spec where_unfold)

lemma forms_count_query_spec:
  "forms_count_query q
     = (forms_count_select @ where_text (forms_filters q), where_params (forms_filters q))"
  by (simp add: forms_count_query_def forms_filters_def Let_def add_filter_spec where_unfold)

lemma assets_page_query_spec:
  "assets_page_query q
     = (assets_select @ where_text (assets_filters q)
          @ '' ORDER BY a.created_at DESC LIMIT ? OFFSET ?'',
        where_params (assets_filters q)
          @ [PNum (number_or 10 (aq_limit q)),
             PNum (num_mul (num_sub (number_or 1 (aq_page q)) (Finite 1))
                     (number_or 10 (aq_limit q)))])"
  by (simp add: assets_page_query_def assets_filters_def Let_def add_filter_spec where_unfold)

lemma assets_count_query_spec:
  "assets_count_query q
     = (assets_count_select @ where_text (assets_filters q), where_params (assets_filters q))"
  by (simp add: assets_count_query_def assets_filters_def Let_def add_filter_spec where_unfold)

lemma incidents_page_query_spec:
  "incidents_page_query q
     = (incidents_select @ where_text (incidents_filters q)
          @ '' ORDER BY i.created_at DESC LIMIT ? OFFSET ?'',
        where_params (incidents_filters q)
          @ [PNum (number_or 10 (iq_limit q)),
             PNum (num_mul (num_sub (number_or 1 (iq_page q)) (Finite 1))
                     (number_or 10 (iq_limit q)))])"
  by (simp add: incidents_page_query_def incidents_filters_def Let_def add_filter_spec
        where_unfold)

lemma incidents_count_query_spec:
  "incidents_count_query q
     = (incidents_count_select @ where_text (incidents_filters q),
        where_params (incidents_filters q))"
  by (simp add: incidents_count_query_def incidents_filters_def Let_def add_filter_spec
        where_unfold)

lemma maintenances_page_query_spec:
  "maintenances_page_query q
     = (maintenances_select @ where_text (maintenances_filters q)
          @ '' ORDER BY m.scheduled_date DESC, m.created_at DESC LIMIT ? OFFSET ?'',
        where_params (maintenances_filters q)
          @ [PNum (number_or 10 (mq_limit q)),
             PNum (num_mul (num_sub (number_or 1 (mq_page q)) (Finite 1))
                     (number_or 10 (mq_limit q)))])"
  by (simp add: maintenances_page_query_def maintenances_filters_def Let_def add_filter_spec
        where_unfold)

lemma maintenances_count_query_spec:
  "maintenances_count_query q
     = (maintenances_count_select @ where_text (maintenances_filters q),
        where_params (maintenances_filters q))"
  by (simp add: maintenances_count_query_def maintenances_filters_def Let_def add_filter_spec
        where_unfold)

lemma inventory_query_spec:
  "inventory_query_of q
     = (inventory_select @ where_text (inventory_filters q) @ '' ORDER BY a.created_at DESC'',
        where_params (inventory_filters q))"
  by (simp add: inventory_query_of_def inventory_filters_def Let_def add_filter_spec
        where_unfold)

lemma placeholders_append: "placeholders (a @ b) = placeholders a + placeholders b"
  by (simp add: placeholders_def)

lemma placeholders_aligned:
  "list_all (\<lambda>(sql, ps). placeholders sql = length ps) xs \<Longrightarrow>
     placeholders (concat (map fst xs)) = length (concat (map snd xs))"
  by (induction xs) (auto simp add: placeholders_def)

lemma placeholders_where:
  "list_all (\<lambda>(sql, ps). placeholders sql = length ps) (applied decls) \<Longrightarrow>
     placeholders (where_text decls) = length (where_params decls)"
  unfolding where_text_def where_params_def by (rule placeholders_aligned)

lemma placeholders_selects:
  "placeholders forms_select = 0" "placeholders assets_select = 0"
  "placeholders incidents_select = 0" "placeholders maintenances_select = 0"
  "placeholders inventory_select = 0"
  by (simp_all add: placeholders_def forms_select_def assets_select_def incidents_select_def
        maintenances_select_def inventory_select_def)

lemma filters_aligned:
  "list_all (\<lambda>(sql, ps). placeholders sql = length ps) (applied (forms_filters f))"
  "list_all (\<lambda>(sql, ps). placeholders sql = length ps) (applied (assets_filters a))"
  "list_all (\<lambda>(sql, ps). placeholders sql = length ps) (applied (incidents_filters i))"
  "list_all (\<lambda>(sql, ps). placeholders sql = length ps) (applied (maintenances_filters m))"
  "list_all (\<lambda>(sql, ps). placeholders sql = length ps) (applied (inventory_filters v))"
  by (simp_all add: applied_def forms_filters_def assets_filters_def incidents_filters_def
        maintenances_filters_def inventory_filters_def placeholders_def search_sql_def
        search_binds_def Let_def)

text \<open>
  Claim C1. For every query string, the text of the page query is its own \<open>SELECT\<close> head,
  then exactly what the count query carries after its head, then the ordering and
  \<open>LIMIT ? OFFSET ?\<close>; and the parameters of the page query are those of the count query
  followed by the limit and the offset. This holds for the four paginated lists:
  responsive forms, assets, incidents and maintenances.
\<close>

theorem count_and_page_queries_agree:
  "take (length forms_count_select) (fst (forms_count_query f)) = forms_count_select
   \<and> fst (forms_page_query f)
       = forms_select @ drop (length forms_count_select) (fst (forms_count_query f))
           @ '' ORDER BY rf.created_at DESC LIMIT ? OFFSET ?''
   \<and> snd (forms_page_query f)
       = snd (forms_count_query f)
           @ [PNum (number_or 10 (fq_limit f)),
              PNum (num_mul (num_sub (number_or 1 (fq_page f)) (Finite 1))
                     (number_or 10 (fq_limit f)))]
   \<and> take (length assets_count_select) (fst (assets_count_query a)) = assets_count_select
   \<and> fst (assets_page_query a)
       = assets_select @ drop (length assets_count_select) (fst (assets_count_query a))
           @ '' ORDER BY a.created_at DESC LIMIT ? OFFSET ?''
   \<and> snd (assets_page_query a)
       = snd (assets_count_query a)
           @ [PNum (number_or 10 (aq_limit a)),
              PNum (num_mul (num_sub (number_or 1 (aq_page a)) (Finite 1))
                     (number_or 10 (aq_limit a)))]
   \<and> take (length incidents_count_select) (fst (incidents_count_query i))
       = incidents_count_select
   \<and> fst (incidents_page_query i)
       = incidents_select @ drop (length incidents_count_select) (fst (incidents_count_query i))
           @ '' ORDER BY i.created_at DESC LIMIT ? OFFSET ?''
   \<and> snd (incidents_page_query i)
       = snd (incidents_count_query i)
           @ [PNum (number_or 10 (iq_limit i)),
              PNum (num_mul (num_sub (number_or 1 (iq_page i)) (Finite 1))
                     (number_or 10 (iq_limit i)))]
   \<and> take (length maintenances_count_select) (fst (maintenances_count_query m))
       = maintenances_count_select
   \<and> fst (maintenances_page_query m)
       = maintenances_select
           @ drop (length maintenances_count_select) (fst (maintenances_count_query m))
           @ '' ORDER BY m.scheduled_date DESC, m.created_at DESC LIMIT ? OFFSET ?''
   \<and> snd (maintenances_page_query m)
       = snd (maintenances_count_query m)
           @ [PNum (number_or 10 (mq_limit m)),
              PNum (num_mul (num_sub (number_or 1 (mq_page m)) (Finite 1))
                     (number_or 10 (mq_limit m)))]"
  by (simp add: forms_page_query_spec forms_count_query_spec assets_page_query_spec
        assets_count_query_spec incidents_page_query_spec incidents_count_query_spec
        maintenances_page_query_spec maintenances_count_query_spec)

theorem count_and_page_queries_agree_witness:
  "forms_count_query \<lparr>fq_page = Some 2, fq_limit = None, fq_status = Some ''pending'',
       fq_asset_id = Some [], fq_new_responsible_id = Some ''9''\<rparr>
     = (''SELECT COUNT(*) as total FROM responsive_forms rf WHERE 1=1''
          @ '' AND rf.status = ? AND rf.new_responsible_id = ?'',
        [PStr ''pending'', PStr ''9''])
   \<and> forms_page_query \<lparr>fq_page = Some 2, fq_limit = None, fq_status = Some ''pending'',
       fq_asset_id = Some [], fq_new_responsible_id = Some ''9''\<rparr>
     = (forms_select @ '' AND rf.status = ? AND rf.new_responsible_id = ?''
          @ '' ORDER BY rf.created_at DESC LIMIT ? OFFSET ?'',
        [PStr ''pending'', PStr ''9'', PNum (Finite 10), PNum (Finite 10)])
   \<and> snd (assets_count_query \<lparr>aq_page = None, aq_limit = Some 5, aq_category = None,
       aq_status = Some ''active'', aq_search = Some ''dell''\<rparr>)
     = [PStr ''active'', PStr ''%dell%'', PStr ''%dell%'', PStr ''%dell%'', PStr ''%dell%'']
   \<and> snd (assets_page_query \<lparr>aq_page = None, aq_limit = Some 5, aq_category = None,
       aq_status = Some ''active'', aq_search = Some ''dell''\<rparr>)
     = [PStr ''active'', PStr ''%dell%'', PStr ''%dell%'', PStr ''%dell%'', PStr ''%dell%'',
        PNum (Finite 5), PNum (Finite 0)]"
  using count_and_page_queries_agree
          [of "\<lparr>fq_page = Some 2, fq_limit = None, fq_status = Some ''pending'',
                 fq_asset_id = Some [], fq_new_responsible_id = Some ''9''\<rparr>"
              "\<lparr>aq_page = None, aq_limit = Some 5, aq_category = None,
                 aq_status = Some ''active'', aq_search = Some ''dell''\<rparr>"]
  by (simp add: forms_count_query_def forms_page_query_def assets_count_query_def
        assets_page_query_def add_filter_def number_or_def literal_number_def num_sub_def
        num_mul_def round_to_double_numeral forms_count_select_def
        search_sql_def search_binds_def Let_def)

text \<open>
  Claim C7. The queries of the four paginated lists and of the inventory report are what
  the specified builder produces from the declared filters: a filter adds its predicate
  and its parameters exactly when its value is present and not empty, and the added
  predicates and parameters follow the declaration order. Every applied predicate has as
  many placeholders as it binds parameters and the fixed text has none, so the
  placeholders of each statement and its parameter list have the same length.
\<close>

theorem filters_applied_when_present_in_declared_order:
  "forms_page_query f
     = (forms_select @ where_text (forms_filters f)
          @ '' ORDER BY rf.created_at DESC LIMIT ? OFFSET ?'',
        where_params (forms_filters f)
          @ [PNum (number_or 10 (fq_limit f)),
             PNum (num_mul (num_sub (number_or 1 (fq_page f)) (Finite 1))
                     (number_or 10 (fq_limit f)))])
   \<and> assets_page_query a
     = (assets_select @ where_text (assets_filters a)
          @ '' ORDER BY a.created_at DESC LIMIT ? OFFSET ?'',
        where_params (assets_filters a)
          @ [PNum (number_or 10 (aq_limit a)),
             PNum (num_mul (num_sub (number_or 1 (aq_page a)) (Finite 1))
                     (number_or 10 (aq_limit a)))])
   \<and> incidents_page_query i
     = (incidents_select @ where_text (incidents_filters i)
          @ '' ORDER BY i.created_at DESC LIMIT ? OFFSET ?'',
        where_params (incidents_filters i)
          @ [PNum (number_or 10 (iq_limit i)),
             PNum (num_mul (num_sub (number_or 1 (iq_page i)) (Finite 1))
                     (number_or 10 (iq_limit i)))])
   \<and> maintenances_page_query m
     = (maintenances_select @ where_text (maintenances_filters m)
          @ '' ORDER BY m.scheduled_date DESC, m.created_at DESC LIMIT ? OFFSET ?'',
        where_params (maintenances_filters m)
          @ [PNum (number_or 10 (mq_limit m)),
             PNum (num_mul (num_sub (number_or 1 (mq_page m)) (Finite 1))
                     (number_or 10 (mq_limit m)))])
   \<and> inventory_query_of v
     = (inventory_select @ where_text (inventory_filters v) @ '' ORDER BY a.created_at DESC'',
        where_params (inventory_filters v))
   \<and> list_all (\<lambda>(sql, ps). placeholders sql = length ps) (applied (forms_filters f))
   \<and> list_all (\<lambda>(sql, ps). placeholders sql = length ps) (applied (assets_filters a))
   \<and> list_all (\<lambda>(sql, ps). placeholders sql = length ps) (applied (incidents_filters i))
   \<and> list_all (\<lambda>(sql, ps). placeholders sql = length ps) (applied (maintenances_filters m))
   \<and> list_all (\<lambda>(sql, ps). placeholders sql = length ps) (applied (inventory_filters v))
   \<and> placeholders (fst (forms_page_query f)) = length (snd (forms_page_query f))
   \<and> placeholders (fst (assets_page_query a)) = length (snd (assets_page_query a))
   \<and> placeholders (fst (incidents_page_query i)) = length (snd (incidents_page_query i))
   \<and> placeholders (fst (maintenances_page_query m)) = length (snd (maintenances_page_query m))
   \<and> placeholders (fst (inventory_query_of v)) = length (snd (inventory_query_of v))"
proof -
  have tail: "placeholders '' ORDER BY rf.created_at DESC LIMIT ? OFFSET ?'' = 2"
    "placeholders '' ORDER BY a.created_at DESC LIMIT ? OFFSET ?'' = 2"
    "placeholders '' ORDER BY i.created_at DESC LIMIT ? OFFSET ?'' = 2"
    "placeholders '' ORDER BY m.scheduled_date DESC, m.created_at DESC LIMIT ? OFFSET ?'' = 2"
    "placeholders '' ORDER BY a.created_at DESC'' = 0"
    by (simp_all add: placeholders_def)
  have "placeholders (fst (forms_page_query f)) = length (snd (forms_page_query f))"
    by (simp add: forms_page_query_spec placeholders_append placeholders_selects tail
          placeholders_where filters_aligned)
  moreover have "placeholders (fst (assets_page_query a)) = length (snd (assets_page_query a))"
    by (simp add: assets_page_query_spec placeholders_append placeholders_selects tail
          placeholders_where filters_aligned)
  moreover
  have "placeholders (fst (incidents_page_query i)) = length (snd (incidents_page_query i))"
    by (simp add: incidents_page_query_spec placeholders_append placeholders_selects tail
          placeholders_where filters_aligned)
  moreover
  have "placeholders (fst (maintenances_page_query m))
          = length (snd (maintenances_page_query m))"
    by (simp add: maintenances_page_query_spec placeholders_append placeholders_selects tail
          placeholders_where filters_aligned)
  moreover
  have "placeholders (fst (inventory_query_of v)) = length (snd (inventory_query_of v))"
    by (simp add: inventory_query_spec placeholders_append placeholders_selects tail
          placeholders_where filters_aligned)
  ultimately show ?thesis
    by (simp only: forms_page_query_spec assets_page_query_spec incidents_page_query_spec
          maintenances_page_query_spec inventory_query_spec filters_aligned simp_thms)
qed

theorem filters_applied_when_present_in_declared_order_witness:
  "snd (inventory_query_of \<lparr>vq_category = Some ''2'', vq_status = Some [],
          vq_responsible = None, vq_dateFrom = Some ''2026-01-01'',
          vq_dateTo = Some ''2026-01-31''\<rparr>)
     = [PStr ''2'', PStr ''2026-01-01'', PStr ''2026-01-31 23:59:59'']
   \<and> fst (inventory_query_of \<lparr>vq_category = Some ''2'', vq_status = Some [],
          vq_responsible = None, vq_dateFrom = Some ''2026-01-01'',
          vq_dateTo = Some ''2026-01-31''\<rparr>)
     = inventory_select
         @ '' AND a.category_id = ? AND a.created_at >= ? AND a.created_at <= ?''
         @ '' ORDER BY a.created_at DESC''
   \<and> where_params (forms_filters \<lparr>fq_page = None, fq_limit = None, fq_status = None,
          fq_asset_id = Some ''3'', fq_new_responsible_id = Some []\<rparr>) = [PStr ''3'']
   \<and> placeholders (fst (forms_page_query \<lparr>fq_page = None, fq_limit = None, fq_status = None,
          fq_asset_id = Some ''3'', fq_new_responsible_id = Some []\<rparr>)) = 3
   \<and> placeholders (fst (assets_page_query \<lparr>aq_page = None, aq_limit = None,
          aq_category = None, aq_status = None, aq_search = Some ''dell''\<rparr>)) = 6
   \<and> where_text (incidents_filters \<lparr>iq_page = None, iq_limit = None,
          iq_status = Some ''open'', iq_priority = None, iq_asset_id = None,
          iq_assigned_to = Some ''5''\<rparr>) = '' AND i.status = ? AND i.assigned_to = ?''
   \<and> where_params (maintenances_filters \<lparr>mq_page = None, mq_limit = None, mq_status = None,
          mq_type = Some ''preventive'', mq_asset_id = None, mq_technician_id = None\<rparr>)
     = [PStr ''preventive'']"
  using filters_applied_when_present_in_declared_order
          [of "\<lparr>fq_page = None, fq_limit = None, fq_status = None,
                 fq_asset_id = Some ''3'', fq_new_responsible_id = Some []\<rparr>"
              "\<lparr>aq_page = None, aq_limit = None,
                 aq_category = None, aq_status = None, aq_search = Some ''dell''\<rparr>"
              "\<lparr>iq_page = None, iq_limit = None,
                 iq_status = Some ''open'', iq_priority = None, iq_asset_id = None,
                 iq_assigned_to = Some ''5''\<rparr>"
              "\<lparr>mq_page = None, mq_limit = None, mq_status = None,
                 mq_type = Some ''preventive'', mq_asset_id = None, mq_technician_id = None\<rparr>"
              "\<lparr>vq_category = Some ''2'', vq_status = Some [],
                 vq_responsible = None, vq_dateFrom = Some ''2026-01-01'',
                 vq_dateTo = Some ''2026-01-31''\<rparr>"]
  by (simp add: inventory_filters_def forms_filters_def assets_filters_def
        incidents_filters_def maintenances_filters_def where_text_def where_params_def
        applied_def present_def str_of_def search_sql_def search_binds_def
        Let_def placeholders_append placeholders_selects)
     (simp add: placeholders_def)

subsection \<open>Pagination\<close>

lemma number_or_exact:
  "(case v of None \<Rightarrow> d | Some n \<Rightarrow> n) = k \<Longrightarrow> \<bar>k\<bar> < 2 ^ 53 \<Longrightarrow>
     number_or (of_int d) v = Finite (of_int k)"
  by (cases v) (auto simp add: number_or_def literal_number_exact)

lemma offset_exact:
  assumes "1 \<le> page" "1 \<le> limit" "page * limit < 2 ^ 53"
  shows "\<bar>page\<bar> < 2 ^ 53" and "\<bar>limit\<bar> < 2 ^ 53"
    and "num_mul (num_sub (Finite (of_int page)) (Finite 1)) (Finite (of_int limit))
           = Finite (of_int ((page - 1) * limit))"
proof -
  have "page * 1 \<le> page * limit" using assms(1,2) by (intro mult_left_mono) simp_all
  then have p: "page < 2 ^ 53" using assms(3) by simp
  have "1 * limit \<le> page * limit" using assms(1,2) by (intro mult_right_mono) simp_all
  then have l: "limit < 2 ^ 53" using assms(3) by simp
  show "\<bar>page\<bar> < 2 ^ 53" using p assms(1) by simp
  show "\<bar>limit\<bar> < 2 ^ 53" using l assms(2) by simp
  have "\<bar>page - 1\<bar> < 2 ^ 53" using p assms(1) by simp
  then have s: "round_to_double (of_int (page - 1)) = Finite (of_int (page - 1))"
    by (rule round_to_double_of_int)
  have "(page - 1) * limit \<le> page * limit" using assms(1,2) by (intro mult_right_mono) simp_all
  moreover have "0 \<le> (page - 1) * limit" using assms(1,2) by simp
  ultimately have "\<bar>(page - 1) * limit\<bar> < 2 ^ 53" using assms(3) by simp
  then have m: "round_to_double (of_int ((page - 1) * limit)) = Finite (of_int ((page - 1) * limit))"
    by (rule round_to_double_of_int)
  have "num_sub (Finite (of_int page)) (Finite 1) = round_to_double (of_int (page - 1))"
    by (simp add: num_sub_def)
  then have "num_mul (num_sub (Finite (of_int page)) (Finite 1)) (Finite (of_int limit))
      = round_to_double (of_int ((page - 1) * limit))"
    by (simp only: s num_mul_def prod.case number.case of_int_mult)
  then show "num_mul (num_sub (Finite (of_int page)) (Finite 1)) (Finite (of_int limit))
           = Finite (of_int ((page - 1) * limit))"
    by (simp only: m)
qed

lemma ceiling_pages:
  assumes "1 \<le> limit"
  shows "tot \<le> \<lceil>(of_int tot :: rat) / of_int limit\<rceil> * limit"
    and "(\<lceil>(of_int tot :: rat) / of_int limit\<rceil> - 1) * limit < tot"
proof -
  let ?tp = "\<lceil>(of_int tot :: rat) / of_int limit\<rceil>"
  have l: "(0 :: rat) < of_int limit" using assms by simp
  have "(of_int tot :: rat) \<le> of_int ?tp * of_int limit"
    by (rule iffD1 [OF pos_divide_le_eq [OF l] le_of_int_ceiling])
  then have "(of_int tot :: rat) \<le> of_int (?tp * limit)" by simp
  then show "tot \<le> ?tp * limit" by (simp only: of_int_le_iff)
  have "of_int ?tp - 1 < (of_int tot :: rat) / of_int limit" by linarith
  then have "(of_int ?tp - 1) * of_int limit < (of_int tot :: rat)"
    using l by (simp add: pos_less_divide_eq)
  then have "(of_int ((?tp - 1) * limit) :: rat) < of_int tot" by simp
  then show "(?tp - 1) * limit < tot" by (simp only: of_int_less_iff)
qed

lemma pagination_exact:
  assumes "1 \<le> page" "1 \<le> limit" "page * limit < 2 ^ 53" "0 \<le> tot" "tot < 2 ^ 53"
  shows "pagination (Finite (of_int page)) (Finite (of_int limit)) (literal_number tot)
           = JObj [(''page'', JNum page), (''limit'', JNum limit), (''total'', JNum tot),
                   (''totalPages'', JNum \<lceil>(of_int tot :: rat) / of_int limit\<rceil>)]"
proof -
  have "\<bar>tot\<bar> < 2 ^ 53" using assms(4,5) by simp
  then have t: "literal_number tot = Finite (of_int tot)" by (rule literal_number_exact)
  have "limit < 2 ^ 53" using offset_exact(2) [OF assms(1-3)] by simp
  from ceil_quotient [OF assms(4,5,2) this] show ?thesis
    by (simp add: pagination_def t json_of_number_def)
qed

lemma list_params:
  assumes "1 \<le> page" "1 \<le> limit" "page * limit < 2 ^ 53"
    and "(case pv of None \<Rightarrow> 1 | Some p \<Rightarrow> p) = page"
    and "(case lv of None \<Rightarrow> 10 | Some l \<Rightarrow> l) = limit"
  shows "number_or 1 pv = Finite (of_int page)"
    and "number_or 10 lv = Finite (of_int limit)"
    and "num_mul (num_sub (Finite (of_int page)) (Finite 1)) (Finite (of_int limit))
           = Finite ((of_int page - 1) * of_int limit)"
proof -
  note o = offset_exact [OF assms(1-3)]
  show p: "number_or 1 pv = Finite (of_int page)"
    using number_or_exact [OF assms(4) o(1)] by simp
  show l: "number_or 10 lv = Finite (of_int limit)"
    using number_or_exact [OF assms(5) o(2)] by simp
  show "num_mul (num_sub (Finite (of_int page)) (Finite 1)) (Finite (of_int limit))
           = Finite ((of_int page - 1) * of_int limit)"
    using o(3) by simp
qed

text \<open>
  Claim C6, as amended. Take \<open>page \<ge> 1\<close> and \<open>limit \<ge> 1\<close>, where an absent \<open>page\<close> is 1
  and an absent \<open>limit\<close> is 10, with \<open>page * limit < 2^53\<close>, and a count
  \<open>0 \<le> total < 2^53\<close>. Each of the four paginated lists binds the limit and
  \<open>(page - 1) * limit\<close> as the last two parameters of its page query, and, when both
  statements succeed, answers 200 with the rows and a pagination object of exactly
  \<open>page\<close>, \<open>limit\<close>, \<open>total\<close> and \<open>totalPages = \<lceil>total / limit\<rceil>\<close>, the least number of
  pages of \<open>limit\<close> rows that hold \<open>total\<close> rows.
\<close>

theorem pagination_offset_and_total_pages:
  assumes "1 \<le> page" and "1 \<le> limit" and "page * limit < 2 ^ 53"
    and "0 \<le> tot" and "tot < 2 ^ 53"
  shows
    "((case fq_page f of None \<Rightarrow> 1 | Some p \<Rightarrow> p) = page
        \<and> (case fq_limit f of None \<Rightarrow> 10 | Some l \<Rightarrow> l) = limit
        \<and> db_all (fst (forms_page_query f)) (snd (forms_page_query f)) = Some rows
        \<and> db_get (fst (forms_count_query f)) (snd (forms_count_query f)) = Some tot
      \<longrightarrow> snd (forms_page_query f)
            = snd (forms_count_query f)
                @ [PNum (Finite (of_int limit)), PNum (Finite (of_int ((page - 1) * limit)))]
          \<and> forms_list db_all db_get f
            = Response 200
                (JObj [(''forms'', JArr rows),
                       (''pagination'',
                        JObj [(''page'', JNum page), (''limit'', JNum limit),
                              (''total'', JNum tot),
                              (''totalPages'',
                               JNum \<lceil>(of_int tot :: rat) / of_int limit\<rceil>)])]))
     \<and> ((case aq_page a of None \<Rightarrow> 1 | Some p \<Rightarrow> p) = page
        \<and> (case aq_limit a of None \<Rightarrow> 10 | Some l \<Rightarrow> l) = limit
        \<and> db_all (fst (assets_page_query a)) (snd (assets_page_query a)) = Some rows
        \<and> db_get (fst (assets_count_query a)) (snd (assets_count_query a)) = Some tot
      \<longrightarrow> snd (assets_page_query a)
            = snd (assets_count_query a)
                @ [PNum (Finite (of_int limit)), PNum (Finite (of_int ((page - 1) * limit)))]
          \<and> assets_list db_all db_get a
            = Response 200
                (JObj [(''assets'', JArr rows),
                       (''pagination'',
                        JObj [(''page'', JNum page), (''limit'', JNum limit),
                              (''total'', JNum tot),
                              (''totalPages'',
                               JNum \<lceil>(of_int tot :: rat) / of_int limit\<rceil>)])]))
     \<and> ((case iq_page i of None \<Rightarrow> 1 | Some p \<Rightarrow> p) = page
        \<and> (case iq_limit i of None \<Rightarrow> 10 | Some l \<Rightarrow> l) = limit
        \<and> db_all (fst (incidents_page_query i)) (snd (incidents_page_query i)) = Some rows
        \<and> db_get (fst (incidents_count_query i)) (snd (incidents_count_query i)) = Some tot
      \<longrightarrow> snd (incidents_page_query i)
            = snd (incidents_count_query i)
                @ [PNum (Finite (of_int limit)), PNum (Finite (of_int ((page - 1) * limit)))]
          \<and> incidents_list db_all db_get i
            = Response 200
                (JObj [(''incidents'', JArr rows),
                       (''pagination'',
                        JObj [(''page'', JNum page), (''limit'', JNum limit),
                              (''total'', JNum tot),
                              (''totalPages'',
                               JNum \<lceil>(of_int tot :: rat) / of_int limit\<rceil>)])]))
     \<and> ((case mq_page m of None \<Rightarrow> 1 | Some p \<Rightarrow> p) = page
        \<and> (case mq_limit m of None \<Rightarrow> 10 | Some l \<Rightarrow> l) = limit
        \<and> db_all (fst (maintenances_page_query m)) (snd (maintenances_page_query m))
            = Some rows
        \<and> db_get (fst (maintenances_count_query m)) (snd (maintenances_count_query m))
            = Some tot
      \<longrightarrow> snd (maintenances_page_query m)
            = snd (maintenances_count_query m)
                @ [PNum (Finite (of_int limit)), PNum (Finite (of_int ((page - 1) * limit)))]
          \<and> maintenances_list db_all db_get m
            = Response 200
                (JObj [(''maintenances'', JArr rows),
                       (''pagination'',
                        JObj [(''page'', JNum page), (''limit'', JNum limit),
                              (''total'', JNum tot),
                              (''totalPages'',
                               JNum \<lceil>(of_int tot :: rat) / of_int limit\<rceil>)])]))
     \<and> tot \<le> \<lceil>(of_int tot :: rat) / of_int limit\<rceil> * limit
     \<and> (\<lceil>(of_int tot :: rat) / of_int limit\<rceil> - 1) * limit < tot"
proof (intro conjI impI)
  note pg = pagination_exact [OF assms]
  show "tot \<le> \<lceil>(of_int tot :: rat) / of_int limit\<rceil> * limit"
    by (rule ceiling_pages(1) [OF assms(2)])
  show "(\<lceil>(of_int tot :: rat) / of_int limit\<rceil> - 1) * limit < tot"
    by (rule ceiling_pages(2) [OF assms(2)])
  {
    assume h: "(case fq_page f of None \<Rightarrow> 1 | Some p \<Rightarrow> p) = page
        \<and> (case fq_limit f of None \<Rightarrow> 10 | Some l \<Rightarrow> l) = limit
        \<and> db_all (fst (forms_page_query f)) (snd (forms_page_query f)) = Some rows
        \<and> db_get (fst (forms_count_query f)) (snd (forms_count_query f)) = Some tot"
    note n = list_params [OF assms(1-3) conjunct1 [OF h] conjunct1 [OF conjunct2 [OF h]]]
    show "snd (forms_page_query f)
            = snd (forms_count_query f)
                @ [PNum (Finite (of_int limit)), PNum (Finite (of_int ((page - 1) * limit)))]"
      by (simp add: forms_page_query_spec forms_count_query_spec n)
    show "forms_list db_all db_get f
            = Response 200
                (JObj [(''forms'', JArr rows),
                       (''pagination'',
                        JObj [(''page'', JNum page), (''limit'', JNum limit),
                              (''total'', JNum tot),
                              (''totalPages'',
                               JNum \<lceil>(of_int tot :: rat) / of_int limit\<rceil>)])])"
      using h by (simp add: forms_list_def n pg)
  }
  {
    assume h: "(case aq_page a of None \<Rightarrow> 1 | Some p \<Rightarrow> p) = page
        \<and> (case aq_limit a of None \<Rightarrow> 10 | Some l \<Rightarrow> l) = limit
        \<and> db_all (fst (assets_page_query a)) (snd (assets_page_query a)) = Some rows
        \<and> db_get (fst (assets_count_query a)) (snd (assets_count_query a)) = Some tot"
    note n = list_params [OF assms(1-3) conjunct1 [OF h] conjunct1 [OF conjunct2 [OF h]]]
    show "snd (assets_page_query a)
            = snd (assets_count_query a)
                @ [PNum (Finite (of_int limit)), PNum (Finite (of_int ((page - 1) * limit)))]"
      by (simp add: assets_page_query_spec assets_count_query_spec n)
    show "assets_list db_all db_get a
            = Response 200
                (JObj [(''assets'', JArr rows),
                       (''pagination'',
                        JObj [(''page'', JNum page), (''limit'', JNum limit),
                              (''total'', JNum tot),
                              (''totalPages'',
                               JNum \<lceil>(of_int tot :: rat) / of_int limit\<rceil>)])])"
      using h by (simp add: assets_list_def n pg)
  }
  {
    assume h: "(case iq_page i of None \<Rightarrow> 1 | Some p \<Rightarrow> p) = page
        \<and> (case iq_limit i of None \<Rightarrow> 10 | Some l \<Rightarrow> l) = limit
        \<and> db_all (fst (incidents_page_query i)) (snd (incidents_page_query i)) = Some rows
        \<and> db_get (fst (incidents_count_query i)) (snd (incidents_count_query i)) = Some tot"
    note n = list_params [OF assms(1-3) conjunct1 [OF h] conjunct1 [OF conjunct2 [OF h]]]
    show "snd (incidents_page_query i)
            = snd (incidents_count_query i)
                @ [PNum (Finite (of_int limit)), PNum (Finite (of_int ((page - 1) * limit)))]"
      by (simp add: incidents_page_query_spec incidents_count_query_spec n)
    show "incidents_list db_all db_get i
            = Response 200
                (JObj [(''incidents'', JArr rows),
                       (''pagination'',
                        JObj [(''page'', JNum page), (''limit'', JNum limit),
                              (''total'', JNum tot),
                              (''totalPages'',
                               JNum \<lceil>(of_int tot :: rat) / of_int limit\<rceil>)])])"
      using h by (simp add: incidents_list_def n pg)
  }
  {
    assume h: "(case mq_page m of None \<Rightarrow> 1 | Some p \<Rightarrow> p) = page
        \<and> (case mq_limit m of None \<Rightarrow> 10 | Some l \<Rightarrow> l) = limit
        \<and> db_all (fst (maintenances_page_query m)) (snd (maintenances_page_query m))
            = Some rows
        \<and> db_get (fst (maintenances_count_query m)) (snd (maintenances_count_query m))
            = Some tot"
    note n = list_params [OF assms(1-3) conjunct1 [OF h] conjunct1 [OF conjunct2 [OF h]]]
    show "snd (maintenances_page_query m)
            = snd (maintenances_count_query m)
                @ [PNum (Finite (of_int limit)), PNum (Finite (of_int ((page - 1) * limit)))]"
      by (simp add: maintenances_page_query_spec maintenances_count_query_spec n)
    show "maintenances_list db_all db_get m
            = Response 200
                (JObj [(''maintenances'', JArr rows),
                       (''pagination'',
                        JObj [(''page'', JNum page), (''limit'', JNum limit),
                              (''total'', JNum tot),
                              (''totalPages'',
                               JNum \<lceil>(of_int tot :: rat) / of_int limit\<rceil>)])])"
      using h by (simp add: maintenances_list_def n pg)
  }
qed

theorem pagination_offset_and_total_pages_witness:
  "(1::int) \<le> 1 \<and> (1::int) \<le> 10 \<and> (1::int) * 10 < 2 ^ 53 \<and> (0::int) \<le> 25
   \<and> (25::int) < 2 ^ 53
   \<and> forms_list sample_rows sample_count
       \<lparr>fq_page = None, fq_limit = None, fq_status = None, fq_asset_id = None,
          fq_new_responsible_id = None\<rparr>
     = Response 200
         (JObj [(''forms'', JArr [JObj [(''id'', JNum 21)]]),
                (''pagination'',
                 JObj [(''page'', JNum 1), (''limit'', JNum 10), (''total'', JNum 25),
                       (''totalPages'', JNum 3)])])
   \<and> snd (forms_page_query \<lparr>fq_page = None, fq_limit = None, fq_status = None,
            fq_asset_id = None, fq_new_responsible_id = None\<rparr>)
     = [PNum (Finite 10), PNum (Finite 0)]
   \<and> incidents_list sample_rows sample_count
       \<lparr>iq_page = Some 3, iq_limit = Some 10, iq_status = None, iq_priority = None,
          iq_asset_id = None, iq_assigned_to = None\<rparr>
     = Response 200
         (JObj [(''incidents'', JArr [JObj [(''id'', JNum 21)]]),
                (''pagination'',
                 JObj [(''page'', JNum 3), (''limit'', JNum 10), (''total'', JNum 25),
                       (''totalPages'', JNum 3)])])
   \<and> snd (incidents_page_query \<lparr>iq_page = Some 3, iq_limit = Some 10, iq_status = None,
            iq_priority = None, iq_asset_id = None, iq_assigned_to = None\<rparr>)
     = [PNum (Finite 10), PNum (Finite 20)]"
proof -
  let ?f = "\<lparr>fq_page = None, fq_limit = None, fq_status = None, fq_asset_id = None,
              fq_new_responsible_id = None\<rparr>"
  let ?a = "\<lparr>aq_page = None, aq_limit = None, aq_category = None, aq_status = None,
              aq_search = None\<rparr>"
  let ?i = "\<lparr>iq_page = Some 3, iq_limit = Some 10, iq_status = None, iq_priority = None,
              iq_asset_id = None, iq_assigned_to = None\<rparr>"
  let ?m = "\<lparr>mq_page = None, mq_limit = None, mq_status = None, mq_type = None,
              mq_asset_id = None, mq_technician_id = None\<rparr>"
  let ?rows = "[JObj [(''id'', JNum 21)]]"
  have c: "\<lceil>(of_int 25 :: rat) / of_int 10\<rceil> = 3"
    by (rule ceiling_unique) simp_all
  have b: "(1::int) \<le> 1" "(1::int) \<le> 10" "(1::int) * 10 < 2 ^ 53" "(0::int) \<le> 25"
    "(25::int) < 2 ^ 53" "(1::int) \<le> 3" "(3::int) * 10 < 2 ^ 53"
    by simp_all
  have hf: "(case fq_page ?f of None \<Rightarrow> 1 | Some p \<Rightarrow> p) = 1
      \<and> (case fq_limit ?f of None \<Rightarrow> 10 | Some l \<Rightarrow> l) = 10
      \<and> sample_rows (fst (forms_page_query ?f)) (snd (forms_page_query ?f)) = Some ?rows
      \<and> sample_count (fst (forms_count_query ?f)) (snd (forms_count_query ?f)) = Some 25"
    by (simp add: sample_rows_def sample_count_def)
  have hi: "(case iq_page ?i of None \<Rightarrow> 1 | Some p \<Rightarrow> p) = 3
      \<and> (case iq_limit ?i of None \<Rightarrow> 10 | Some l \<Rightarrow> l) = 10
      \<and> sample_rows (fst (incidents_page_query ?i)) (snd (incidents_page_query ?i))
          = Some ?rows
      \<and> sample_count (fst (incidents_count_query ?i)) (snd (incidents_count_query ?i))
          = Some 25"
    by (simp add: sample_rows_def sample_count_def)
  have cf: "snd (forms_count_query ?f) = []"
    by (simp add: forms_count_query_def add_filter_def)
  have ci: "snd (incidents_count_query ?i) = []"
    by (simp add: incidents_count_query_def add_filter_def)
  from pagination_offset_and_total_pages
         [OF b(1,2,3,4,5), of ?f sample_rows ?rows sample_count ?a ?i ?m] hf
  have "snd (forms_page_query ?f)
          = snd (forms_count_query ?f)
              @ [PNum (Finite (of_int 10)), PNum (Finite (of_int ((1 - 1) * 10)))]
      \<and> forms_list sample_rows sample_count ?f
          = Response 200
              (JObj [(''forms'', JArr ?rows),
                     (''pagination'',
                      JObj [(''page'', JNum 1), (''limit'', JNum 10), (''total'', JNum 25),
                            (''totalPages'', JNum \<lceil>(of_int 25 :: rat) / of_int 10\<rceil>)])])"
    by blast
  then have rf: "snd (forms_page_query ?f) = [PNum (Finite 10), PNum (Finite 0)]"
    "forms_list sample_rows sample_count ?f
          = Response 200
              (JObj [(''forms'', JArr ?rows),
                     (''pagination'',
                      JObj [(''page'', JNum 1), (''limit'', JNum 10), (''total'', JNum 25),
                            (''totalPages'', JNum 3)])])"
    unfolding c cf by simp_all
  from pagination_offset_and_total_pages
         [OF b(6,2,7,4,5), of ?f sample_rows ?rows sample_count ?a ?i ?m] hi
  have "snd (incidents_page_query ?i)
          = snd (incidents_count_query ?i)
              @ [PNum (Finite (of_int 10)), PNum (Finite (of_int ((3 - 1) * 10)))]
      \<and> incidents_list sample_rows sample_count ?i
          = Response 200
              (JObj [(''incidents'', JArr ?rows),
                     (''pagination'',
                      JObj [(''page'', JNum 3), (''limit'', JNum 10), (''total'', JNum 25),
                            (''totalPages'', JNum \<lceil>(of_int 25 :: rat) / of_int 10\<rceil>)])])"
    by blast
  then have ri: "snd (incidents_page_query ?i) = [PNum (Finite 10), PNum (Finite 20)]"
    "incidents_list sample_rows sample_count ?i
          = Response 200
              (JObj [(''incidents'', JArr ?rows),
                     (''pagination'',
                      JObj [(''page'', JNum 3), (''limit'', JNum 10), (''total'', JNum 25),
                            (''totalPages'', JNum 3)])])"
    unfolding c ci by simp_all
  show ?thesis using rf ri by simp
qed

text \<open>
  The claim as first stated, for every \<open>page \<ge> 1\<close>, \<open>limit \<ge> 1\<close> and total, fails where
  the handler's arithmetic on doubles rounds. For \<open>page=9007199254740993\<close> and no \<open>limit\<close>
  the bound offset is \<open>90071992547409904\<close>, not \<open>(page - 1) * 10\<close>, and the reported page
  is \<open>9007199254740992\<close>. For \<open>limit=3\<close> and a count of \<open>2^60 + 1\<close> the reported total
  is \<open>2^60\<close> and \<open>totalPages\<close> is \<open>384307168202282304\<close>, not
  \<open>\<lceil>(2^60 + 1) / 3\<rceil> = 384307168202282326\<close>.
\<close>

theorem pagination_offset_rounded_counterexample:
  "(1::int) \<le> 9007199254740993
   \<and> snd (forms_page_query
            \<lparr>fq_page = Some 9007199254740993, fq_limit = None, fq_status = None,
               fq_asset_id = None, fq_new_responsible_id = None\<rparr>)
     = [PNum (Finite 10), PNum (Finite 90071992547409904)]
   \<and> (9007199254740993 - 1) * 10 = (90071992547409920 :: int)
   \<and> forms_list sample_rows sample_count
       \<lparr>fq_page = Some 9007199254740993, fq_limit = None, fq_status = None,
          fq_asset_id = None, fq_new_responsible_id = None\<rparr>
     = Response 200
         (JObj [(''forms'', JArr [JObj [(''id'', JNum 21)]]),
                (''pagination'',
                 JObj [(''page'', JNum 9007199254740992), (''limit'', JNum 10),
                       (''total'', JNum 25), (''totalPages'', JNum 3)])])
   \<and> forms_list sample_rows sample_count_large
       \<lparr>fq_page = None, fq_limit = Some 3, fq_status = None, fq_asset_id = None,
          fq_new_responsible_id = None\<rparr>
     = Response 200
         (JObj [(''forms'', JArr [JObj [(''id'', JNum 21)]]),
                (''pagination'',
                 JObj [(''page'', JNum 1), (''limit'', JNum 3),
                       (''total'', JNum 1152921504606846976),
                       (''totalPages'', JNum 384307168202282304)])])
   \<and> \<lceil>(1152921504606846977 :: rat) / 3\<rceil> = 384307168202282326"
proof -
  have p: "number_or 1 (Some 9007199254740993) = Finite 9007199254740992"
    by (simp add: number_or_def literal_number_def round_to_double_def round_magnitude_def
          round_down_scaled_step round_half_even_numeral)
  have s: "num_sub (Finite 9007199254740992) (Finite 1) = Finite 9007199254740991"
    by (simp add: num_sub_def round_to_double_numeral)
  have m: "num_mul (Finite 9007199254740991) (Finite 10) = Finite 90071992547409904"
    by (simp add: num_mul_def round_to_double_def round_magnitude_def
          round_down_scaled_step round_half_even_numeral)
  have l: "number_or 10 None = Finite 10" "number_or 1 None = Finite 1"
    "number_or 10 (Some 3) = Finite 3"
    by (simp_all add: number_or_def literal_number_def round_to_double_numeral)
  have t: "literal_number 25 = Finite 25"
    using literal_number_exact [of 25] by simp
  have d: "num_ceil (num_div (Finite 25) (Finite 10)) = Finite 3"
    using ceil_quotient [of 25 10] by (simp add: ceiling_eq_iff)
  have t': "literal_number 1152921504606846977 = Finite 1152921504606846976"
    by (simp add: literal_number_def round_to_double_def round_magnitude_def
          round_down_scaled_step round_half_even_numeral)
  have d': "num_ceil (num_div (Finite 1152921504606846976) (Finite 3))
              = Finite 384307168202282304"
    by (simp add: num_ceil_def num_div_def round_to_double_def round_magnitude_def
          round_down_scaled_step round_half_even_numeral)
  have c: "\<lceil>(1152921504606846977 :: rat) / 3\<rceil> = 384307168202282326"
    by (rule ceiling_unique) simp_all
  have a: "snd (forms_page_query
            \<lparr>fq_page = Some 9007199254740993, fq_limit = None, fq_status = None,
               fq_asset_id = None, fq_new_responsible_id = None\<rparr>)
     = [PNum (Finite 10), PNum (Finite 90071992547409904)]"
    by (simp add: forms_page_query_def add_filter_def Let_def p s m l)
  have b: "forms_list sample_rows sample_count
       \<lparr>fq_page = Some 9007199254740993, fq_limit = None, fq_status = None,
          fq_asset_id = None, fq_new_responsible_id = None\<rparr>
     = Response 200
         (JObj [(''forms'', JArr [JObj [(''id'', JNum 21)]]),
                (''pagination'',
                 JObj [(''page'', JNum 9007199254740992), (''limit'', JNum 10),
                       (''total'', JNum 25), (''totalPages'', JNum 3)])])"
    by (simp add: forms_list_def p l t d pagination_def json_of_number_def sample_rows_def
          sample_count_def)
  have b': "forms_list sample_rows sample_count_large
       \<lparr>fq_page = None, fq_limit = Some 3, fq_status = None, fq_asset_id = None,
          fq_new_responsible_id = None\<rparr>
     = Response 200
         (JObj [(''forms'', JArr [JObj [(''id'', JNum 21)]]),
                (''pagination'',
                 JObj [(''page'', JNum 1), (''limit'', JNum 3),
                       (''total'', JNum 1152921504606846976),
                       (''totalPages'', JNum 384307168202282304)])])"
    by (simp add: forms_list_def l t' d' pagination_def json_of_number_def sample_rows_def
          sample_count_large_def)
  show ?thesis using a b b' c by simp
qed

subsection \<open>Aggregate batches are all-or-nothing\<close>

lemma run_batch_eq:
  "run_batch db xs (stats, rejected)
     = (stats @ stored db xs, rejected \<or> list_ex (\<lambda>(key, sql). db sql = None) xs)"
proof (induction xs arbitrary: stats rejected)
  case Nil
  show ?case by (simp add: stored_def)
next
  case (Cons x xs)
  obtain key sql where x: "x = (key, sql)" by (cases x)
  show ?case
    by (cases "db sql") (simp_all add: x Cons.IH stored_def)
qed

lemma aggregate_eq:
  "aggregate field msg db completed
     = (if list_ex (\<lambda>(key, sql). db sql = None) completed then Response 500 (message msg)
        else Response 200 (JObj [(field, JObj (stored db completed))]))"
  by (simp add: aggregate_def run_batch_eq)

lemma stored_keys:
  "list_all (\<lambda>(key, sql). db sql \<noteq> None) xs \<Longrightarrow> map fst (stored db xs) = map fst xs"
  by (induction xs) (auto simp add: stored_def)

lemma stored_member:
  "(key, sql) \<in> set xs \<Longrightarrow> db sql = Some result \<Longrightarrow> (key, JArr result) \<in> set (stored db xs)"
  by (induction xs) (auto simp add: stored_def)

lemma stored_lookup:
  assumes "distinct (map fst xs)" and "list_all (\<lambda>(key, sql). db sql \<noteq> None) xs"
    and "(key, sql) \<in> set xs"
  shows "map_of (stored db xs) key = map_option JArr (db sql)"
proof -
  from assms(2,3) obtain result where r: "db sql = Some result"
    by (auto simp add: list_all_iff)
  have "distinct (map fst (stored db xs))"
    using assms(1,2) by (simp add: stored_keys)
  moreover have "(key, JArr result) \<in> set (stored db xs)"
    using assms(3) r by (rule stored_member)
  ultimately have "map_of (stored db xs) key = Some (JArr result)"
    by (rule map_of_is_SomeI)
  then show ?thesis by (simp add: r)
qed

lemma rearranged_keys_distinct:
  assumes "distinct (map fst queries)" and "distinct completed"
    and "set completed = set queries"
  shows "distinct (map fst completed)"
  using assms by (simp add: distinct_map)

lemma batch_keys_distinct:
  "distinct (map fst dashboard_queries)" "distinct (map fst forms_stats_queries)"
  by (simp_all add: dashboard_queries_def forms_stats_queries_def)

text \<open>
  Claim C5. Take the dashboard or the forms statistics, with the callbacks of its
  statements running in any order. If at least one statement fails, the response is the
  single 500 with the handler's message and nothing else. If every statement succeeds, the
  response is 200 and its object has exactly one field per named statement, holding that
  statement's rows.
\<close>

theorem batch_all_or_nothing:
  assumes "(handler, queries, field, msg)
             = (dashboard, dashboard_queries, ''dashboard'',
                ''Error al obtener estad'' @ [CHR 0xED] @ ''sticas del dashboard'')
           \<or> (handler, queries, field, msg)
             = (forms_stats, forms_stats_queries, ''stats'',
                ''Error al obtener estad'' @ [CHR 0xED] @ ''sticas'')"
    and "distinct completed" and "set completed = set queries"
  shows "(if list_ex (\<lambda>(key, sql). db sql = None) queries
          then handler db completed = Response 500 (JObj [(''message'', JStr msg)])
          else handler db completed = Response 200 (JObj [(field, JObj (stored db completed))])
             \<and> map fst (stored db completed) = map fst completed
             \<and> list_all (\<lambda>(key, sql). map_of (stored db completed) key = map_option JArr (db sql))
                  queries)"
proof -
  have h: "handler db completed = aggregate field msg db completed"
    using assms(1) by (auto simp add: dashboard_def forms_stats_def)
  have dk: "distinct (map fst queries)"
    using assms(1) batch_keys_distinct by auto
  have dc: "distinct (map fst completed)"
    using dk assms(2,3) by (rule rearranged_keys_distinct)
  have ex: "list_ex (\<lambda>(key, sql). db sql = None) completed
              = list_ex (\<lambda>(key, sql). db sql = None) queries"
    using assms(3) by (simp add: list_ex_iff)
  show ?thesis
  proof (cases "list_ex (\<lambda>(key, sql). db sql = None) queries")
    case True
    then show ?thesis by (simp add: h aggregate_eq ex message_def)
  next
    case False
    then have all: "list_all (\<lambda>(key, sql). db sql \<noteq> None) completed"
      using assms(3) by (auto simp add: list_all_iff list_ex_iff)
    have "list_all (\<lambda>(key, sql). map_of (stored db completed) key = map_option JArr (db sql))
            queries"
      unfolding list_all_iff
    proof
      fix x assume "x \<in> set queries"
      then have "(fst x, snd x) \<in> set completed" using assms(3) by simp
      from stored_lookup[OF dc all this]
      show "case x of (key, sql) \<Rightarrow> map_of (stored db completed) key = map_option JArr (db sql)"
        by (simp add: case_prod_beta)
    qed
    then show ?thesis
      using False by (simp add: h aggregate_eq ex stored_keys[OF all])
  qed
qed

theorem batch_all_or_nothing_witness:
  "distinct (rev forms_stats_queries)
   \<and> set (rev forms_stats_queries) = set forms_stats_queries
   \<and> forms_stats db_one_fails (rev forms_stats_queries)
       = Response 500 (JObj [(''message'', JStr (''Error al obtener estad'' @ [CHR 0xED]
                                                   @ ''sticas''))])
   \<and> forms_stats db_ok (rev forms_stats_queries)
       = Response 200
           (JObj [(''stats'',
                   JObj [(''thisMonth'', JArr [JObj [(''count'', JNum 109)]]),
                         (''rejected'', JArr [JObj [(''count'', JNum 72)]]),
                         (''approved'', JArr [JObj [(''count'', JNum 72)]]),
                         (''pending'', JArr [JObj [(''count'', JNum 71)]]),
                         (''byStatus'', JArr [JObj [(''count'', JNum 70)]]),
                         (''total'', JArr [JObj [(''count'', JNum 46)]])])])"
proof -
  have d: "distinct (rev forms_stats_queries)"
    by (simp add: forms_stats_queries_def)
  have s: "set (rev forms_stats_queries) = set forms_stats_queries"
    by simp
  have a: "(forms_stats, forms_stats_queries, ''stats'',
            ''Error al obtener estad'' @ [CHR 0xED] @ ''sticas'')
             = (dashboard, dashboard_queries, ''dashboard'',
                ''Error al obtener estad'' @ [CHR 0xED] @ ''sticas del dashboard'')
           \<or> (forms_stats, forms_stats_queries, ''stats'',
               ''Error al obtener estad'' @ [CHR 0xED] @ ''sticas'')
             = (forms_stats, forms_stats_queries, ''stats'',
                ''Error al obtener estad'' @ [CHR 0xED] @ ''sticas'')"
    by simp
  have f: "forms_stats db_one_fails (rev forms_stats_queries)
       = Response 500 (JObj [(''message'', JStr (''Error al obtener estad'' @ [CHR 0xED]
                                                   @ ''sticas''))])"
    using batch_all_or_nothing [OF a d s, of db_one_fails]
    by (simp add: forms_stats_queries_def db_one_fails_def)
  have g: "forms_stats db_ok (rev forms_stats_queries)
       = Response 200 (JObj [(''stats'', JObj (stored db_ok (rev forms_stats_queries)))])"
    using batch_all_or_nothing [OF a d s, of db_ok]
    by (simp add: forms_stats_queries_def db_ok_def)
  have v: "stored db_ok (rev forms_stats_queries)
       = [(''thisMonth'', JArr [JObj [(''count'', JNum 109)]]),
          (''rejected'', JArr [JObj [(''count'', JNum 72)]]),
          (''approved'', JArr [JObj [(''count'', JNum 72)]]),
          (''pending'', JArr [JObj [(''count'', JNum 71)]]),
          (''byStatus'', JArr [JObj [(''count'', JNum 70)]]),
          (''total'', JArr [JObj [(''count'', JNum 46)]])]"
    by (simp add: stored_def forms_stats_queries_def db_ok_def)
  show ?thesis
    using d s f g by (simp only: v simp_thms)
qed

subsection \<open>Login\<close>

lemma login_valid:
  assumes "notEmpty (lb_username b)" and "notEmpty (lb_password b)"
  shows "login compare generateToken StoreOk e2 now b users
     = (case find (login_where (str_of (lb_username b))) users of
          None \<Rightarrow> (users, invalid_credentials)
        | Some u \<Rightarrow>
            if compare (str_of (lb_password b)) (u_password u) = Some True
            then ((case e2 of
                     StoreError \<Rightarrow> users
                   | StoreOk \<Rightarrow> sql_update (\<lambda>r. u_id r = u_id u)
                                  (\<lambda>r. r\<lparr>u_updated_at := now\<rparr>) users),
                  Response 200
                    (JObj [(''message'', JStr ''Login exitoso''),
                           (''token'', JStr (generateToken u)),
                           (''user'',
                            JObj [(''id'', JNum (u_id u)),
                                  (''username'', JStr (u_username u)),
                                  (''email'', JStr (u_email u)),
                                  (''full_name'', JStr (u_full_name u)),
                                  (''role'', json_opt (u_role u)),
                                  (''department'', json_opt (u_department u))])]))
            else (users, invalid_credentials))"
  using assms by (simp add: login_def check_def Let_def)

lemma login_status_200:
  assumes "status_code (snd (login compare generateToken e1 e2 now b users)) = 200"
  shows "notEmpty (lb_username b) \<and> notEmpty (lb_password b) \<and> e1 = StoreOk
       \<and> (\<exists>u. find (login_where (str_of (lb_username b))) users = Some u
              \<and> compare (str_of (lb_password b)) (u_password u) = Some True)"
  using assms
  by (auto simp add: login_def check_def Let_def validation_failed_def invalid_credentials_def
        split: if_splits outcome.splits option.splits)

lemma notEmpty_str_of: "notEmpty v \<Longrightarrow> v = Some (str_of v)"
  by (cases v) (simp_all add: notEmpty_def str_of_def)


text \<open>
  Claim C9. A login answered with 200 implies a stored user with \<open>active = 1\<close> whose
  username or email is the supplied identifier and whose hash the supplied password
  matches. With both fields filled in and the store answering, the response is the same
  401 (invalid credentials), a body with the message alone and the table untouched,
  when no active user carries the identifier (an unknown identifier, or one that only
  inactive users carry) and when the password does not match the selected user's hash.
\<close>

theorem login_only_for_active_user_with_matching_password:
  "(status_code (snd (login compare generateToken e1 e2 now b users)) = 200
      \<longrightarrow> (\<exists>u \<in> set users.
             u_active u = Some 1
             \<and> (lb_username b = Some (u_username u) \<or> lb_username b = Some (u_email u))
             \<and> (\<exists>pw. lb_password b = Some pw \<and> compare pw (u_password u) = Some True)))
   \<and> (notEmpty (lb_username b) \<and> notEmpty (lb_password b)
        \<and> \<not> list_ex (\<lambda>u. (lb_username b = Some (u_username u)
                             \<or> lb_username b = Some (u_email u))
                          \<and> u_active u = Some 1) users
      \<longrightarrow> login compare generateToken StoreOk e2 now b users
            = (users, Response 401 (JObj [(''message'',
                        JStr (''Credenciales inv'' @ [CHR 0xE1] @ ''lidas''))])))
   \<and> (notEmpty (lb_username b) \<and> notEmpty (lb_password b)
        \<and> find (login_where (str_of (lb_username b))) users = Some v
        \<and> compare (str_of (lb_password b)) (u_password v) \<noteq> Some True
      \<longrightarrow> login compare generateToken StoreOk e2 now b users
            = (users, Response 401 (JObj [(''message'',
                        JStr (''Credenciales inv'' @ [CHR 0xE1] @ ''lidas''))])))"
proof (intro conjI impI)
  assume "status_code (snd (login compare generateToken e1 e2 now b users)) = 200"
  from login_status_200[OF this] obtain u
    where ne: "notEmpty (lb_username b)" "notEmpty (lb_password b)"
      and f: "find (login_where (str_of (lb_username b))) users = Some u"
      and c: "compare (str_of (lb_password b)) (u_password u) = Some True"
    by blast
  from f have "u \<in> set users" and "login_where (str_of (lb_username b)) u"
    by (auto simp add: find_Some_iff)
  moreover have "lb_username b = Some (str_of (lb_username b))"
    and "lb_password b = Some (str_of (lb_password b))"
    using ne by (simp_all add: notEmpty_str_of[symmetric])
  ultimately show "\<exists>u \<in> set users.
             u_active u = Some 1
             \<and> (lb_username b = Some (u_username u) \<or> lb_username b = Some (u_email u))
             \<and> (\<exists>pw. lb_password b = Some pw \<and> compare pw (u_password u) = Some True)"
    using c by (auto simp add: login_where_def)
next
  assume a: "notEmpty (lb_username b) \<and> notEmpty (lb_password b)
        \<and> \<not> list_ex (\<lambda>u. (lb_username b = Some (u_username u)
                             \<or> lb_username b = Some (u_email u))
                          \<and> u_active u = Some 1) users"
  then have u: "lb_username b = Some (str_of (lb_username b))"
    by (simp add: notEmpty_str_of[symmetric])
  have "\<not> login_where (str_of (lb_username b)) x" if "x \<in> set users" for x
  proof
    assume "login_where (str_of (lb_username b)) x"
    then have "(lb_username b = Some (u_username x) \<or> lb_username b = Some (u_email x))
                 \<and> u_active x = Some 1"
      using u by (auto simp add: login_where_def)
    with a that show False by (auto simp add: list_ex_iff)
  qed
  then have "find (login_where (str_of (lb_username b))) users = None"
    by (simp add: find_None_iff)
  then show "login compare generateToken StoreOk e2 now b users
            = (users, Response 401 (JObj [(''message'',
                        JStr (''Credenciales inv'' @ [CHR 0xE1] @ ''lidas''))]))"
    using a by (simp add: login_valid invalid_credentials_def message_def)
next
  assume "notEmpty (lb_username b) \<and> notEmpty (lb_password b)
        \<and> find (login_where (str_of (lb_username b))) users = Some v
        \<and> compare (str_of (lb_password b)) (u_password v) \<noteq> Some True"
  then show "login compare generateToken StoreOk e2 now b users
            = (users, Response 401 (JObj [(''message'',
                        JStr (''Credenciales inv'' @ [CHR 0xE1] @ ''lidas''))]))"
    by (simp add: login_valid invalid_credentials_def message_def)
qed


theorem login_only_for_active_user_with_matching_password_witness:
  "status_code (snd (login sample_compare sample_token StoreOk StoreOk
                      ''2026-11-02 09:00:00'' admin_login [u_disabled, u_admin])) = 200
   \<and> u_active u_admin = Some 1 \<and> lb_username admin_login = Some (u_username u_admin)
   \<and> sample_compare ''admin123'' (u_password u_admin) = Some True
   \<and> login sample_compare sample_token StoreOk StoreOk ''2026-11-02 09:00:00''
         \<lparr>lb_username = Some ''maria'', lb_password = Some ''admin123''\<rparr>
         [u_disabled, u_admin]
       = ([u_disabled, u_admin],
          Response 401 (JObj [(''message'',
                               JStr (''Credenciales inv'' @ [CHR 0xE1] @ ''lidas''))]))
   \<and> login sample_compare sample_token StoreOk StoreOk ''2026-11-02 09:00:00''
         \<lparr>lb_username = Some ''admin@beachscape.com'', lb_password = Some ''wrong''\<rparr>
         [u_disabled, u_admin]
       = ([u_disabled, u_admin],
          Response 401 (JObj [(''message'',
                               JStr (''Credenciales inv'' @ [CHR 0xE1] @ ''lidas''))]))"
proof -
  have ok: "status_code (snd (login sample_compare sample_token StoreOk StoreOk
                      ''2026-11-02 09:00:00'' admin_login [u_disabled, u_admin])) = 200"
    by (simp add: login_def check_def notEmpty_def str_of_def admin_login_def login_where_def
          u_disabled_def u_admin_def sample_compare_def Let_def)
  have inactive: "notEmpty (Some ''maria'') \<and> notEmpty (Some ''admin123'')
        \<and> \<not> list_ex (\<lambda>u. (Some ''maria'' = Some (u_username u)
                             \<or> Some ''maria'' = Some (u_email u))
                          \<and> u_active u = Some 1) [u_disabled, u_admin]"
    by (simp add: notEmpty_def u_disabled_def u_admin_def)
  have wrong: "notEmpty (Some ''admin@beachscape.com'') \<and> notEmpty (Some ''wrong'')
        \<and> find (login_where (str_of (Some ''admin@beachscape.com''))) [u_disabled, u_admin]
            = Some u_admin
        \<and> sample_compare (str_of (Some ''wrong'')) (u_password u_admin) \<noteq> Some True"
    by (simp add: notEmpty_def str_of_def login_where_def u_disabled_def u_admin_def
          sample_compare_def)
  show ?thesis
    using ok inactive wrong
      login_only_for_active_user_with_matching_password
        [of sample_compare sample_token StoreOk StoreOk "''2026-11-02 09:00:00''"
            "\<lparr>lb_username = Some ''maria'', lb_password = Some ''admin123''\<rparr>"
            "[u_disabled, u_admin]" u_admin]
      login_only_for_active_user_with_matching_password
        [of sample_compare sample_token StoreOk StoreOk "''2026-11-02 09:00:00''"
            "\<lparr>lb_username = Some ''admin@beachscape.com'', lb_password = Some ''wrong''\<rparr>"
            "[u_disabled, u_admin]" u_admin]
      login_only_for_active_user_with_matching_password
        [of sample_compare sample_token StoreOk StoreOk "''2026-11-02 09:00:00''"
            admin_login "[u_disabled, u_admin]" u_admin]
    by (simp add: admin_login_def u_admin_def sample_compare_def)
qed

subsection \<open>The stored hash and the responses\<close>

lemma find_rehash:
  assumes "\<And>u hash. P (u\<lparr>u_password := hash\<rparr>) = P u"
  shows "find P (rehash h users) = map_option (\<lambda>u. u\<lparr>u_password := h u\<rparr>) (find P users)"
  using assms by (induction users) (simp_all add: rehash_def)

lemma profile_rehash: "profile e uid (rehash h users) = profile e uid users"
proof -
  have "find (\<lambda>u. u_id u = uid) (rehash h users)
          = map_option (\<lambda>u. u\<lparr>u_password := h u\<rparr>) (find (\<lambda>u. u_id u = uid) users)"
    by (rule find_rehash) simp
  then show ?thesis
    by (cases e; cases "find (\<lambda>u. u_id u = uid) users") (simp_all add: profile_def)
qed

lemma login_success_body:
  assumes "status_code (snd (login compare generateToken e1 e2 now b users)) = 200"
  shows "\<exists>u. find (login_where (str_of (lb_username b))) users = Some u
           \<and> snd (login compare generateToken e1 e2 now b users)
             = Response 200
                 (JObj [(''message'', JStr ''Login exitoso''),
                        (''token'', JStr (generateToken u)),
                        (''user'',
                         JObj [(''id'', JNum (u_id u)),
                               (''username'', JStr (u_username u)),
                               (''email'', JStr (u_email u)),
                               (''full_name'', JStr (u_full_name u)),
                               (''role'', json_opt (u_role u)),
                               (''department'', json_opt (u_department u))])])"
proof -
  from login_status_200[OF assms] obtain u
    where ne: "notEmpty (lb_username b)" "notEmpty (lb_password b)" and e: "e1 = StoreOk"
      and f: "find (login_where (str_of (lb_username b))) users = Some u"
      and c: "compare (str_of (lb_password b)) (u_password u) = Some True"
    by blast
  then show ?thesis by (simp add: login_valid)
qed

text \<open>
  Claim C10. Take any table of users and the same table with other password hashes. The
  profile response is the same for both. A successful login answers with the message, the
  token and a \<open>user\<close> object of exactly id, username, email, full_name, role and
  department, the token being issued from the id and the role; and when the login succeeds
  on both tables, the two responses are equal.
\<close>

theorem responses_independent_of_password_hash:
  "profile e uid (rehash h users) = profile e uid users
   \<and> (status_code (snd (login compare (spec_generateToken sign) e1 e2 now b users)) = 200
      \<longrightarrow> (\<exists>u \<in> set users.
             snd (login compare (spec_generateToken sign) e1 e2 now b users)
               = Response 200
                   (JObj [(''message'', JStr ''Login exitoso''),
                          (''token'', JStr (sign (u_id u) (u_role u))),
                          (''user'',
                           JObj [(''id'', JNum (u_id u)),
                                 (''username'', JStr (u_username u)),
                                 (''email'', JStr (u_email u)),
                                 (''full_name'', JStr (u_full_name u)),
                                 (''role'', json_opt (u_role u)),
                                 (''department'', json_opt (u_department u))])])))
   \<and> (status_code (snd (login compare (spec_generateToken sign) e1 e2 now b users)) = 200
        \<and> status_code
            (snd (login compare (spec_generateToken sign) e1 e2 now b (rehash h users))) = 200
      \<longrightarrow> snd (login compare (spec_generateToken sign) e1 e2 now b (rehash h users))
            = snd (login compare (spec_generateToken sign) e1 e2 now b users))"
proof (intro conjI impI)
  show "profile e uid (rehash h users) = profile e uid users"
    by (rule profile_rehash)
next
  assume "status_code (snd (login compare (spec_generateToken sign) e1 e2 now b users)) = 200"
  from login_success_body [OF this] show "\<exists>u \<in> set users.
             snd (login compare (spec_generateToken sign) e1 e2 now b users)
               = Response 200
                   (JObj [(''message'', JStr ''Login exitoso''),
                          (''token'', JStr (sign (u_id u) (u_role u))),
                          (''user'',
                           JObj [(''id'', JNum (u_id u)),
                                 (''username'', JStr (u_username u)),
                                 (''email'', JStr (u_email u)),
                                 (''full_name'', JStr (u_full_name u)),
                                 (''role'', json_opt (u_role u)),
                                 (''department'', json_opt (u_department u))])])"
    by (auto simp add: find_Some_iff spec_generateToken_def)
next
  assume a: "status_code (snd (login compare (spec_generateToken sign) e1 e2 now b users)) = 200
        \<and> status_code
            (snd (login compare (spec_generateToken sign) e1 e2 now b (rehash h users))) = 200"
  let ?P = "login_where (str_of (lb_username b))"
  let ?g = "spec_generateToken sign"
  from a login_success_body [of compare ?g e1 e2 now b users] obtain u
    where f: "find ?P users = Some u"
      and r: "snd (login compare ?g e1 e2 now b users)
             = Response 200
                 (JObj [(''message'', JStr ''Login exitoso''),
                        (''token'', JStr (?g u)),
                        (''user'',
                         JObj [(''id'', JNum (u_id u)),
                               (''username'', JStr (u_username u)),
                               (''email'', JStr (u_email u)),
                               (''full_name'', JStr (u_full_name u)),
                               (''role'', json_opt (u_role u)),
                               (''department'', json_opt (u_department u))])])"
    by blast
  from a login_success_body [of compare ?g e1 e2 now b "rehash h users"] obtain u'
    where f': "find ?P (rehash h users) = Some u'"
      and r': "snd (login compare ?g e1 e2 now b (rehash h users))
             = Response 200
                 (JObj [(''message'', JStr ''Login exitoso''),
                        (''token'', JStr (?g u')),
                        (''user'',
                         JObj [(''id'', JNum (u_id u')),
                               (''username'', JStr (u_username u')),
                               (''email'', JStr (u_email u')),
                               (''full_name'', JStr (u_full_name u')),
                               (''role'', json_opt (u_role u')),
                               (''department'', json_opt (u_department u'))])])"
    by blast
  have "find ?P (rehash h users) = map_option (\<lambda>u. u\<lparr>u_password := h u\<rparr>) (find ?P users)"
    by (rule find_rehash) (simp add: login_where_def)
  with f f' have u': "u' = u\<lparr>u_password := h u\<rparr>" by simp
  show "snd (login compare ?g e1 e2 now b (rehash h users))
            = snd (login compare ?g e1 e2 now b users)"
    by (simp add: r r' u' spec_generateToken_def)
qed

theorem responses_independent_of_password_hash_witness:
  "rehash (\<lambda>u. ''$2a$10$hashB'') [u_admin] = [u_admin\<lparr>u_password := ''$2a$10$hashB''\<rparr>]
   \<and> status_code (snd (login sample_compare (spec_generateToken sample_sign) StoreOk StoreOk
                      ''2026-11-02 09:00:00'' admin_login [u_admin])) = 200
   \<and> status_code (snd (login sample_compare (spec_generateToken sample_sign) StoreOk StoreOk
                      ''2026-11-02 09:00:00'' admin_login
                      (rehash (\<lambda>u. ''$2a$10$hashB'') [u_admin]))) = 200
   \<and> snd (login sample_compare (spec_generateToken sample_sign) StoreOk StoreOk
            ''2026-11-02 09:00:00'' admin_login (rehash (\<lambda>u. ''$2a$10$hashB'') [u_admin]))
     = snd (login sample_compare (spec_generateToken sample_sign) StoreOk StoreOk
            ''2026-11-02 09:00:00'' admin_login [u_admin])
   \<and> profile StoreOk 1 (rehash (\<lambda>u. ''$2a$10$hashB'') [u_admin])
     = Response 200
         (JObj [(''user'',
                 JObj [(''id'', JNum 1), (''username'', JStr ''admin''),
                       (''email'', JStr ''admin@beachscape.com''),
                       (''full_name'', JStr ''Administrador del Sistema''),
                       (''role'', JStr ''admin''), (''department'', JStr ''Sistemas''),
                       (''created_at'', JStr ''2026-01-01 00:00:00'')])])"
proof -
  have rh: "rehash (\<lambda>u. ''$2a$10$hashB'') [u_admin] = [u_admin\<lparr>u_password := ''$2a$10$hashB''\<rparr>]"
    by (simp add: rehash_def)
  have s1: "status_code (snd (login sample_compare (spec_generateToken sample_sign) StoreOk
                      StoreOk ''2026-11-02 09:00:00'' admin_login [u_admin])) = 200"
    by (simp add: login_def check_def notEmpty_def str_of_def admin_login_def login_where_def
          u_admin_def sample_compare_def Let_def)
  have s2: "status_code (snd (login sample_compare (spec_generateToken sample_sign) StoreOk
                      StoreOk ''2026-11-02 09:00:00'' admin_login
                      (rehash (\<lambda>u. ''$2a$10$hashB'') [u_admin]))) = 200"
    by (simp add: rehash_def login_def check_def notEmpty_def str_of_def admin_login_def
          login_where_def u_admin_def sample_compare_def Let_def)
  have p: "profile StoreOk 1 [u_admin]
     = Response 200
         (JObj [(''user'',
                 JObj [(''id'', JNum 1), (''username'', JStr ''admin''),
                       (''email'', JStr ''admin@beachscape.com''),
                       (''full_name'', JStr ''Administrador del Sistema''),
                       (''role'', JStr ''admin''), (''department'', JStr ''Sistemas''),
                       (''created_at'', JStr ''2026-01-01 00:00:00'')])])"
    by (simp add: profile_def u_admin_def json_opt_def)
  show ?thesis
    using rh s1 s2 p
      responses_independent_of_password_hash
        [of StoreOk 1 "\<lambda>u. ''$2a$10$hashB''" "[u_admin]" sample_compare sample_sign
            StoreOk StoreOk "''2026-11-02 09:00:00''" admin_login]
    by simp
qed


end
